theory Spec2Isabelle
  imports Complex_Main "HOL-Library.AList"
begin

section \<open>JavaScript values and exceptions\<close>

text \<open>
  The scripts are JavaScript run by k6. Values are dynamically typed, a read of a
  property of \<open>null\<close> or \<open>undefined\<close> throws a \<open>TypeError\<close>, \<open>JSON.parse\<close>
  throws a \<open>SyntaxError\<close> on text that is no JSON, and \<open>throw new Error(msg)\<close>
  raises \<open>Error msg\<close>. A computation that may throw returns \<open>exn + 'a\<close>, with
  \<open>Inl\<close> the exception.
\<close>

datatype exn = SyntaxError | TypeError | Error string

datatype jsval =
    JUndefined
  | JNull
  | JBool bool
  | JNum real
  | JStr string
  | JArr "jsval list"
  | JObj "(string \<times> jsval) list"

text \<open>Truthiness, as used by \<open>!x\<close>, \<open>x && y\<close>, \<open>x || y\<close> and \<open>if (x)\<close>.\<close>

fun truthy :: "jsval \<Rightarrow> bool" where
  "truthy JUndefined = False"
| "truthy JNull = False"
| "truthy (JBool b) = b"
| "truthy (JNum x) = (x \<noteq> 0)"
| "truthy (JStr s) = (s \<noteq> [])"
| "truthy (JArr xs) = True"
| "truthy (JObj kvs) = True"

text \<open>
  The property read \<open>v.k\<close>. The keys read by the scripts (\<open>data\<close>, \<open>accessToken\<close>,
  \<open>userId\<close>, \<open>email\<close>, \<open>scheduleId\<close>, \<open>dayPlanId\<close>, \<open>content\<close>) are no built-in
  properties of strings, numbers, booleans or arrays, so on those the read gives
  \<open>undefined\<close>.
\<close>

fun get_prop :: "jsval \<Rightarrow> string \<Rightarrow> exn + jsval" where
  "get_prop JUndefined k = Inl TypeError"
| "get_prop JNull k = Inl TypeError"
| "get_prop (JObj kvs) k = Inr (case map_of kvs k of None \<Rightarrow> JUndefined | Some v \<Rightarrow> v)"
| "get_prop (JBool b) k = Inr JUndefined"
| "get_prop (JNum x) k = Inr JUndefined"
| "get_prop (JStr s) k = Inr JUndefined"
| "get_prop (JArr xs) k = Inr JUndefined"

definition bindE :: "exn + 'a \<Rightarrow> ('a \<Rightarrow> exn + 'b) \<Rightarrow> exn + 'b" where
  "bindE m f = (case m of Inl e \<Rightarrow> Inl e | Inr x \<Rightarrow> f x)"

definition try_catch :: "exn + 'a \<Rightarrow> (exn \<Rightarrow> exn + 'a) \<Rightarrow> exn + 'a" where
  "try_catch m h = (case m of Inl e \<Rightarrow> h e | Inr x \<Rightarrow> Inr x)"

text \<open>The expression \<open>v && v.k\<close>: the left operand when it is falsy, else the property.\<close>

definition and_prop :: "jsval \<Rightarrow> string \<Rightarrow> exn + jsval" where
  "and_prop v k = (if truthy v then get_prop v k else Inr v)"

text \<open>The expression \<open>a || b\<close>.\<close>

definition js_or :: "jsval \<Rightarrow> jsval \<Rightarrow> jsval" where
  "js_or a b = (if truthy a then a else b)"

text \<open>
  Numbers are IEEE 754 doubles. Every integer of magnitude up to \<open>2\<^sup>5\<^sup>3\<close> is a double;
  a larger one is a double only when it is a multiple of the spacing \<open>2\<^bsup>e - 52\<^esup>\<close> of
  its binade (\<open>2\<^sup>e \<le> |n| < 2\<^bsup>e + 1\<^esup>\<close>). The result of an integer operation is the
  exact result rounded to the nearest double, a tie going to the even multiple.
  \<open>binary_digits n\<close> is \<open>e + 1\<close>. (No number of the scripts comes near the largest
  double, so the overflow to \<open>Infinity\<close> is left out.)
\<close>

function binary_digits :: "int \<Rightarrow> nat" where
  "binary_digits n = (if n \<le> 0 then 0 else Suc (binary_digits (n div 2)))"
  by pat_completeness auto

termination
  by (relation "measure nat") auto

declare binary_digits.simps [simp del]

text \<open>The double nearest to an integer \<open>n \<ge> 0\<close>, and to any integer.\<close>

definition round_to_double :: "int \<Rightarrow> int" where
  "round_to_double n =
     (let u = 2 ^ (binary_digits n - 53);
          q = n div u;
          r = n mod u
      in if 2 * r < u then q * u
         else if 2 * r > u then (q + 1) * u
         else if even q then q * u else (q + 1) * u)"

definition to_double :: "int \<Rightarrow> int" where
  "to_double n = sgn n * round_to_double \<bar>n\<bar>"

text \<open>The subtraction \<open>a - b\<close> of two integers that are doubles.\<close>

definition js_minus :: "int \<Rightarrow> int \<Rightarrow> int" where
  "js_minus a b = to_double (a - b)"

text \<open>
  The JavaScript remainder \<open>a % b\<close> on integers: the sign of the dividend, and \<open>NaN\<close>
  (\<open>None\<close>) for a zero divisor. The remainder of two doubles is exact.
\<close>

definition js_rem :: "int \<Rightarrow> int \<Rightarrow> int option" where
  "js_rem a b = (if b = 0 then None else Some (sgn a * (\<bar>a\<bar> mod \<bar>b\<bar>)))"

text \<open>
  The array read \<open>xs[i]\<close> for an index that was computed as a number: \<open>undefined\<close>
  (\<open>None\<close>) when the index is \<open>NaN\<close> or no element index.
\<close>

definition array_at :: "'a list \<Rightarrow> int option \<Rightarrow> 'a option" where
  "array_at xs index =
     (case index of
        None \<Rightarrow> None
      | Some i \<Rightarrow> if 0 \<le> i \<and> i < int (length xs) then Some (xs ! nat i) else None)"

section \<open>HTTP responses and requests\<close>

text \<open>
  A response body is \<open>null\<close> (k6 gives no body for a request that failed or when
  bodies are discarded), text that \<open>JSON.parse\<close> rejects, or text that \<open>JSON.parse\<close>
  reads as a value; the last keeps both the text and the value. \<open>JSON.parse(null)\<close> is
  \<open>null\<close>.
\<close>

datatype body = NoBody | Malformed string | Json string jsval

fun JSON_parse :: "body \<Rightarrow> exn + jsval" where
  "JSON_parse NoBody = Inr JNull"
| "JSON_parse (Malformed s) = Inl SyntaxError"
| "JSON_parse (Json s v) = Inr v"

record response =
  status :: int
  body :: body
  duration :: real
  cookies :: jsval

datatype http_verb = GET | POST | PUT | DELETE | PATCH

text \<open>
  A template literal is kept as its parts: literal text, an interpolated value, and an
  interpolated \<open>encodeURIComponent(value)\<close>.
\<close>

datatype part = Lit string | Val jsval | Enc jsval

record request =
  verb :: http_verb
  url :: "part list"
  payload :: "jsval option"
  headers :: "(string \<times> part list) list"
  req_cookies :: "jsval option"
  tag :: string
  timeout :: string

section \<open>config.js\<close>

record timeouts =
  default :: string
  ai_related :: string

record config =
  BASE_URL :: string
  DEFAULT_HEADERS :: "(string \<times> string) list"
  TIMEOUTS :: timeouts

definition config_js :: config where
  "config_js =
     \<lparr> BASE_URL = ''https://molip.today/api/task'',
       DEFAULT_HEADERS = [(''Content-Type'', ''application/json''), (''Accept'', ''application/json'')],
       TIMEOUTS = \<lparr> default = ''10s'', ai_related = ''30s'' \<rparr> \<rparr>"

section \<open>The k6 runtime seen by one virtual user\<close>

text \<open>
  The state a virtual user's code reads and writes: the configuration objects exported
  by config.js, the requests sent so far (oldest first), the samples of every
  \<open>Trend\<close> and \<open>Rate\<close> metric by metric name, and the outcome of every \<open>check\<close>
  predicate. The target system is a function from the requests sent before and the
  request sent now to the response; every sequence of responses is such a function.
  \<open>sleep\<close> and \<open>console\<close> output change nothing that the scripts read and are left out.
\<close>

record world =
  cfg :: config
  sent :: "request list"
  trends :: "string \<Rightarrow> real list"
  rates :: "string \<Rightarrow> bool list"
  checks :: "(string \<times> bool) list"

type_synonym server = "request list \<Rightarrow> request \<Rightarrow> response"

definition http_request :: "server \<Rightarrow> request \<Rightarrow> world \<Rightarrow> response \<times> world" where
  "http_request srv req w = (srv (sent w) req, w\<lparr>sent := sent w @ [req]\<rparr>)"

definition Trend_add :: "string \<Rightarrow> real \<Rightarrow> world \<Rightarrow> world" where
  "Trend_add m x w = w\<lparr>trends := (trends w)(m := trends w m @ [x])\<rparr>"

definition Rate_add :: "string \<Rightarrow> bool \<Rightarrow> world \<Rightarrow> world" where
  "Rate_add m b w = w\<lparr>rates := (rates w)(m := rates w m @ [b])\<rparr>"

text \<open>
  \<open>check(val, sets)\<close> runs every predicate of \<open>sets\<close> on \<open>val\<close> in order, records the
  truthiness of each result under the predicate's name and returns whether all passed.
  An exception thrown by a predicate leaves \<open>check\<close>.
\<close>

fun check :: "response \<Rightarrow> (string \<times> (response \<Rightarrow> exn + jsval)) list \<Rightarrow> world
    \<Rightarrow> exn + (bool \<times> world)" where
  "check r [] w = Inr (True, w)"
| "check r ((name, p) # ps) w =
     (case p r of
        Inl e \<Rightarrow> Inl e
      | Inr v \<Rightarrow>
          (case check r ps (w\<lparr>checks := checks w @ [(name, truthy v)]\<rparr>) of
             Inl e \<Rightarrow> Inl e
           | Inr (b, w') \<Rightarrow> Inr (truthy v \<and> b, w')))"


section \<open>helpers.js\<close>

subsection \<open>Custom metrics\<close>

definition loginDuration :: string where "loginDuration = ''login_duration''"
definition loginFailRate :: string where "loginFailRate = ''login_failures''"
definition refreshTokenDuration :: string where "refreshTokenDuration = ''refresh_token_duration''"
definition signupDuration :: string where "signupDuration = ''signup_duration''"
definition getProfileDuration :: string where "getProfileDuration = ''get_profile_duration''"
definition searchUsersDuration :: string where "searchUsersDuration = ''search_users_duration''"
definition createScheduleDuration :: string where "createScheduleDuration = ''create_schedule_duration''"
definition getSchedulesDuration :: string where "getSchedulesDuration = ''get_schedules_duration''"
definition updateScheduleDuration :: string where "updateScheduleDuration = ''update_schedule_duration''"
definition deleteScheduleDuration :: string where "deleteScheduleDuration = ''delete_schedule_duration''"
definition aiArrangementDuration :: string where "aiArrangementDuration = ''ai_arrangement_duration''"
definition fullScenarioDuration :: string where "fullScenarioDuration = ''full_scenario_duration''"
definition scenarioFailRate :: string where "scenarioFailRate = ''scenario_failures''"

subsection \<open>Request parameters and check predicates\<close>

text \<open>\<open>headers: DEFAULT_HEADERS\<close>.\<close>

definition json_headers :: "config \<Rightarrow> (string \<times> part list) list" where
  "json_headers c = map (\<lambda>(k, v). (k, [Lit v])) (DEFAULT_HEADERS c)"

text \<open>
  \<open>headers: { ...DEFAULT_HEADERS, 'Authorization': `Bearer ${accessToken}` }\<close>: the
  spread keeps the keys in order, the later key replaces an equal one or is appended.
\<close>

definition auth_headers :: "config \<Rightarrow> jsval \<Rightarrow> (string \<times> part list) list" where
  "auth_headers c accessToken =
     AList.update ''Authorization'' [Lit ''Bearer '', Val accessToken] (json_headers c)"

text \<open>\<open>(r) => r.status === n\<close> and \<open>(r) => r.timings.duration < ms\<close>.\<close>

definition status_is :: "int \<Rightarrow> response \<Rightarrow> exn + jsval" where
  "status_is n r = Inr (JBool (status r = n))"

definition faster_than :: "real \<Rightarrow> response \<Rightarrow> exn + jsval" where
  "faster_than ms r = Inr (JBool (duration r < ms))"

text \<open>
  The predicate that six helpers write inline, with \<open>f\<close> the field they need:
  \<^verbatim>\<open>
  (r) => {
      try {
          const body = JSON.parse(r.body);
          return body.data && body.data.f;
      } catch (e) {
          return false;
      }
  }
  \<close>
\<close>

definition has_data_field :: "string \<Rightarrow> response \<Rightarrow> exn + jsval" where
  "has_data_field f r =
     try_catch
       (bindE (JSON_parse (body r)) (\<lambda>b.
        bindE (get_prop b ''data'') (\<lambda>d.
        and_prop d f)))
       (\<lambda>e. Inr (JBool False))"

subsection \<open>Authentication\<close>

definition login_request :: "config \<Rightarrow> string \<Rightarrow> string \<Rightarrow> request" where
  "login_request c email password =
     \<lparr> verb = POST,
       url = [Lit (BASE_URL c), Lit ''/token''],
       payload = Some (JObj [(''email'', JStr email), (''password'', JStr password)]),
       headers = json_headers c, req_cookies = None,
       tag = ''login'', timeout = default (TIMEOUTS c) \<rparr>"

definition login :: "server \<Rightarrow> string \<Rightarrow> string \<Rightarrow> world
    \<Rightarrow> exn + (jsval \<times> world)" where
  "login srv email password w =
     (let (response, w1) = http_request srv (login_request (cfg w) email password) w;
          w2 = Trend_add loginDuration (duration response) w1
      in bindE (check response
                  [(''login: status is 200'', status_is 200),
                   (''login: has access token'', has_data_field ''accessToken''),
                   (''login: response time < 500ms'', faster_than 500)] w2)
           (\<lambda>(success, w3).
              let w4 = Rate_add loginFailRate (\<not> success) w3 in
              if \<not> success then Inr (JNull, w4)
              else bindE (JSON_parse (body response)) (\<lambda>b.
                   bindE (get_prop b ''data'') (\<lambda>d.
                   bindE (get_prop d ''accessToken'') (\<lambda>t.
                   Inr (JObj [(''accessToken'', t), (''cookies'', cookies response)], w4))))))"

definition refreshToken_request :: "config \<Rightarrow> jsval \<Rightarrow> request" where
  "refreshToken_request c cookies' =
     \<lparr> verb = PUT,
       url = [Lit (BASE_URL c), Lit ''/token''],
       payload = None,
       headers = json_headers c, req_cookies = Some cookies',
       tag = ''refresh_token'', timeout = default (TIMEOUTS c) \<rparr>"

definition refreshToken :: "server \<Rightarrow> jsval \<Rightarrow> world
    \<Rightarrow> exn + (jsval \<times> world)" where
  "refreshToken srv cookies' w =
     (let (response, w1) = http_request srv (refreshToken_request (cfg w) cookies') w;
          w2 = Trend_add refreshTokenDuration (duration response) w1
      in bindE (check response
                  [(''refresh: status is 200'', status_is 200),
                   (''refresh: has new access token'', has_data_field ''accessToken''),
                   (''refresh: response time < 300ms'', faster_than 300)] w2)
           (\<lambda>(success, w3).
              if \<not> success then Inr (JNull, w3)
              else bindE (JSON_parse (body response)) (\<lambda>b.
                   bindE (get_prop b ''data'') (\<lambda>d.
                   bindE (get_prop d ''accessToken'') (\<lambda>t.
                   Inr (JObj [(''accessToken'', t), (''cookies'', cookies response)], w3))))))"

definition logout_request :: "config \<Rightarrow> jsval \<Rightarrow> request" where
  "logout_request c accessToken =
     \<lparr> verb = DELETE,
       url = [Lit (BASE_URL c), Lit ''/token''],
       payload = None,
       headers = auth_headers c accessToken, req_cookies = None,
       tag = ''logout'', timeout = default (TIMEOUTS c) \<rparr>"

definition logout :: "server \<Rightarrow> jsval \<Rightarrow> world
    \<Rightarrow> exn + (jsval \<times> world)" where
  "logout srv accessToken w =
     (let (response, w1) = http_request srv (logout_request (cfg w) accessToken) w
      in bindE (check response
                  [(''logout: status is 204'', status_is 204)] w1)
           (\<lambda>(success, w2).
              Inr (JUndefined, w2)))"

text \<open>
  \<open>signup()\<close> draws its email from \<open>randomEmail()\<close>; the drawn value is the argument
  \<open>email\<close>. The check named "status is 201" compares with 200, as in the source.
\<close>

definition signup_terms :: jsval where
  "signup_terms =
     JArr [JObj [(''termsId'', JNum 1), (''isAgreed'', JBool True)],
           JObj [(''termsId'', JNum 2), (''isAgreed'', JBool True)],
           JObj [(''termsId'', JNum 3), (''isAgreed'', JBool True)]]"

definition signup_request :: "config \<Rightarrow> string \<Rightarrow> request" where
  "signup_request c email =
     \<lparr> verb = POST,
       url = [Lit (BASE_URL c), Lit ''/users''],
       payload = Some (JObj
            [(''email'', JStr email), (''password'', JStr ''Test1234!''),
             (''nickname'', JStr ''testUser''), (''gender'', JStr ''MALE''),
             (''birth'', JStr ''1990.01.01''), (''focusTimeZone'', JStr ''MORNING''),
             (''dayEndTime'', JStr ''23:00''), (''profileImageKey'', JNull),
             (''terms'', signup_terms)]),
       headers = json_headers c, req_cookies = None,
       tag = ''signup'', timeout = default (TIMEOUTS c) \<rparr>"

definition signup :: "server \<Rightarrow> string \<Rightarrow> world
    \<Rightarrow> exn + (jsval \<times> world)" where
  "signup srv email w =
     (let (response, w1) = http_request srv (signup_request (cfg w) email) w;
          w2 = Trend_add signupDuration (duration response) w1
      in bindE (check response
                  [(''signup: status is 201'', status_is 200),
                   (''signup: has user id'', has_data_field ''userId'')] w2)
           (\<lambda>(success, w3).
              if \<not> success then Inr (JNull, w3)
              else bindE (JSON_parse (body response)) (\<lambda>b.
                   bindE (get_prop b ''data'') (\<lambda>d.
                   bindE (get_prop d ''userId'') (\<lambda>u.
                   bindE (get_prop d ''accessToken'') (\<lambda>t.
                   Inr (JObj [(''userId'', u), (''accessToken'', t),
                              (''cookies'', cookies response)], w3)))))))"

subsection \<open>Users\<close>

definition getProfile_request :: "config \<Rightarrow> jsval \<Rightarrow> request" where
  "getProfile_request c accessToken =
     \<lparr> verb = GET,
       url = [Lit (BASE_URL c), Lit ''/users''],
       payload = None,
       headers = auth_headers c accessToken, req_cookies = None,
       tag = ''get_profile'', timeout = default (TIMEOUTS c) \<rparr>"

definition getProfile :: "server \<Rightarrow> jsval \<Rightarrow> world
    \<Rightarrow> exn + (jsval \<times> world)" where
  "getProfile srv accessToken w =
     (let (response, w1) = http_request srv (getProfile_request (cfg w) accessToken) w;
          w2 = Trend_add getProfileDuration (duration response) w1
      in bindE (check response
                  [(''get_profile: status is 200'', status_is 200),
                   (''get_profile: has user data'', has_data_field ''email''),
                   (''get_profile: response time < 500ms'', faster_than 500)] w2)
           (\<lambda>(success, w3).
              if \<not> success then Inr (JNull, w3)
              else bindE (JSON_parse (body response)) (\<lambda>b.
                   bindE (get_prop b ''data'') (\<lambda>d.
                   Inr (d, w3)))))"

text \<open>The parameters \<open>page = 1, size = 10\<close> have defaults in the source; callers of
  the model pass them.\<close>

definition searchUsers_request :: "config \<Rightarrow> jsval \<Rightarrow> string \<Rightarrow> jsval \<Rightarrow> jsval \<Rightarrow> request" where
  "searchUsers_request c accessToken nickname page size' =
     \<lparr> verb = GET,
       url = [Lit (BASE_URL c), Lit ''/users/nickname?nickname='', Enc (JStr nickname),
             Lit ''&page='', Val page, Lit ''&size='', Val size'],
       payload = None,
       headers = auth_headers c accessToken, req_cookies = None,
       tag = ''search_users'', timeout = default (TIMEOUTS c) \<rparr>"

definition searchUsers :: "server \<Rightarrow> jsval \<Rightarrow> string \<Rightarrow> jsval \<Rightarrow> jsval \<Rightarrow> world
    \<Rightarrow> exn + (response \<times> world)" where
  "searchUsers srv accessToken nickname page size' w =
     (let (response, w1) = http_request srv (searchUsers_request (cfg w) accessToken nickname page size') w;
          w2 = Trend_add searchUsersDuration (duration response) w1
      in bindE (check response
                  [(''search_users: status is 200'', status_is 200),
                   (''search_users: response time < 1000ms'', faster_than 1000)] w2)
           (\<lambda>(success, w3).
              Inr (response, w3)))"

subsection \<open>Schedules\<close>

text \<open>
  \<open>createSchedule\<close> builds \<open>defaultData\<close> from \<open>randomString\<close>, the clock and
  \<open>Math.random\<close>; the built object is the argument \<open>defaultData\<close>. The payload is
  \<open>scheduleData || defaultData\<close>. The check named "status is 201" compares with 200.
\<close>

definition createSchedule_request :: "config \<Rightarrow> jsval \<Rightarrow> jsval \<Rightarrow> jsval \<Rightarrow> jsval \<Rightarrow> request" where
  "createSchedule_request c accessToken dayPlanId scheduleData defaultData =
     \<lparr> verb = POST,
       url = [Lit (BASE_URL c), Lit ''/day-plan/'', Val dayPlanId, Lit ''/schedule''],
       payload = Some (js_or scheduleData defaultData),
       headers = auth_headers c accessToken, req_cookies = None,
       tag = ''create_schedule'', timeout = default (TIMEOUTS c) \<rparr>"

definition createSchedule :: "server \<Rightarrow> jsval \<Rightarrow> jsval \<Rightarrow> jsval \<Rightarrow> jsval \<Rightarrow> world
    \<Rightarrow> exn + (jsval \<times> world)" where
  "createSchedule srv accessToken dayPlanId scheduleData defaultData w =
     (let (response, w1) = http_request srv (createSchedule_request (cfg w) accessToken dayPlanId scheduleData defaultData) w;
          w2 = Trend_add createScheduleDuration (duration response) w1
      in bindE (check response
                  [(''create_schedule: status is 201'', status_is 200),
                   (''create_schedule: has schedule id'', has_data_field ''scheduleId''),
                   (''create_schedule: response time < 1500ms'', faster_than 1500)] w2)
           (\<lambda>(success, w3).
              if \<not> success then Inr (JNull, w3)
              else bindE (JSON_parse (body response)) (\<lambda>b.
                   bindE (get_prop b ''data'') (\<lambda>d.
                   Inr (d, w3)))))"

text \<open>\<open>getTodayDate()\<close> reads the clock; the date read is the argument \<open>today\<close>.\<close>

definition getSchedules_request :: "config \<Rightarrow> string \<Rightarrow> jsval \<Rightarrow> jsval \<Rightarrow> jsval \<Rightarrow> jsval \<Rightarrow> request" where
  "getSchedules_request c today accessToken dayPlanId page size' =
     \<lparr> verb = GET,
       url = [Lit (BASE_URL c), Lit ''/day-plan/schedule?date='', Val (JStr today),
             Lit ''&page='', Val page, Lit ''&size='', Val size'],
       payload = None,
       headers = auth_headers c accessToken, req_cookies = None,
       tag = ''get_schedules'', timeout = default (TIMEOUTS c) \<rparr>"

definition getSchedules :: "server \<Rightarrow> string \<Rightarrow> jsval \<Rightarrow> jsval \<Rightarrow> jsval \<Rightarrow> jsval \<Rightarrow> world
    \<Rightarrow> exn + (response \<times> world)" where
  "getSchedules srv today accessToken dayPlanId page size' w =
     (let (response, w1) = http_request srv (getSchedules_request (cfg w) today accessToken dayPlanId page size') w;
          w2 = Trend_add getSchedulesDuration (duration response) w1
      in bindE (check response
                  [(''get_schedules: status is 200'', status_is 200),
                   (''get_schedules: response time < 1000ms'', faster_than 1000)] w2)
           (\<lambda>(success, w3).
              Inr (response, w3)))"

text \<open>
  The target date is \<open>date || getTodayDate()\<close>. The result of \<open>getSchedulesByDate\<close>
  holds the response object in its field \<open>response\<close>. No caller reads that field; as
  a value the response keeps its status, timing and cookies.
\<close>

definition response_object :: "response \<Rightarrow> jsval" where
  "response_object r =
     JObj [(''status'', JNum (of_int (status r))),
           (''timings'', JObj [(''duration'', JNum (duration r))]),
           (''cookies'', cookies r)]"

definition getSchedulesByDate_request :: "config \<Rightarrow> string \<Rightarrow> jsval \<Rightarrow> jsval \<Rightarrow> request" where
  "getSchedulesByDate_request c today accessToken date =
     \<lparr> verb = GET,
       url = [Lit (BASE_URL c), Lit ''/day-plan/schedule?date='', Val (js_or date (JStr today)),
             Lit ''&page=1&size=10''],
       payload = None,
       headers = auth_headers c accessToken, req_cookies = None,
       tag = ''get_schedules_by_date'', timeout = default (TIMEOUTS c) \<rparr>"

definition getSchedulesByDate :: "server \<Rightarrow> string \<Rightarrow> jsval \<Rightarrow> jsval \<Rightarrow> world
    \<Rightarrow> exn + (jsval \<times> world)" where
  "getSchedulesByDate srv today accessToken date w =
     (let (response, w1) = http_request srv (getSchedulesByDate_request (cfg w) today accessToken date) w;
          w2 = Trend_add getSchedulesDuration (duration response) w1
      in bindE (check response
                  [(''get_schedules_by_date: status is 200'', status_is 200),
                   (''get_schedules_by_date: has dayPlanId'', has_data_field ''dayPlanId'')] w2)
           (\<lambda>(success, w3).
              if \<not> success then Inr (JNull, w3)
              else bindE (JSON_parse (body response)) (\<lambda>b.
                   bindE (get_prop b ''data'') (\<lambda>d.
                   bindE (get_prop d ''dayPlanId'') (\<lambda>i.
                   bindE (get_prop d ''content'') (\<lambda>c.
                   Inr (JObj [(''dayPlanId'', i), (''schedules'', js_or c (JArr [])),
                              (''response'', response_object response)], w3)))))))"

definition getDayPlanId :: "server \<Rightarrow> string \<Rightarrow> jsval \<Rightarrow> jsval \<Rightarrow> world
    \<Rightarrow> exn + (jsval \<times> world)" where
  "getDayPlanId srv today accessToken date w =
     bindE (getSchedulesByDate srv today accessToken date w) (\<lambda>(result, w1).
       if \<not> truthy result then Inr (JNull, w1)
       else bindE (get_prop result ''dayPlanId'') (\<lambda>i. Inr (i, w1)))"

definition updateSchedule_request :: "config \<Rightarrow> jsval \<Rightarrow> jsval \<Rightarrow> jsval \<Rightarrow> request" where
  "updateSchedule_request c accessToken scheduleId updateData =
     \<lparr> verb = PUT,
       url = [Lit (BASE_URL c), Lit ''/schedule/'', Val scheduleId],
       payload = Some updateData,
       headers = auth_headers c accessToken, req_cookies = None,
       tag = ''update_schedule'', timeout = default (TIMEOUTS c) \<rparr>"

definition updateSchedule :: "server \<Rightarrow> jsval \<Rightarrow> jsval \<Rightarrow> jsval \<Rightarrow> world
    \<Rightarrow> exn + (response \<times> world)" where
  "updateSchedule srv accessToken scheduleId updateData w =
     (let (response, w1) = http_request srv (updateSchedule_request (cfg w) accessToken scheduleId updateData) w;
          w2 = Trend_add updateScheduleDuration (duration response) w1
      in bindE (check response
                  [(''update_schedule: status is 204'', status_is 204),
                   (''update_schedule: response time < 1000ms'', faster_than 1000)] w2)
           (\<lambda>(success, w3).
              Inr (response, w3)))"

definition deleteSchedule_request :: "config \<Rightarrow> jsval \<Rightarrow> jsval \<Rightarrow> request" where
  "deleteSchedule_request c accessToken scheduleId =
     \<lparr> verb = DELETE,
       url = [Lit (BASE_URL c), Lit ''/schedule/'', Val scheduleId],
       payload = None,
       headers = auth_headers c accessToken, req_cookies = None,
       tag = ''delete_schedule'', timeout = default (TIMEOUTS c) \<rparr>"

definition deleteSchedule :: "server \<Rightarrow> jsval \<Rightarrow> jsval \<Rightarrow> world
    \<Rightarrow> exn + (response \<times> world)" where
  "deleteSchedule srv accessToken scheduleId w =
     (let (response, w1) = http_request srv (deleteSchedule_request (cfg w) accessToken scheduleId) w;
          w2 = Trend_add deleteScheduleDuration (duration response) w1
      in bindE (check response
                  [(''delete_schedule: status is 204'', status_is 204)] w2)
           (\<lambda>(success, w3).
              Inr (response, w3)))"

definition updateScheduleStatus_request :: "config \<Rightarrow> jsval \<Rightarrow> jsval \<Rightarrow> string \<Rightarrow> request" where
  "updateScheduleStatus_request c accessToken scheduleId status' =
     \<lparr> verb = PATCH,
       url = [Lit (BASE_URL c), Lit ''/schedule/'', Val scheduleId, Lit ''/status''],
       payload = Some (JObj [(''status'', JStr status')]),
       headers = auth_headers c accessToken, req_cookies = None,
       tag = ''update_schedule_status'', timeout = default (TIMEOUTS c) \<rparr>"

definition updateScheduleStatus :: "server \<Rightarrow> jsval \<Rightarrow> jsval \<Rightarrow> string \<Rightarrow> world
    \<Rightarrow> exn + (response \<times> world)" where
  "updateScheduleStatus srv accessToken scheduleId status' w =
     (let (response, w1) = http_request srv (updateScheduleStatus_request (cfg w) accessToken scheduleId status') w
      in bindE (check response
                  [(''update_schedule_status: status is 204'', status_is 204)] w1)
           (\<lambda>(success, w2).
              Inr (response, w2)))"

text \<open>\<open>(r) => r.status === 200 || r.status === 201\<close>.\<close>

definition status_is_200_or_201 :: "response \<Rightarrow> exn + jsval" where
  "status_is_200_or_201 r = Inr (JBool (status r = 200 \<or> status r = 201))"

definition aiScheduleArrangement_request :: "config \<Rightarrow> jsval \<Rightarrow> jsval \<Rightarrow> request" where
  "aiScheduleArrangement_request c accessToken dayPlanId =
     \<lparr> verb = POST,
       url = [Lit (BASE_URL c), Lit ''/day-plan/'', Val dayPlanId,
             Lit ''/schedules/ai-arrangement''],
       payload = None,
       headers = auth_headers c accessToken, req_cookies = None,
       tag = ''ai_arrangement'', timeout = ai_related (TIMEOUTS c) \<rparr>"

definition aiScheduleArrangement :: "server \<Rightarrow> jsval \<Rightarrow> jsval \<Rightarrow> world
    \<Rightarrow> exn + (response \<times> world)" where
  "aiScheduleArrangement srv accessToken dayPlanId w =
     (let (response, w1) = http_request srv (aiScheduleArrangement_request (cfg w) accessToken dayPlanId) w;
          w2 = Trend_add aiArrangementDuration (duration response) w1
      in bindE (check response
                  [(''ai_arrangement: status is 200 or 201'', status_is_200_or_201),
                   (''ai_arrangement: response time < 5000ms'', faster_than 5000)] w2)
           (\<lambda>(success, w3).
              Inr (response, w3)))"

subsection \<open>Notifications\<close>

definition getNotifications_request :: "config \<Rightarrow> jsval \<Rightarrow> jsval \<Rightarrow> jsval \<Rightarrow> request" where
  "getNotifications_request c accessToken page size' =
     \<lparr> verb = GET,
       url = [Lit (BASE_URL c), Lit ''/notifications?page='', Val page,
             Lit ''&size='', Val size'],
       payload = None,
       headers = auth_headers c accessToken, req_cookies = None,
       tag = ''get_notifications'', timeout = default (TIMEOUTS c) \<rparr>"

definition getNotifications :: "server \<Rightarrow> jsval \<Rightarrow> jsval \<Rightarrow> jsval \<Rightarrow> world
    \<Rightarrow> exn + (response \<times> world)" where
  "getNotifications srv accessToken page size' w =
     (let (response, w1) = http_request srv (getNotifications_request (cfg w) accessToken page size') w
      in bindE (check response
                  [(''get_notifications: status is 200'', status_is 200)] w1)
           (\<lambda>(success, w2).
              Inr (response, w2)))"

definition registerFcmToken_request :: "config \<Rightarrow> jsval \<Rightarrow> string \<Rightarrow> string \<Rightarrow> request" where
  "registerFcmToken_request c accessToken fcmToken platform =
     \<lparr> verb = POST,
       url = [Lit (BASE_URL c), Lit ''/fcm-tokens''],
       payload = Some (JObj [(''fcmToken'', JStr fcmToken), (''platform'', JStr platform)]),
       headers = auth_headers c accessToken, req_cookies = None,
       tag = ''register_fcm_token'', timeout = default (TIMEOUTS c) \<rparr>"

definition registerFcmToken :: "server \<Rightarrow> jsval \<Rightarrow> string \<Rightarrow> string \<Rightarrow> world
    \<Rightarrow> exn + (response \<times> world)" where
  "registerFcmToken srv accessToken fcmToken platform w =
     (let (response, w1) = http_request srv (registerFcmToken_request (cfg w) accessToken fcmToken platform) w
      in bindE (check response
                  [(''register_fcm_token: status is 204'', status_is 204)] w1)
           (\<lambda>(success, w2).
              Inr (response, w2)))"

subsection \<open>Health check\<close>

text \<open>The health check passes no headers; it returns the result of \<open>check\<close>.\<close>

definition healthCheck_request :: "config \<Rightarrow> request" where
  "healthCheck_request c =
     \<lparr> verb = GET,
       url = [Lit (BASE_URL c), Lit ''/''],
       payload = None,
       headers = [], req_cookies = None,
       tag = ''health_check'', timeout = default (TIMEOUTS c) \<rparr>"

definition healthCheck :: "server \<Rightarrow> world
    \<Rightarrow> exn + (bool \<times> world)" where
  "healthCheck srv w =
     (let (response, w1) = http_request srv (healthCheck_request (cfg w)) w
      in bindE (check response
                  [(''health_check: status is 200'', status_is 200),
                   (''health_check: response time < 100ms'', faster_than 100)] w1)
           (\<lambda>(success, w2).
              Inr (success, w2)))"

subsection \<open>signupTestUser\<close>

text \<open>
  \<open>signupTestUser\<close> is called by the \<open>setup()\<close> of the second load test only. It
  extracts nothing; it reads the status and searches the body text:
  \<^verbatim>\<open>
  if (response.status === 200) { return true; }
  else if (response.status === 409 || response.body.includes('DUPLICATE')) { return true; }
  else { return false; }
  \<close>
  \<open>response.body.includes\<close> throws a \<open>TypeError\<close> on a \<open>null\<close> body and searches the
  text of any other body.
\<close>

fun contains :: "string \<Rightarrow> string \<Rightarrow> bool" where
  "contains needle [] = (needle = [])"
| "contains needle (c # cs) = (take (length needle) (c # cs) = needle \<or> contains needle cs)"

fun body_includes :: "body \<Rightarrow> string \<Rightarrow> exn + bool" where
  "body_includes NoBody needle = Inl TypeError"
| "body_includes (Malformed s) needle = Inr (contains needle s)"
| "body_includes (Json s v) needle = Inr (contains needle s)"

definition signupTestUser_request :: "config \<Rightarrow> string \<Rightarrow> string \<Rightarrow> string \<Rightarrow> request" where
  "signupTestUser_request c email password nickname =
     \<lparr> verb = POST,
       url = [Lit (BASE_URL c), Lit ''/users''],
       payload = Some (JObj
            [(''email'', JStr email), (''password'', JStr password),
             (''nickname'', JStr nickname), (''gender'', JStr ''MALE''),
             (''birth'', JStr ''1990.01.01''), (''focusTimeZone'', JStr ''MORNING''),
             (''dayEndTime'', JStr ''23:00''), (''profileImageKey'', JNull),
             (''terms'', signup_terms)]),
       headers = json_headers c, req_cookies = None,
       tag = ''setup_signup'', timeout = default (TIMEOUTS c) \<rparr>"

definition signupTestUser :: "server \<Rightarrow> string \<Rightarrow> string \<Rightarrow> string \<Rightarrow> world
    \<Rightarrow> exn + (bool \<times> world)" where
  "signupTestUser srv email password nickname w =
     (let (response, w1) = http_request srv
            (signupTestUser_request (cfg w) email password nickname) w
      in if status response = 200 then Inr (True, w1)
         else if status response = 409 then Inr (True, w1)
         else bindE (body_includes (body response) ''DUPLICATE'') (\<lambda>dup.
                if dup then Inr (True, w1) else Inr (False, w1)))"

subsection \<open>selectTestUser\<close>

text \<open>
  \<^verbatim>\<open>
  export function selectTestUser(users, vuId) {
      const index = (vuId - 1) % users.length;
      return users[index];
  }
  \<close>
  \<open>vuId\<close> is k6's \<open>__VU\<close>, a number with an integer value; \<open>vuId - 1\<close> is rounded to a
  double. Reading an array at an index that is no element index gives \<open>undefined\<close>,
  the result \<open>None\<close>.
\<close>

definition selectTestUser :: "'a list \<Rightarrow> int \<Rightarrow> 'a option" where
  "selectTestUser users vuId =
     (let index = js_rem (js_minus vuId 1) (int (length users))
      in array_at users index)"

section \<open>The journeys\<close>

text \<open>
  One iteration of a journey reads the clock and draws random numbers. The values it
  reads are the fields of \<open>draws\<close>: the email of \<open>randomEmail()\<close>, the title, times
  and focus level of the schedule literal, the literal that \<open>createSchedule\<close> builds
  for itself, the date of \<open>getTodayDate()\<close>, the measured \<open>new Date() - scenarioStart\<close>,
  the \<open>Math.random()\<close> results that decide whether a schedule is created (spike and
  breakpoint tests), whether the user logs out (spike test) and whether the schedule
  is urgent (active user), and, for the loop of the power user, the schedule literal
  of every round with the literal that \<open>createSchedule\<close> builds for itself in that
  round; the number of rounds, \<open>Math.floor(Math.random() * 3) + 3\<close>, is the length of
  that list.
\<close>

record draws =
  d_email :: string
  d_title :: string
  d_startAt :: string
  d_endAt :: string
  d_focusLevel :: real
  d_defaultData :: jsval
  d_today :: string
  d_elapsed :: real
  d_roll_create :: real
  d_roll_logout :: real
  d_roll_urgent :: real
  d_power_tasks :: "(jsval \<times> jsval) list"

definition schedule_literal :: "draws \<Rightarrow> string \<Rightarrow> real \<Rightarrow> jsval" where
  "schedule_literal d timeRange focus =
     JObj [(''type'', JStr ''FLEX''), (''title'', JStr (d_title d)),
           (''startAt'', JStr (d_startAt d)), (''endAt'', JStr (d_endAt d)),
           (''estimatedTimeRange'', JStr timeRange), (''focusLevel'', JNum focus),
           (''isUrgent'', JBool False)]"

text \<open>
  The first group of every journey:
  \<^verbatim>\<open>
  let accessToken = null;
  group('01_Signup', function () {
      const signupResult = signup();
      if (!signupResult) { scenarioSuccess = false; return; }
      accessToken = signupResult.accessToken;
  });
  \<close>
  It gives the new \<open>scenarioSuccess\<close> and \<open>accessToken\<close>.
\<close>

definition signup_group :: "server \<Rightarrow> draws \<Rightarrow> world \<Rightarrow> exn + ((bool \<times> jsval) \<times> world)" where
  "signup_group srv d w =
     bindE (signup srv (d_email d) w) (\<lambda>(signupResult, w1).
       if \<not> truthy signupResult then Inr ((False, JNull), w1)
       else bindE (get_prop signupResult ''accessToken'') (\<lambda>t. Inr ((True, t), w1)))"

text \<open>
  The second group: \<open>getProfile\<close>, then \<open>getSchedulesByDate\<close> and
  \<open>if (scheduleInfo && scheduleInfo.dayPlanId) dayPlanId = scheduleInfo.dayPlanId\<close>
  on a \<open>dayPlanId\<close> that starts as \<open>null\<close>.
\<close>

definition initial_load_group :: "server \<Rightarrow> draws \<Rightarrow> jsval \<Rightarrow> world \<Rightarrow> exn + (jsval \<times> world)" where
  "initial_load_group srv d accessToken w =
     bindE (getProfile srv accessToken w) (\<lambda>(userProfile, w1).
     bindE (getSchedulesByDate srv (d_today d) accessToken JNull w1) (\<lambda>(scheduleInfo, w2).
     bindE (and_prop scheduleInfo ''dayPlanId'') (\<lambda>i.
       Inr (if truthy i then i else JNull, w2))))"

text \<open>
  \<open>if (createdSchedule && createdSchedule.scheduleId) f(accessToken, createdSchedule.scheduleId)\<close>,
  for \<open>f\<close> one of \<open>updateScheduleStatus\<close> and \<open>deleteSchedule\<close>.
\<close>

definition when_schedule_id :: "jsval \<Rightarrow> (jsval \<Rightarrow> world \<Rightarrow> exn + (response \<times> world)) \<Rightarrow> world
    \<Rightarrow> exn + world" where
  "when_schedule_id createdSchedule f w =
     bindE (and_prop createdSchedule ''scheduleId'') (\<lambda>c.
       if truthy c
       then bindE (get_prop createdSchedule ''scheduleId'') (\<lambda>scheduleId.
            bindE (f scheduleId w) (\<lambda>(response, w1). Inr w1))
       else Inr w)"

text \<open>The \<open>default\<close> function of the load test.\<close>

definition load_default :: "server \<Rightarrow> draws \<Rightarrow> world \<Rightarrow> exn + world" where
  "load_default srv d w =
     bindE (signup_group srv d w) (\<lambda>((scenarioSuccess, accessToken), w1).
     if \<not> truthy accessToken then Inr (Rate_add scenarioFailRate True w1)
     else
     bindE (initial_load_group srv d accessToken w1) (\<lambda>(dayPlanId, w2).
     if \<not> truthy dayPlanId then Inr (Rate_add scenarioFailRate True w2)
     else
     bindE (createSchedule srv accessToken dayPlanId
              (schedule_literal d ''HOUR_1_TO_2'' 3) (d_defaultData d) w2) (\<lambda>(createdSchedule, w3).
     let scenarioSuccess' = (if \<not> truthy createdSchedule then False else scenarioSuccess) in
     bindE (getSchedules srv (d_today d) accessToken dayPlanId (JNum 1) (JNum 10) w3) (\<lambda>(r4, w4).
     bindE (when_schedule_id createdSchedule
              (\<lambda>scheduleId. updateScheduleStatus srv accessToken scheduleId ''DONE'') w4) (\<lambda>w5.
     bindE (searchUsers srv accessToken ''User'' (JNum 1) (JNum 10) w5) (\<lambda>(r6, w6).
     bindE (getNotifications srv accessToken (JNum 1) (JNum 10) w6) (\<lambda>(r7, w7).
     bindE (when_schedule_id createdSchedule
              (\<lambda>scheduleId. deleteSchedule srv accessToken scheduleId) w7) (\<lambda>w8.
     bindE (logout srv accessToken w8) (\<lambda>(r9, w9).
     Inr (Rate_add scenarioFailRate (\<not> scenarioSuccess')
            (Trend_add fullScenarioDuration (d_elapsed d) w9)))))))))))"

text \<open>The \<open>default\<close> function of the stress test.\<close>

definition stress_default :: "server \<Rightarrow> draws \<Rightarrow> world \<Rightarrow> exn + world" where
  "stress_default srv d w =
     bindE (signup_group srv d w) (\<lambda>((scenarioSuccess, accessToken), w1).
     if \<not> truthy accessToken then Inr (Rate_add scenarioFailRate True w1)
     else
     bindE (initial_load_group srv d accessToken w1) (\<lambda>(dayPlanId, w2).
     if \<not> truthy dayPlanId then Inr (Rate_add scenarioFailRate True w2)
     else
     bindE (createSchedule srv accessToken dayPlanId
              (schedule_literal d ''MINUTE_30_TO_60'' (d_focusLevel d)) (d_defaultData d) w2)
       (\<lambda>(createdSchedule, w3).
     let scenarioSuccess' = (if \<not> truthy createdSchedule then False else scenarioSuccess) in
     bindE (getSchedules srv (d_today d) accessToken dayPlanId (JNum 1) (JNum 10) w3) (\<lambda>(r4, w4).
     bindE (when_schedule_id createdSchedule
              (\<lambda>scheduleId. deleteSchedule srv accessToken scheduleId) w4) (\<lambda>w5.
     bindE (logout srv accessToken w5) (\<lambda>(r6, w6).
     Inr (Rate_add scenarioFailRate (\<not> scenarioSuccess')
            (Trend_add fullScenarioDuration (d_elapsed d) w6))))))))"

text \<open>
  The \<open>default\<close> function of the spike test. A missing \<open>dayPlanId\<close> only skips the
  schedule creation here, and \<open>Math.random()\<close> is drawn for the creation only when
  \<open>dayPlanId\<close> is truthy (\<open>dayPlanId && Math.random() < 0.2\<close>).
\<close>

definition spike_default :: "server \<Rightarrow> draws \<Rightarrow> world \<Rightarrow> exn + world" where
  "spike_default srv d w =
     bindE (signup_group srv d w) (\<lambda>((scenarioSuccess, accessToken), w1).
     if \<not> truthy accessToken then Inr (Rate_add scenarioFailRate True w1)
     else
     bindE (initial_load_group srv d accessToken w1) (\<lambda>(dayPlanId, w2).
     let shouldCreateSchedule = (truthy dayPlanId \<and> d_roll_create d < 0.2) in
     bindE (if shouldCreateSchedule
            then bindE (createSchedule srv accessToken dayPlanId
                          (schedule_literal d ''MINUTE_30_TO_60'' 3) (d_defaultData d) w2)
                   (\<lambda>(createdSchedule, w3).
                 when_schedule_id createdSchedule
                   (\<lambda>scheduleId. deleteSchedule srv accessToken scheduleId) w3)
            else Inr w2) (\<lambda>w4.
     bindE (if d_roll_logout d < 0.5
            then bindE (logout srv accessToken w4) (\<lambda>(r5, w5). Inr w5)
            else Inr w4) (\<lambda>w6.
     Inr (Rate_add scenarioFailRate (\<not> scenarioSuccess)
            (Trend_add fullScenarioDuration (d_elapsed d) w6))))))"

text \<open>
  The \<open>default\<close> function of the breakpoint test. The clock is read once more on
  the early return; one iteration reads it on one of the two paths.
\<close>

definition breakpoint_default :: "server \<Rightarrow> draws \<Rightarrow> world \<Rightarrow> exn + world" where
  "breakpoint_default srv d w =
     bindE (signup_group srv d w) (\<lambda>((scenarioSuccess, accessToken), w1).
     if \<not> truthy accessToken
     then Inr (Trend_add fullScenarioDuration (d_elapsed d) (Rate_add scenarioFailRate True w1))
     else
     bindE (initial_load_group srv d accessToken w1) (\<lambda>(dayPlanId, w2).
     bindE (if truthy dayPlanId \<and> d_roll_create d < 0.5
            then bindE (createSchedule srv accessToken dayPlanId
                          (schedule_literal d ''MINUTES_30_TO_60'' 3) (d_defaultData d) w2)
                   (\<lambda>(schedule, w3).
                 when_schedule_id schedule
                   (\<lambda>scheduleId. deleteSchedule srv accessToken scheduleId) w3)
            else Inr w2) (\<lambda>w4.
     Inr (Rate_add scenarioFailRate (\<not> scenarioSuccess)
            (Trend_add fullScenarioDuration (d_elapsed d) w4)))))"

subsection \<open>The second load test\<close>

text \<open>
  The second load test logs in with accounts that its \<open>setup()\<close> creates.
  \<^verbatim>\<open>
  function generateTestAccount(index) {
      return {
          email: `loadtest_prod_${index}@test.com`,
          password: 'Test1234!',
          nickname: `LoadUser${index}`,
      };
  }
  \<close>
  \<open>decimal n\<close> is the text that a template literal gives for the number \<open>n\<close>.
\<close>

record account =
  a_email :: string
  a_password :: string
  a_nickname :: string

fun decimal :: "nat \<Rightarrow> string" where
  "decimal n =
     (if n < 10 then [''0123456789'' ! n]
      else decimal (n div 10) @ [''0123456789'' ! (n mod 10)])"

declare decimal.simps [simp del]

definition generateTestAccount :: "nat \<Rightarrow> account" where
  "generateTestAccount index =
     \<lparr> a_email = ''loadtest_prod_'' @ decimal index @ ''@test.com'',
       a_password = ''Test1234!'',
       a_nickname = ''LoadUser'' @ decimal index \<rparr>"

definition NUM_TEST_ACCOUNTS :: nat where
  "NUM_TEST_ACCOUNTS = 100"

text \<open>
  The loop of \<open>setup()\<close>, from index \<open>i\<close> on:
  \<^verbatim>\<open>
  for (let i = 0; i < NUM_TEST_ACCOUNTS; i++) {
      const account = generateTestAccount(i);
      const created = signupTestUser(account.email, account.password, account.nickname);
      if (created) { successCount++; }
      accounts.push(account);
      if (i % 10 === 9) { sleep(1); }
  }
  \<close>
  \<open>successCount\<close> is only printed. The loop runs \<open>n\<close> more rounds.
\<close>

fun create_accounts :: "server \<Rightarrow> nat \<Rightarrow> nat \<Rightarrow> account list \<Rightarrow> world
    \<Rightarrow> exn + (account list \<times> world)" where
  "create_accounts srv i 0 accounts w = Inr (accounts, w)"
| "create_accounts srv i (Suc n) accounts w =
     (let account = generateTestAccount i in
      bindE (signupTestUser srv (a_email account) (a_password account) (a_nickname account) w)
        (\<lambda>(created, w1).
      create_accounts srv (i + 1) n (accounts @ [account]) w1))"

text \<open>
  \<open>setup()\<close> of the second load test: the health check, then the loop. The data it
  returns are the accounts, the clock reading and the test type.
\<close>

record setup_data =
  s_accounts :: "account list"
  s_startTime :: string
  s_testType :: string

definition load2_setup :: "server \<Rightarrow> string \<Rightarrow> world \<Rightarrow> exn + (setup_data \<times> world)" where
  "load2_setup srv now w =
     bindE (healthCheck srv w) (\<lambda>(isHealthy, w1).
       if \<not> isHealthy then Inl (Error ''Server health check failed'')
       else bindE (create_accounts srv 0 NUM_TEST_ACCOUNTS [] w1) (\<lambda>(accounts, w2).
            Inr (\<lparr> s_accounts = accounts, s_startTime = now,
                   s_testType = ''load-production'' \<rparr>, w2)))"

text \<open>
  The first group of the second load test, for the account that the iteration
  selected:
  \<^verbatim>\<open>
  let accessToken = null;
  group('01_Login', function () {
      const loginResult = login(account.email, account.password);
      if (!loginResult) { scenarioSuccess = false; return; }
      accessToken = loginResult.accessToken;
  });
  \<close>
  \<open>account\<close> is \<open>undefined\<close> when the index is no element index, and \<open>account.email\<close>
  then throws a \<open>TypeError\<close>.
\<close>

definition login_group :: "server \<Rightarrow> account option \<Rightarrow> world \<Rightarrow> exn + ((bool \<times> jsval) \<times> world)" where
  "login_group srv account w =
     (case account of
        None \<Rightarrow> Inl TypeError
      | Some a \<Rightarrow>
          bindE (login srv (a_email a) (a_password a) w) (\<lambda>(loginResult, w1).
            if \<not> truthy loginResult then Inr ((False, JNull), w1)
            else bindE (get_prop loginResult ''accessToken'') (\<lambda>t. Inr ((True, t), w1))))"

text \<open>
  The second group: \<open>getSchedulesByDate\<close> and
  \<open>if (scheduleInfo && scheduleInfo.dayPlanId) dayPlanId = scheduleInfo.dayPlanId\<close>
  on a \<open>dayPlanId\<close> that starts as \<open>null\<close>.
\<close>

definition day_plan_group :: "server \<Rightarrow> draws \<Rightarrow> jsval \<Rightarrow> world \<Rightarrow> exn + (jsval \<times> world)" where
  "day_plan_group srv d accessToken w =
     bindE (getSchedulesByDate srv (d_today d) accessToken JNull w) (\<lambda>(scheduleInfo, w1).
     bindE (and_prop scheduleInfo ''dayPlanId'') (\<lambda>i.
       Inr (if truthy i then i else JNull, w1)))"

text \<open>
  The \<open>default\<close> function of the second load test, for the virtual user \<open>vu\<close>
  (\<open>__VU\<close>) and the accounts of the data that \<open>setup()\<close> returned:
  \<^verbatim>\<open>
  const accountIndex = (__VU - 1) % data.accounts.length;
  const account = data.accounts[accountIndex];
  \<close>
  A missing \<open>dayPlanId\<close> records the failure, logs out and ends the iteration.
\<close>

definition load2_default :: "server \<Rightarrow> int \<Rightarrow> setup_data \<Rightarrow> draws \<Rightarrow> world \<Rightarrow> exn + world" where
  "load2_default srv vu data' d w =
     (let accountIndex = js_rem (js_minus vu 1) (int (length (s_accounts data')));
          account = array_at (s_accounts data') accountIndex
      in
     bindE (login_group srv account w) (\<lambda>((scenarioSuccess, accessToken), w1).
     if \<not> truthy accessToken then Inr (Rate_add scenarioFailRate True w1)
     else
     bindE (day_plan_group srv d accessToken w1) (\<lambda>(dayPlanId, w2).
     if \<not> truthy dayPlanId
     then bindE (logout srv accessToken (Rate_add scenarioFailRate True w2)) (\<lambda>(r3, w3). Inr w3)
     else
     bindE (createSchedule srv accessToken dayPlanId
              (schedule_literal d ''HOUR_1_TO_2'' (d_focusLevel d)) (d_defaultData d) w2)
       (\<lambda>(createdSchedule, w3).
     let scenarioSuccess' = (if \<not> truthy createdSchedule then False else scenarioSuccess) in
     bindE (getSchedules srv (d_today d) accessToken dayPlanId (JNum 1) (JNum 10) w3) (\<lambda>(r4, w4).
     bindE (when_schedule_id createdSchedule
              (\<lambda>scheduleId. deleteSchedule srv accessToken scheduleId) w4) (\<lambda>w5.
     bindE (logout srv accessToken w5) (\<lambda>(r6, w6).
     Inr (Rate_add scenarioFailRate (\<not> scenarioSuccess')
            (Trend_add fullScenarioDuration (d_elapsed d) w6)))))))))"

subsection \<open>The scenario test\<close>

text \<open>
  The four scenario functions run their steps inside one group and record the
  outcome after it:
  \<^verbatim>\<open>
  fullScenarioDuration.add(new Date() - scenarioStart);
  scenarioFailRate.add(!scenarioSuccess);
  \<close>
  The model of a group gives the \<open>scenarioSuccess\<close> that it leaves. The groups start
  alike:
  \<^verbatim>\<open>
  const signupResult = signup();
  if (!signupResult) { scenarioSuccess = false; return; }
  const { accessToken } = signupResult;
  \<close>
  and three of them go on, after \<open>getProfile\<close>, with
  \<^verbatim>\<open>
  const scheduleInfo = getSchedulesByDate(accessToken);
  if (!scheduleInfo || !scheduleInfo.dayPlanId) {
      scenarioSuccess = false;
      logout(accessToken);
      return;
  }
  const dayPlanId = scheduleInfo.dayPlanId;
  \<close>
\<close>

definition record_scenario :: "draws \<Rightarrow> exn + (bool \<times> world) \<Rightarrow> exn + world" where
  "record_scenario d flow =
     bindE flow (\<lambda>(scenarioSuccess, w1).
       Inr (Rate_add scenarioFailRate (\<not> scenarioSuccess)
              (Trend_add fullScenarioDuration (d_elapsed d) w1)))"

text \<open>\<open>!scheduleInfo || !scheduleInfo.dayPlanId\<close>.\<close>

definition lacks_day_plan :: "jsval \<Rightarrow> exn + bool" where
  "lacks_day_plan scheduleInfo =
     (if \<not> truthy scheduleInfo then Inr True
      else bindE (get_prop scheduleInfo ''dayPlanId'') (\<lambda>i. Inr (\<not> truthy i)))"

definition newUserScenario :: "server \<Rightarrow> draws \<Rightarrow> world \<Rightarrow> exn + world" where
  "newUserScenario srv d w =
     record_scenario d
      (bindE (signup srv (d_email d) w) (\<lambda>(signupResult, w1).
       if \<not> truthy signupResult then Inr (False, w1)
       else
       bindE (get_prop signupResult ''accessToken'') (\<lambda>accessToken.
       bindE (getProfile srv accessToken w1) (\<lambda>(r2, w2).
       bindE (getSchedulesByDate srv (d_today d) accessToken JNull w2) (\<lambda>(scheduleInfo, w3).
       bindE (lacks_day_plan scheduleInfo) (\<lambda>lacking.
       if lacking then bindE (logout srv accessToken w3) (\<lambda>(r4, w4). Inr (False, w4))
       else
       bindE (get_prop scheduleInfo ''dayPlanId'') (\<lambda>dayPlanId.
       bindE (createSchedule srv accessToken dayPlanId
                (schedule_literal d ''HOUR_1_TO_2'' 3) (d_defaultData d) w3) (\<lambda>(schedule, w4).
       bindE (logout srv accessToken w4) (\<lambda>(r5, w5).
       Inr (True, w5))))))))))"

definition returningUserScenario :: "server \<Rightarrow> draws \<Rightarrow> world \<Rightarrow> exn + world" where
  "returningUserScenario srv d w =
     record_scenario d
      (bindE (signup srv (d_email d) w) (\<lambda>(signupResult, w1).
       if \<not> truthy signupResult then Inr (False, w1)
       else
       bindE (get_prop signupResult ''accessToken'') (\<lambda>accessToken.
       bindE (getProfile srv accessToken w1) (\<lambda>(r2, w2).
       bindE (getSchedulesByDate srv (d_today d) accessToken JNull w2) (\<lambda>(r3, w3).
       bindE (getNotifications srv accessToken (JNum 1) (JNum 10) w3) (\<lambda>(r4, w4).
       bindE (logout srv accessToken w4) (\<lambda>(r5, w5).
       Inr (True, w5))))))))"

definition activeUserScenario :: "server \<Rightarrow> draws \<Rightarrow> world \<Rightarrow> exn + world" where
  "activeUserScenario srv d w =
     record_scenario d
      (bindE (signup srv (d_email d) w) (\<lambda>(signupResult, w1).
       if \<not> truthy signupResult then Inr (False, w1)
       else
       bindE (get_prop signupResult ''accessToken'') (\<lambda>accessToken.
       bindE (getProfile srv accessToken w1) (\<lambda>(r2, w2).
       bindE (getSchedulesByDate srv (d_today d) accessToken JNull w2) (\<lambda>(scheduleInfo, w3).
       bindE (lacks_day_plan scheduleInfo) (\<lambda>lacking.
       if lacking then bindE (logout srv accessToken w3) (\<lambda>(r4, w4). Inr (False, w4))
       else
       bindE (get_prop scheduleInfo ''dayPlanId'') (\<lambda>dayPlanId.
       bindE (createSchedule srv accessToken dayPlanId
                (JObj [(''type'', JStr ''FLEX''), (''title'', JStr (d_title d)),
                       (''startAt'', JStr (d_startAt d)), (''endAt'', JStr (d_endAt d)),
                       (''estimatedTimeRange'', JStr ''MINUTE_30_TO_60''),
                       (''focusLevel'', JNum 4),
                       (''isUrgent'', JBool (d_roll_urgent d < 0.3))])
                (d_defaultData d) w3) (\<lambda>(schedule, w4).
       bindE (getSchedules srv (d_today d) accessToken dayPlanId (JNum 1) (JNum 10) w4)
         (\<lambda>(r5, w5).
       bindE (and_prop schedule ''scheduleId'') (\<lambda>c.
       bindE (if truthy c
              then bindE (get_prop schedule ''scheduleId'') (\<lambda>scheduleId.
                   bindE (updateScheduleStatus srv accessToken scheduleId ''DONE'' w5)
                     (\<lambda>(r6, w6).
                   bindE (get_prop schedule ''scheduleId'') (\<lambda>scheduleId'.
                   bindE (deleteSchedule srv accessToken scheduleId' w6) (\<lambda>(r7, w7).
                   Inr w7))))
              else Inr w5) (\<lambda>w8.
       bindE (searchUsers srv accessToken ''User'' (JNum 1) (JNum 10) w8) (\<lambda>(r9, w9).
       bindE (logout srv accessToken w9) (\<lambda>(r10, w10).
       Inr (True, w10))))))))))))))"

text \<open>
  The two loops of the power user.
  \<^verbatim>\<open>
  for (let i = 0; i < scheduleCount; i++) {
      const schedule = createSchedule(accessToken, dayPlanId, { ... });
      if (schedule) { createdSchedules.push(schedule); }
  }
  ...
  for (const schedule of createdSchedules) {
      if (schedule && schedule.scheduleId) {
          deleteSchedule(accessToken, schedule.scheduleId);
      }
  }
  \<close>
\<close>

fun create_schedules :: "server \<Rightarrow> jsval \<Rightarrow> jsval \<Rightarrow> (jsval \<times> jsval) list \<Rightarrow> jsval list
    \<Rightarrow> world \<Rightarrow> exn + (jsval list \<times> world)" where
  "create_schedules srv accessToken dayPlanId [] createdSchedules w =
     Inr (createdSchedules, w)"
| "create_schedules srv accessToken dayPlanId ((scheduleData, defaultData) # tasks)
     createdSchedules w =
     bindE (createSchedule srv accessToken dayPlanId scheduleData defaultData w)
       (\<lambda>(schedule, w1).
     create_schedules srv accessToken dayPlanId tasks
       (if truthy schedule then createdSchedules @ [schedule] else createdSchedules) w1)"

fun delete_schedules :: "server \<Rightarrow> jsval \<Rightarrow> jsval list \<Rightarrow> world \<Rightarrow> exn + world" where
  "delete_schedules srv accessToken [] w = Inr w"
| "delete_schedules srv accessToken (schedule # createdSchedules) w =
     bindE (when_schedule_id schedule
              (\<lambda>scheduleId. deleteSchedule srv accessToken scheduleId) w) (\<lambda>w1.
     delete_schedules srv accessToken createdSchedules w1)"

definition powerUserScenario :: "server \<Rightarrow> draws \<Rightarrow> world \<Rightarrow> exn + world" where
  "powerUserScenario srv d w =
     record_scenario d
      (bindE (signup srv (d_email d) w) (\<lambda>(signupResult, w1).
       if \<not> truthy signupResult then Inr (False, w1)
       else
       bindE (get_prop signupResult ''accessToken'') (\<lambda>accessToken.
       bindE (getProfile srv accessToken w1) (\<lambda>(r2, w2).
       bindE (getSchedulesByDate srv (d_today d) accessToken JNull w2) (\<lambda>(scheduleInfo, w3).
       bindE (lacks_day_plan scheduleInfo) (\<lambda>lacking.
       if lacking then bindE (logout srv accessToken w3) (\<lambda>(r4, w4). Inr (False, w4))
       else
       bindE (get_prop scheduleInfo ''dayPlanId'') (\<lambda>dayPlanId.
       bindE (create_schedules srv accessToken dayPlanId (d_power_tasks d) [] w3)
         (\<lambda>(createdSchedules, w4).
       bindE (aiScheduleArrangement srv accessToken dayPlanId w4) (\<lambda>(r5, w5).
       bindE (getSchedules srv (d_today d) accessToken dayPlanId (JNum 1) (JNum 10) w5)
         (\<lambda>(r6, w6).
       bindE (delete_schedules srv accessToken createdSchedules w6) (\<lambda>w7.
       bindE (logout srv accessToken w7) (\<lambda>(r8, w8).
       Inr (True, w8)))))))))))))"

subsection \<open>\<open>setup()\<close>\<close>

text \<open>
  \<open>setup()\<close> of the load, stress, spike, breakpoint and scenario tests, which differ
  in the \<open>testType\<close> they return and in what they print; \<open>now\<close> is the clock reading.
  \<^verbatim>\<open>
  const isHealthy = healthCheck();
  if (!isHealthy) {
      throw new Error('Server health check failed');
  }
  return { startTime: new Date().toISOString(), testType: 'load' };
  \<close>
\<close>

definition test_setup :: "server \<Rightarrow> string \<Rightarrow> string \<Rightarrow> world \<Rightarrow> exn + (jsval \<times> world)" where
  "test_setup srv testType now w =
     bindE (healthCheck srv w) (\<lambda>(isHealthy, w1).
       if \<not> isHealthy then Inl (Error ''Server health check failed'')
       else Inr (JObj [(''startTime'', JStr now), (''testType'', JStr testType)], w1))"

section \<open>The operations of the scripts\<close>

text \<open>
  Everything the scripts do on the state of a virtual user is a call of one of the
  eighteen helpers that send a request, one of the nine iteration functions, or one
  of the two forms of \<open>setup()\<close>. \<open>run\<close> performs one of them and keeps the state;
  \<open>run_all\<close> performs a sequence and stops at the first exception. (\<open>teardown\<close>
  prints fields of the data that \<open>setup()\<close> returned and sends nothing, and
  \<open>handleSummary\<close> reads the summary of k6, not this state.)
\<close>

datatype operation =
    Login string string
  | RefreshToken jsval
  | Logout jsval
  | Signup string
  | GetProfile jsval
  | SearchUsers jsval string jsval jsval
  | CreateSchedule jsval jsval jsval jsval
  | GetSchedules string jsval jsval jsval jsval
  | GetSchedulesByDate string jsval jsval
  | GetDayPlanId string jsval jsval
  | UpdateSchedule jsval jsval jsval
  | DeleteSchedule jsval jsval
  | UpdateScheduleStatus jsval jsval string
  | AiScheduleArrangement jsval jsval
  | GetNotifications jsval jsval jsval
  | RegisterFcmToken jsval string string
  | HealthCheck
  | SignupTestUser string string string
  | Setup string string
  | Load2Setup string
  | LoadIteration draws
  | StressIteration draws
  | SpikeIteration draws
  | BreakpointIteration draws
  | Load2Iteration int setup_data draws
  | NewUserIteration draws
  | ReturningUserIteration draws
  | ActiveUserIteration draws
  | PowerUserIteration draws

definition discard :: "exn + ('a \<times> world) \<Rightarrow> exn + world" where
  "discard m = bindE m (\<lambda>(v, w'). Inr w')"

fun run :: "server \<Rightarrow> operation \<Rightarrow> world \<Rightarrow> exn + world" where
  "run srv (Login email password) w = discard (login srv email password w)"
| "run srv (RefreshToken cookies') w = discard (refreshToken srv cookies' w)"
| "run srv (Logout accessToken) w = discard (logout srv accessToken w)"
| "run srv (Signup email) w = discard (signup srv email w)"
| "run srv (GetProfile accessToken) w = discard (getProfile srv accessToken w)"
| "run srv (SearchUsers accessToken nickname page size') w =
     discard (searchUsers srv accessToken nickname page size' w)"
| "run srv (CreateSchedule accessToken dayPlanId scheduleData defaultData) w =
     discard (createSchedule srv accessToken dayPlanId scheduleData defaultData w)"
| "run srv (GetSchedules today accessToken dayPlanId page size') w =
     discard (getSchedules srv today accessToken dayPlanId page size' w)"
| "run srv (GetSchedulesByDate today accessToken date) w =
     discard (getSchedulesByDate srv today accessToken date w)"
| "run srv (GetDayPlanId today accessToken date) w =
     discard (getDayPlanId srv today accessToken date w)"
| "run srv (UpdateSchedule accessToken scheduleId updateData) w =
     discard (updateSchedule srv accessToken scheduleId updateData w)"
| "run srv (DeleteSchedule accessToken scheduleId) w =
     discard (deleteSchedule srv accessToken scheduleId w)"
| "run srv (UpdateScheduleStatus accessToken scheduleId status') w =
     discard (updateScheduleStatus srv accessToken scheduleId status' w)"
| "run srv (AiScheduleArrangement accessToken dayPlanId) w =
     discard (aiScheduleArrangement srv accessToken dayPlanId w)"
| "run srv (GetNotifications accessToken page size') w =
     discard (getNotifications srv accessToken page size' w)"
| "run srv (RegisterFcmToken accessToken fcmToken platform) w =
     discard (registerFcmToken srv accessToken fcmToken platform w)"
| "run srv HealthCheck w = discard (healthCheck srv w)"
| "run srv (SignupTestUser email password nickname) w =
     discard (signupTestUser srv email password nickname w)"
| "run srv (Setup testType now) w = discard (test_setup srv testType now w)"
| "run srv (Load2Setup now) w = discard (load2_setup srv now w)"
| "run srv (LoadIteration d) w = load_default srv d w"
| "run srv (StressIteration d) w = stress_default srv d w"
| "run srv (SpikeIteration d) w = spike_default srv d w"
| "run srv (BreakpointIteration d) w = breakpoint_default srv d w"
| "run srv (Load2Iteration vu data' d) w = load2_default srv vu data' d w"
| "run srv (NewUserIteration d) w = newUserScenario srv d w"
| "run srv (ReturningUserIteration d) w = returningUserScenario srv d w"
| "run srv (ActiveUserIteration d) w = activeUserScenario srv d w"
| "run srv (PowerUserIteration d) w = powerUserScenario srv d w"

fun run_all :: "server \<Rightarrow> operation list \<Rightarrow> world \<Rightarrow> exn + world" where
  "run_all srv [] w = Inr w"
| "run_all srv (x # xs) w = bindE (run srv x w) (run_all srv xs)"

text \<open>
  The operations that run inside \<open>setup()\<close>: its two forms, and \<open>signupTestUser\<close>,
  which only the \<open>setup()\<close> of the second load test calls.
\<close>

fun in_setup :: "operation \<Rightarrow> bool" where
  "in_setup (Setup testType now) = True"
| "in_setup (Load2Setup now) = True"
| "in_setup (SignupTestUser email password nickname) = True"
| "in_setup x = False"

section \<open>report-generator.js\<close>

subsection \<open>The summary data that k6 hands to \<open>handleSummary\<close>\<close>







subsection \<open>Formatting helpers\<close>











subsection \<open>The report\<close>




















section \<open>Percentiles of a metric series\<close>

text \<open>
  Modelled from the spec: the percentile query of the MetricSink. The repository
  computes no percentile itself: the \<open>Trend\<close> metrics of k6 do, and the report prints
  the values \<open>med\<close>, \<open>p(90)\<close>, \<open>p(95)\<close> and \<open>p(99)\<close> that it is handed. The specification
  asks for a deterministic percentile on a fixed sample set, "nearest-rank or
  linear-interpolation", defined for a non-empty numeric series. Both are written
  here, on the sorted samples; the percentile of an empty series is \<open>None\<close>.

  Nearest rank: the sample of rank \<open>\<lceil>p / 100 \<cdot> n\<rceil>\<close>, counted from 1 (rank 1 for
  \<open>p = 0\<close>).
\<close>

definition nearest_rank :: "nat \<Rightarrow> real list \<Rightarrow> real option" where
  "nearest_rank p xs =
     (if xs = [] then None
      else Some (sort xs ! (max 1 ((p * length xs + 99) div 100) - 1)))"

text \<open>
  Modelled from the spec: the percentile query of the MetricSink, in its second
  admitted form. Linear interpolation: the position \<open>p / 100 \<cdot> (n - 1)\<close> in the sorted samples, and
  between the two samples around it the value in proportion.
\<close>

definition interpolated :: "nat \<Rightarrow> real list \<Rightarrow> real option" where
  "interpolated p xs =
     (if xs = [] then None
      else
        let s = sort xs;
            n = length xs;
            lo = (p * (n - 1)) div 100;
            hi = min (lo + 1) (n - 1);
            frac = real ((p * (n - 1)) mod 100) / 100
        in Some (s ! lo + frac * (s ! hi - s ! lo)))"

section \<open>Notions used to state the properties\<close>

text \<open>
  \<open>field_present f r\<close>: the body of \<open>r\<close> is JSON whose \<open>data\<close> is truthy and has a
  truthy field \<open>f\<close>. A body that is missing, is no JSON, has no \<open>data\<close> or has no
  \<open>data.f\<close> is the opposite case.
\<close>

definition field_present :: "string \<Rightarrow> response \<Rightarrow> bool" where
  "field_present f r =
     (case JSON_parse (body r) of
        Inl e \<Rightarrow> False
      | Inr b \<Rightarrow>
          (case get_prop b ''data'' of
             Inl e \<Rightarrow> False
           | Inr d \<Rightarrow> truthy d \<and> (case get_prop d f of Inl e \<Rightarrow> False | Inr x \<Rightarrow> truthy x)))"

text \<open>
  \<open>from_config c r\<close>: the request \<open>r\<close> is built from the configuration \<open>c\<close>. Its URL
  starts with \<open>BASE_URL\<close>, its timeout is one of \<open>TIMEOUTS\<close>, and it carries every
  header of \<open>DEFAULT_HEADERS\<close> (the health check sends no headers, and a key
  \<open>Authorization\<close> would be replaced by the bearer token).
\<close>

definition from_config :: "config \<Rightarrow> request \<Rightarrow> bool" where
  "from_config c r \<longleftrightarrow>
     take 1 (url r) = [Lit (BASE_URL c)]
     \<and> (timeout r = default (TIMEOUTS c) \<or> timeout r = ai_related (TIMEOUTS c))
     \<and> (tag r = ''health_check''
        \<or> list_all (\<lambda>(k, v). k = ''Authorization'' \<or> (k, [Lit v]) \<in> set (headers r))
             (DEFAULT_HEADERS c))"

text \<open>
  \<open>extends w w' rs cs\<close>: from \<open>w\<close> to \<open>w'\<close> exactly the requests \<open>rs\<close> were sent, all
  built from the configuration, exactly the check outcomes \<open>cs\<close> were recorded, and
  the configuration and the \<open>Rate\<close> metrics are as before.
\<close>

definition extends :: "world \<Rightarrow> world \<Rightarrow> request list \<Rightarrow> (string \<times> bool) list \<Rightarrow> bool" where
  "extends w w' rs cs \<longleftrightarrow>
     sent w' = sent w @ rs \<and> checks w' = checks w @ cs \<and> cfg w' = cfg w
     \<and> rates w' = rates w \<and> list_all (from_config (cfg w)) rs"

text \<open>
  \<open>iteration w w' rs cs failed\<close>: one iteration that sent \<open>rs\<close>, recorded \<open>cs\<close> and
  added the one sample \<open>failed\<close> to \<open>scenario_failures\<close>.
\<close>

definition iteration :: "world \<Rightarrow> world \<Rightarrow> request list \<Rightarrow> (string \<times> bool) list \<Rightarrow> bool \<Rightarrow> bool" where
  "iteration w w' rs cs failed \<longleftrightarrow>
     sent w' = sent w @ rs \<and> checks w' = checks w @ cs \<and> cfg w' = cfg w
     \<and> rates w' = (rates w)(scenarioFailRate := rates w scenarioFailRate @ [failed])
     \<and> list_all (from_config (cfg w)) rs"

text \<open>
  What one operation adds to the state: the tags of the requests it sent, the check
  outcomes it recorded, and the samples it added to \<open>scenario_failures\<close>.
\<close>

definition new_tags :: "world \<Rightarrow> world \<Rightarrow> string list" where
  "new_tags w w' = map tag (drop (length (sent w)) (sent w'))"

definition new_requests :: "world \<Rightarrow> world \<Rightarrow> request list" where
  "new_requests w w' = drop (length (sent w)) (sent w')"

definition new_checks :: "world \<Rightarrow> world \<Rightarrow> (string \<times> bool) list" where
  "new_checks w w' = drop (length (checks w)) (checks w')"

definition new_outcomes :: "world \<Rightarrow> world \<Rightarrow> bool list" where
  "new_outcomes w w' = drop (length (rates w scenarioFailRate)) (rates w' scenarioFailRate)"

text \<open>
  \<open>step_failed p w w'\<close>: between \<open>w\<close> and \<open>w'\<close> a check whose name starts with \<open>p\<close>
  was recorded as failed. The checks of a helper all start with the helper's label
  and a colon, as in \<open>create_schedule: has schedule id\<close>.
\<close>

definition step_failed :: "string \<Rightarrow> world \<Rightarrow> world \<Rightarrow> bool" where
  "step_failed p w w' =
     list_ex (\<lambda>(name, ok). \<not> ok \<and> take (length p) name = p) (new_checks w w')"

text \<open>The same observations on the result of an operation that may have thrown.\<close>

definition tags_of :: "world \<Rightarrow> exn + world \<Rightarrow> exn + string list" where
  "tags_of w m = (case m of Inl e \<Rightarrow> Inl e | Inr w' \<Rightarrow> Inr (new_tags w w'))"

definition outcomes_of :: "world \<Rightarrow> exn + world \<Rightarrow> exn + bool list" where
  "outcomes_of w m = (case m of Inl e \<Rightarrow> Inl e | Inr w' \<Rightarrow> Inr (new_outcomes w w'))"

definition failed_of :: "string \<Rightarrow> world \<Rightarrow> exn + world \<Rightarrow> exn + bool" where
  "failed_of p w m = (case m of Inl e \<Rightarrow> Inl e | Inr w' \<Rightarrow> Inr (step_failed p w w'))"

text \<open>The result and the recorded checks of a helper call that may have thrown.\<close>

definition result_of :: "exn + ('a \<times> world) \<Rightarrow> exn + 'a" where
  "result_of m = (case m of Inl e \<Rightarrow> Inl e | Inr (v, w') \<Rightarrow> Inr v)"

definition checks_of :: "world \<Rightarrow> exn + ('a \<times> world) \<Rightarrow> exn + (string \<times> bool) list" where
  "checks_of w m = (case m of Inl e \<Rightarrow> Inl e | Inr (v, w') \<Rightarrow> Inr (new_checks w w'))"

text \<open>
  \<open>grows w w'\<close>: \<open>w'\<close> has the configuration of \<open>w\<close>, and the requests sent since \<open>w\<close>
  are all built from that configuration.
\<close>

definition grows :: "world \<Rightarrow> world \<Rightarrow> bool" where
  "grows w w' \<longleftrightarrow>
     cfg w' = cfg w \<and> take (length (sent w)) (sent w') = sent w
     \<and> length (sent w) \<le> length (sent w')
     \<and> list_all (from_config (cfg w)) (new_requests w w')"

text \<open>
  \<open>returns w m\<close> and \<open>finishes w m\<close>: the operation \<open>m\<close>, started in \<open>w\<close>, does not
  throw, and the state it leaves grows from \<open>w\<close>.
\<close>

definition returns :: "world \<Rightarrow> exn + ('a \<times> world) \<Rightarrow> bool" where
  "returns w m \<longleftrightarrow> (\<exists>v w'. m = Inr (v, w') \<and> grows w w')"

definition finishes :: "world \<Rightarrow> exn + world \<Rightarrow> bool" where
  "finishes w m \<longleftrightarrow> (\<exists>w'. m = Inr w' \<and> grows w w')"

text \<open>The outcomes that one call of a helper records, by the names of its checks.\<close>

definition login_checks :: "bool \<Rightarrow> bool \<Rightarrow> bool \<Rightarrow> (string \<times> bool) list" where
  "login_checks b1 b2 b3 =
     [(''login: status is 200'', b1),
      (''login: has access token'', b2),
      (''login: response time < 500ms'', b3)]"

definition refreshToken_checks :: "bool \<Rightarrow> bool \<Rightarrow> bool \<Rightarrow> (string \<times> bool) list" where
  "refreshToken_checks b1 b2 b3 =
     [(''refresh: status is 200'', b1),
      (''refresh: has new access token'', b2),
      (''refresh: response time < 300ms'', b3)]"

definition logout_checks :: "bool \<Rightarrow> (string \<times> bool) list" where
  "logout_checks b1 =
     [(''logout: status is 204'', b1)]"

definition signup_checks :: "bool \<Rightarrow> bool \<Rightarrow> (string \<times> bool) list" where
  "signup_checks b1 b2 =
     [(''signup: status is 201'', b1),
      (''signup: has user id'', b2)]"

definition getProfile_checks :: "bool \<Rightarrow> bool \<Rightarrow> bool \<Rightarrow> (string \<times> bool) list" where
  "getProfile_checks b1 b2 b3 =
     [(''get_profile: status is 200'', b1),
      (''get_profile: has user data'', b2),
      (''get_profile: response time < 500ms'', b3)]"

definition searchUsers_checks :: "bool \<Rightarrow> bool \<Rightarrow> (string \<times> bool) list" where
  "searchUsers_checks b1 b2 =
     [(''search_users: status is 200'', b1),
      (''search_users: response time < 1000ms'', b2)]"

definition createSchedule_checks :: "bool \<Rightarrow> bool \<Rightarrow> bool \<Rightarrow> (string \<times> bool) list" where
  "createSchedule_checks b1 b2 b3 =
     [(''create_schedule: status is 201'', b1),
      (''create_schedule: has schedule id'', b2),
      (''create_schedule: response time < 1500ms'', b3)]"

definition getSchedules_checks :: "bool \<Rightarrow> bool \<Rightarrow> (string \<times> bool) list" where
  "getSchedules_checks b1 b2 =
     [(''get_schedules: status is 200'', b1),
      (''get_schedules: response time < 1000ms'', b2)]"

definition getSchedulesByDate_checks :: "bool \<Rightarrow> bool \<Rightarrow> (string \<times> bool) list" where
  "getSchedulesByDate_checks b1 b2 =
     [(''get_schedules_by_date: status is 200'', b1),
      (''get_schedules_by_date: has dayPlanId'', b2)]"

definition updateSchedule_checks :: "bool \<Rightarrow> bool \<Rightarrow> (string \<times> bool) list" where
  "updateSchedule_checks b1 b2 =
     [(''update_schedule: status is 204'', b1),
      (''update_schedule: response time < 1000ms'', b2)]"

definition deleteSchedule_checks :: "bool \<Rightarrow> (string \<times> bool) list" where
  "deleteSchedule_checks b1 =
     [(''delete_schedule: status is 204'', b1)]"

definition updateScheduleStatus_checks :: "bool \<Rightarrow> (string \<times> bool) list" where
  "updateScheduleStatus_checks b1 =
     [(''update_schedule_status: status is 204'', b1)]"

definition aiScheduleArrangement_checks :: "bool \<Rightarrow> bool \<Rightarrow> (string \<times> bool) list" where
  "aiScheduleArrangement_checks b1 b2 =
     [(''ai_arrangement: status is 200 or 201'', b1),
      (''ai_arrangement: response time < 5000ms'', b2)]"

definition getNotifications_checks :: "bool \<Rightarrow> (string \<times> bool) list" where
  "getNotifications_checks b1 =
     [(''get_notifications: status is 200'', b1)]"

definition registerFcmToken_checks :: "bool \<Rightarrow> (string \<times> bool) list" where
  "registerFcmToken_checks b1 =
     [(''register_fcm_token: status is 204'', b1)]"

definition healthCheck_checks :: "bool \<Rightarrow> bool \<Rightarrow> (string \<times> bool) list" where
  "healthCheck_checks b1 b2 =
     [(''health_check: status is 200'', b1),
      (''health_check: response time < 100ms'', b2)]"

section \<open>Sample runs\<close>

text \<open>A fresh virtual user, one set of drawn values, and six target systems.\<close>

definition w0 :: world where
  "w0 = \<lparr> cfg = config_js, sent = [], trends = (\<lambda>m. []), rates = (\<lambda>m. []), checks = [] \<rparr>"

definition d0 :: draws where
  "d0 = \<lparr> d_email = ''loadtest_ab12cd34_1700000000000@test.com'', d_title = ''Load Test x7k2p'',
          d_startAt = ''09:00'', d_endAt = ''10:00'', d_focusLevel = 3,
          d_defaultData = JObj [(''type'', JStr ''FLEX'')], d_today = ''2026-01-15'',
          d_elapsed = 8400, d_roll_create = 0.1, d_roll_logout = 0.3, d_roll_urgent = 0.6,
          d_power_tasks =
            [(JObj [(''type'', JStr ''FLEX''), (''title'', JStr ''Power Task 1 q1z'')],
              JObj [(''type'', JStr ''FLEX'')]),
             (JObj [(''type'', JStr ''FLEX''), (''title'', JStr ''Power Task 2 m8c'')],
              JObj [(''type'', JStr ''FLEX'')]),
             (JObj [(''type'', JStr ''FLEX''), (''title'', JStr ''Power Task 3 t4w'')],
              JObj [(''type'', JStr ''FLEX'')])] \<rparr>"

text \<open>A word in double quotes, for the text of a JSON body.\<close>

definition quoted :: "string \<Rightarrow> string" where
  "quoted s = CHR 0x22 # s @ [CHR 0x22]"

definition ok_text :: string where
  "ok_text = ''{'' @ quoted ''data'' @ '':{'' @ quoted ''userId'' @ '':7,''
     @ quoted ''accessToken'' @ '':'' @ quoted ''tok'' @ '',''
     @ quoted ''email'' @ '':'' @ quoted ''a@test.com'' @ '',''
     @ quoted ''dayPlanId'' @ '':3,'' @ quoted ''scheduleId'' @ '':11,''
     @ quoted ''content'' @ '':[]}}''"

definition ok_body :: body where
  "ok_body = Json ok_text (JObj [(''data'', JObj
     [(''userId'', JNum 7), (''accessToken'', JStr ''tok''), (''email'', JStr ''a@test.com''),
      (''dayPlanId'', JNum 3), (''scheduleId'', JNum 11), (''content'', JArr [])])])"

text \<open>Every request succeeds with the status its helper checks for.\<close>

definition srv_ok :: server where
  "srv_ok past req =
     \<lparr> status = (if tag req \<in> {''logout'', ''delete_schedule'', ''update_schedule_status'',
                                 ''update_schedule'', ''register_fcm_token''}
                  then 204 else 200),
       body = ok_body, duration = 80, cookies = JObj [] \<rparr>"

text \<open>The schedule creation times out (k6 gives status 0 and no body); the rest succeeds.\<close>

definition srv_create_fails :: server where
  "srv_create_fails past req =
     (if tag req = ''create_schedule''
      then \<lparr> status = 0, body = NoBody, duration = 10000, cookies = JObj [] \<rparr>
      else srv_ok past req)"

text \<open>Every response is an HTML error page with status 200.\<close>

definition srv_malformed :: server where
  "srv_malformed past req =
     \<lparr> status = 200, body = Malformed ''<html>Bad Gateway</html>'', duration = 50,
       cookies = JObj [] \<rparr>"

text \<open>The target system is unreachable.\<close>

definition srv_down :: server where
  "srv_down past req = \<lparr> status = 0, body = NoBody, duration = 0, cookies = JObj [] \<rparr>"

text \<open>The day plan lookup answers without a \<open>dayPlanId\<close>; the rest succeeds.\<close>

definition srv_no_day_plan :: server where
  "srv_no_day_plan past req =
     (if tag req = ''get_schedules_by_date''
      then \<lparr> status = 200,
             body = Json (''{'' @ quoted ''data'' @ '':{'' @ quoted ''content'' @ '':[]}}'')
                      (JObj [(''data'', JObj [(''content'', JArr [])])]),
             duration = 80, cookies = JObj [] \<rparr>
      else srv_ok past req)"

text \<open>The signup answers with a user id and without an access token; the rest succeeds.\<close>

definition srv_no_token :: server where
  "srv_no_token past req =
     (if tag req = ''signup''
      then \<lparr> status = 200,
             body = Json (''{'' @ quoted ''data'' @ '':{'' @ quoted ''userId'' @ '':7}}'')
                      (JObj [(''data'', JObj [(''userId'', JNum 7)])]),
             duration = 80, cookies = JObj [] \<rparr>
      else srv_ok past req)"



section \<open>Basic facts\<close>

lemma bindE_Inr [simp]: "bindE (Inr x) f = f x"
  by (simp add: bindE_def)

lemma bindE_Inl [simp]: "bindE (Inl e) f = Inl e"
  by (simp add: bindE_def)

lemma get_prop_truthy: "truthy v \<Longrightarrow> \<exists>x. get_prop v k = Inr x"
  by (cases v) simp_all

lemma and_prop_total: "\<exists>x. and_prop v k = Inr x"
  using get_prop_truthy [of v k] by (auto simp: and_prop_def)

lemma has_data_field_value:
  "\<exists>v. has_data_field f r = Inr v \<and> truthy v = field_present f r"
  using get_prop_truthy
  by (fastforce simp: has_data_field_def field_present_def try_catch_def bindE_def and_prop_def
      split: sum.splits)

lemma field_present_chain:
  "field_present f r \<Longrightarrow>
     \<exists>b d x. JSON_parse (body r) = Inr b \<and> get_prop b ''data'' = Inr d \<and> truthy d
       \<and> get_prop d f = Inr x \<and> truthy x"
  by (auto simp: field_present_def split: sum.splits)

lemma update_keeps_other:
  "(k', v') \<in> set al \<Longrightarrow> k' \<noteq> k \<Longrightarrow> (k', v') \<in> set (AList.update k v al)"
  by (induction al) auto

lemma json_headers_from_config:
  "list_all (\<lambda>(k, v). k = ''Authorization'' \<or> (k, [Lit v]) \<in> set (json_headers c))
     (DEFAULT_HEADERS c)"
  by (auto simp: list_all_iff json_headers_def)

lemma auth_headers_from_config:
  "list_all (\<lambda>(k, v). k = ''Authorization'' \<or> (k, [Lit v]) \<in> set (auth_headers c t))
     (DEFAULT_HEADERS c)"
proof -
  have "k = ''Authorization'' \<or> (k, [Lit v]) \<in> set (auth_headers c t)"
    if "(k, v) \<in> set (DEFAULT_HEADERS c)" for k v
  proof (cases "k = ''Authorization''")
    case False
    from that have "(k, [Lit v]) \<in> set (json_headers c)"
      by (force simp: json_headers_def)
    with False show ?thesis
      unfolding auth_headers_def by (simp add: update_keeps_other)
  qed simp
  then show ?thesis
    unfolding list_all_iff by blast
qed

section \<open>What one helper call does\<close>

lemma login_effect:
  "\<exists>v. (let resp = srv (sent w) (login_request (cfg w) email password) in
     login srv email password w =
       Inr (v, w\<lparr>sent := sent w @ [login_request (cfg w) email password],
                 trends := (trends w)(loginDuration := trends w loginDuration @ [duration resp]),
                 rates := (rates w)(loginFailRate := rates w loginFailRate @
                      [\<not> (status resp = 200 \<and> field_present ''accessToken'' resp \<and> duration resp < 500)]),
                 checks := checks w @
                   [(''login: status is 200'', status resp = 200),
                    (''login: has access token'', field_present ''accessToken'' resp),
                    (''login: response time < 500ms'', duration resp < 500)]\<rparr>)
     \<and> (if status resp = 200 \<and> field_present ''accessToken'' resp \<and> duration resp < 500
         then \<exists>t. v = JObj [(''accessToken'', t), (''cookies'', cookies resp)] \<and> truthy t
         else v = JNull))"
proof -
  define resp where "resp = srv (sent w) (login_request (cfg w) email password)"
  obtain p where hp: "has_data_field ''accessToken'' resp = Inr p" "truthy p = field_present ''accessToken'' resp"
    using has_data_field_value by blast
  show ?thesis
  proof (cases "field_present ''accessToken'' resp")
    case True
    then obtain b d x where ch: "JSON_parse (body resp) = Inr b" "get_prop b ''data'' = Inr d"
        "truthy d" "get_prop d ''accessToken'' = Inr x" "truthy x"
      using field_present_chain by blast
    show ?thesis
      using hp True ch 
      by (simp add: login_def Let_def http_request_def Trend_add_def Rate_add_def status_is_def
          faster_than_def resp_def [symmetric])
  next
    case False
    show ?thesis
      using hp False
      by (simp add: login_def Let_def http_request_def Trend_add_def Rate_add_def status_is_def
          faster_than_def resp_def [symmetric])
  qed
qed

lemma refreshToken_effect:
  "\<exists>v. (let resp = srv (sent w) (refreshToken_request (cfg w) cookies') in
     refreshToken srv cookies' w =
       Inr (v, w\<lparr>sent := sent w @ [refreshToken_request (cfg w) cookies'],
                 trends := (trends w)(refreshTokenDuration := trends w refreshTokenDuration @ [duration resp]),
                 checks := checks w @
                   [(''refresh: status is 200'', status resp = 200),
                    (''refresh: has new access token'', field_present ''accessToken'' resp),
                    (''refresh: response time < 300ms'', duration resp < 300)]\<rparr>)
     \<and> (if status resp = 200 \<and> field_present ''accessToken'' resp \<and> duration resp < 300
         then \<exists>t. v = JObj [(''accessToken'', t), (''cookies'', cookies resp)] \<and> truthy t
         else v = JNull))"
proof -
  define resp where "resp = srv (sent w) (refreshToken_request (cfg w) cookies')"
  obtain p where hp: "has_data_field ''accessToken'' resp = Inr p" "truthy p = field_present ''accessToken'' resp"
    using has_data_field_value by blast
  show ?thesis
  proof (cases "field_present ''accessToken'' resp")
    case True
    then obtain b d x where ch: "JSON_parse (body resp) = Inr b" "get_prop b ''data'' = Inr d"
        "truthy d" "get_prop d ''accessToken'' = Inr x" "truthy x"
      using field_present_chain by blast
    show ?thesis
      using hp True ch 
      by (simp add: refreshToken_def Let_def http_request_def Trend_add_def Rate_add_def status_is_def
          faster_than_def resp_def [symmetric])
  next
    case False
    show ?thesis
      using hp False
      by (simp add: refreshToken_def Let_def http_request_def Trend_add_def Rate_add_def status_is_def
          faster_than_def resp_def [symmetric])
  qed
qed

lemma logout_effect:
  "\<exists>v. (let resp = srv (sent w) (logout_request (cfg w) accessToken) in
     logout srv accessToken w =
       Inr (v, w\<lparr>sent := sent w @ [logout_request (cfg w) accessToken],
                 checks := checks w @
                   [(''logout: status is 204'', status resp = 204)]\<rparr>)
     \<and> v = JUndefined)"
  by (simp add: logout_def Let_def http_request_def Trend_add_def Rate_add_def status_is_def
          faster_than_def)

lemma signup_effect:
  "\<exists>v. (let resp = srv (sent w) (signup_request (cfg w) email) in
     signup srv email w =
       Inr (v, w\<lparr>sent := sent w @ [signup_request (cfg w) email],
                 trends := (trends w)(signupDuration := trends w signupDuration @ [duration resp]),
                 checks := checks w @
                   [(''signup: status is 201'', status resp = 200),
                    (''signup: has user id'', field_present ''userId'' resp)]\<rparr>)
     \<and> (if status resp = 200 \<and> field_present ''userId'' resp
         then \<exists>u t. v = JObj [(''userId'', u), (''accessToken'', t), (''cookies'', cookies resp)]
                \<and> truthy u
         else v = JNull))"
proof -
  define resp where "resp = srv (sent w) (signup_request (cfg w) email)"
  obtain p where hp: "has_data_field ''userId'' resp = Inr p" "truthy p = field_present ''userId'' resp"
    using has_data_field_value by blast
  show ?thesis
  proof (cases "field_present ''userId'' resp")
    case True
    then obtain b d x where ch: "JSON_parse (body resp) = Inr b" "get_prop b ''data'' = Inr d"
        "truthy d" "get_prop d ''userId'' = Inr x" "truthy x"
      using field_present_chain by blast
    obtain y0 where ex0: "get_prop d ''accessToken'' = Inr y0"
      using get_prop_truthy [OF ch(3)] by blast
    show ?thesis
      using hp True ch ex0
      by (simp add: signup_def Let_def http_request_def Trend_add_def Rate_add_def status_is_def
          faster_than_def resp_def [symmetric])
  next
    case False
    show ?thesis
      using hp False
      by (simp add: signup_def Let_def http_request_def Trend_add_def Rate_add_def status_is_def
          faster_than_def resp_def [symmetric])
  qed
qed

lemma getProfile_effect:
  "\<exists>v. (let resp = srv (sent w) (getProfile_request (cfg w) accessToken) in
     getProfile srv accessToken w =
       Inr (v, w\<lparr>sent := sent w @ [getProfile_request (cfg w) accessToken],
                 trends := (trends w)(getProfileDuration := trends w getProfileDuration @ [duration resp]),
                 checks := checks w @
                   [(''get_profile: status is 200'', status resp = 200),
                    (''get_profile: has user data'', field_present ''email'' resp),
                    (''get_profile: response time < 500ms'', duration resp < 500)]\<rparr>)
     \<and> (if status resp = 200 \<and> field_present ''email'' resp \<and> duration resp < 500
         then truthy v \<and> (\<exists>x. get_prop v ''email'' = Inr x \<and> truthy x)
         else v = JNull))"
proof -
  define resp where "resp = srv (sent w) (getProfile_request (cfg w) accessToken)"
  obtain p where hp: "has_data_field ''email'' resp = Inr p" "truthy p = field_present ''email'' resp"
    using has_data_field_value by blast
  show ?thesis
  proof (cases "field_present ''email'' resp")
    case True
    then obtain b d x where ch: "JSON_parse (body resp) = Inr b" "get_prop b ''data'' = Inr d"
        "truthy d" "get_prop d ''email'' = Inr x" "truthy x"
      using field_present_chain by blast
    show ?thesis
      using hp True ch 
      by (simp add: getProfile_def Let_def http_request_def Trend_add_def Rate_add_def status_is_def
          faster_than_def resp_def [symmetric])
  next
    case False
    show ?thesis
      using hp False
      by (simp add: getProfile_def Let_def http_request_def Trend_add_def Rate_add_def status_is_def
          faster_than_def resp_def [symmetric])
  qed
qed

lemma searchUsers_effect:
  "\<exists>v. (let resp = srv (sent w) (searchUsers_request (cfg w) accessToken nickname page size') in
     searchUsers srv accessToken nickname page size' w =
       Inr (v, w\<lparr>sent := sent w @ [searchUsers_request (cfg w) accessToken nickname page size'],
                 trends := (trends w)(searchUsersDuration := trends w searchUsersDuration @ [duration resp]),
                 checks := checks w @
                   [(''search_users: status is 200'', status resp = 200),
                    (''search_users: response time < 1000ms'', duration resp < 1000)]\<rparr>)
     \<and> v = resp)"
  by (simp add: searchUsers_def Let_def http_request_def Trend_add_def Rate_add_def status_is_def
          faster_than_def)

lemma createSchedule_effect:
  "\<exists>v. (let resp = srv (sent w) (createSchedule_request (cfg w) accessToken dayPlanId scheduleData defaultData) in
     createSchedule srv accessToken dayPlanId scheduleData defaultData w =
       Inr (v, w\<lparr>sent := sent w @ [createSchedule_request (cfg w) accessToken dayPlanId scheduleData defaultData],
                 trends := (trends w)(createScheduleDuration := trends w createScheduleDuration @ [duration resp]),
                 checks := checks w @
                   [(''create_schedule: status is 201'', status resp = 200),
                    (''create_schedule: has schedule id'', field_present ''scheduleId'' resp),
                    (''create_schedule: response time < 1500ms'', duration resp < 1500)]\<rparr>)
     \<and> (if status resp = 200 \<and> field_present ''scheduleId'' resp \<and> duration resp < 1500
         then truthy v \<and> (\<exists>x. get_prop v ''scheduleId'' = Inr x \<and> truthy x)
         else v = JNull))"
proof -
  define resp where "resp = srv (sent w) (createSchedule_request (cfg w) accessToken dayPlanId scheduleData defaultData)"
  obtain p where hp: "has_data_field ''scheduleId'' resp = Inr p" "truthy p = field_present ''scheduleId'' resp"
    using has_data_field_value by blast
  show ?thesis
  proof (cases "field_present ''scheduleId'' resp")
    case True
    then obtain b d x where ch: "JSON_parse (body resp) = Inr b" "get_prop b ''data'' = Inr d"
        "truthy d" "get_prop d ''scheduleId'' = Inr x" "truthy x"
      using field_present_chain by blast
    show ?thesis
      using hp True ch 
      by (simp add: createSchedule_def Let_def http_request_def Trend_add_def Rate_add_def status_is_def
          faster_than_def resp_def [symmetric])
  next
    case False
    show ?thesis
      using hp False
      by (simp add: createSchedule_def Let_def http_request_def Trend_add_def Rate_add_def status_is_def
          faster_than_def resp_def [symmetric])
  qed
qed

lemma getSchedules_effect:
  "\<exists>v. (let resp = srv (sent w) (getSchedules_request (cfg w) today accessToken dayPlanId page size') in
     getSchedules srv today accessToken dayPlanId page size' w =
       Inr (v, w\<lparr>sent := sent w @ [getSchedules_request (cfg w) today accessToken dayPlanId page size'],
                 trends := (trends w)(getSchedulesDuration := trends w getSchedulesDuration @ [duration resp]),
                 checks := checks w @
                   [(''get_schedules: status is 200'', status resp = 200),
                    (''get_schedules: response time < 1000ms'', duration resp < 1000)]\<rparr>)
     \<and> v = resp)"
  by (simp add: getSchedules_def Let_def http_request_def Trend_add_def Rate_add_def status_is_def
          faster_than_def)

lemma getSchedulesByDate_effect:
  "\<exists>v. (let resp = srv (sent w) (getSchedulesByDate_request (cfg w) today accessToken date) in
     getSchedulesByDate srv today accessToken date w =
       Inr (v, w\<lparr>sent := sent w @ [getSchedulesByDate_request (cfg w) today accessToken date],
                 trends := (trends w)(getSchedulesDuration := trends w getSchedulesDuration @ [duration resp]),
                 checks := checks w @
                   [(''get_schedules_by_date: status is 200'', status resp = 200),
                    (''get_schedules_by_date: has dayPlanId'', field_present ''dayPlanId'' resp)]\<rparr>)
     \<and> (if status resp = 200 \<and> field_present ''dayPlanId'' resp
         then \<exists>i s. v = JObj [(''dayPlanId'', i), (''schedules'', s),
                           (''response'', response_object resp)] \<and> truthy i
         else v = JNull))"
proof -
  define resp where "resp = srv (sent w) (getSchedulesByDate_request (cfg w) today accessToken date)"
  obtain p where hp: "has_data_field ''dayPlanId'' resp = Inr p" "truthy p = field_present ''dayPlanId'' resp"
    using has_data_field_value by blast
  show ?thesis
  proof (cases "field_present ''dayPlanId'' resp")
    case True
    then obtain b d x where ch: "JSON_parse (body resp) = Inr b" "get_prop b ''data'' = Inr d"
        "truthy d" "get_prop d ''dayPlanId'' = Inr x" "truthy x"
      using field_present_chain by blast
    obtain y0 where ex0: "get_prop d ''content'' = Inr y0"
      using get_prop_truthy [OF ch(3)] by blast
    show ?thesis
      using hp True ch ex0
      by (simp add: getSchedulesByDate_def Let_def http_request_def Trend_add_def Rate_add_def status_is_def
          faster_than_def resp_def [symmetric])
  next
    case False
    show ?thesis
      using hp False
      by (simp add: getSchedulesByDate_def Let_def http_request_def Trend_add_def Rate_add_def status_is_def
          faster_than_def resp_def [symmetric])
  qed
qed

lemma updateSchedule_effect:
  "\<exists>v. (let resp = srv (sent w) (updateSchedule_request (cfg w) accessToken scheduleId updateData) in
     updateSchedule srv accessToken scheduleId updateData w =
       Inr (v, w\<lparr>sent := sent w @ [updateSchedule_request (cfg w) accessToken scheduleId updateData],
                 trends := (trends w)(updateScheduleDuration := trends w updateScheduleDuration @ [duration resp]),
                 checks := checks w @
                   [(''update_schedule: status is 204'', status resp = 204),
                    (''update_schedule: response time < 1000ms'', duration resp < 1000)]\<rparr>)
     \<and> v = resp)"
  by (simp add: updateSchedule_def Let_def http_request_def Trend_add_def Rate_add_def status_is_def
          faster_than_def)

lemma deleteSchedule_effect:
  "\<exists>v. (let resp = srv (sent w) (deleteSchedule_request (cfg w) accessToken scheduleId) in
     deleteSchedule srv accessToken scheduleId w =
       Inr (v, w\<lparr>sent := sent w @ [deleteSchedule_request (cfg w) accessToken scheduleId],
                 trends := (trends w)(deleteScheduleDuration := trends w deleteScheduleDuration @ [duration resp]),
                 checks := checks w @
                   [(''delete_schedule: status is 204'', status resp = 204)]\<rparr>)
     \<and> v = resp)"
  by (simp add: deleteSchedule_def Let_def http_request_def Trend_add_def Rate_add_def status_is_def
          faster_than_def)

lemma updateScheduleStatus_effect:
  "\<exists>v. (let resp = srv (sent w) (updateScheduleStatus_request (cfg w) accessToken scheduleId status') in
     updateScheduleStatus srv accessToken scheduleId status' w =
       Inr (v, w\<lparr>sent := sent w @ [updateScheduleStatus_request (cfg w) accessToken scheduleId status'],
                 checks := checks w @
                   [(''update_schedule_status: status is 204'', status resp = 204)]\<rparr>)
     \<and> v = resp)"
  by (simp add: updateScheduleStatus_def Let_def http_request_def Trend_add_def Rate_add_def status_is_def
          faster_than_def)

lemma aiScheduleArrangement_effect:
  "\<exists>v. (let resp = srv (sent w) (aiScheduleArrangement_request (cfg w) accessToken dayPlanId) in
     aiScheduleArrangement srv accessToken dayPlanId w =
       Inr (v, w\<lparr>sent := sent w @ [aiScheduleArrangement_request (cfg w) accessToken dayPlanId],
                 trends := (trends w)(aiArrangementDuration := trends w aiArrangementDuration @ [duration resp]),
                 checks := checks w @
                   [(''ai_arrangement: status is 200 or 201'', status resp = 200 \<or> status resp = 201),
                    (''ai_arrangement: response time < 5000ms'', duration resp < 5000)]\<rparr>)
     \<and> v = resp)"
  by (simp add: aiScheduleArrangement_def Let_def http_request_def Trend_add_def Rate_add_def status_is_def
          faster_than_def status_is_200_or_201_def)

lemma getNotifications_effect:
  "\<exists>v. (let resp = srv (sent w) (getNotifications_request (cfg w) accessToken page size') in
     getNotifications srv accessToken page size' w =
       Inr (v, w\<lparr>sent := sent w @ [getNotifications_request (cfg w) accessToken page size'],
                 checks := checks w @
                   [(''get_notifications: status is 200'', status resp = 200)]\<rparr>)
     \<and> v = resp)"
  by (simp add: getNotifications_def Let_def http_request_def Trend_add_def Rate_add_def status_is_def
          faster_than_def)

lemma registerFcmToken_effect:
  "\<exists>v. (let resp = srv (sent w) (registerFcmToken_request (cfg w) accessToken fcmToken platform) in
     registerFcmToken srv accessToken fcmToken platform w =
       Inr (v, w\<lparr>sent := sent w @ [registerFcmToken_request (cfg w) accessToken fcmToken platform],
                 checks := checks w @
                   [(''register_fcm_token: status is 204'', status resp = 204)]\<rparr>)
     \<and> v = resp)"
  by (simp add: registerFcmToken_def Let_def http_request_def Trend_add_def Rate_add_def status_is_def
          faster_than_def)

lemma healthCheck_effect:
  "\<exists>v. (let resp = srv (sent w) (healthCheck_request (cfg w)) in
     healthCheck srv w =
       Inr (v, w\<lparr>sent := sent w @ [healthCheck_request (cfg w)],
                 checks := checks w @
                   [(''health_check: status is 200'', status resp = 200),
                    (''health_check: response time < 100ms'', duration resp < 100)]\<rparr>)
     \<and> v = (status resp = 200 \<and> duration resp < 100))"
  by (simp add: healthCheck_def Let_def http_request_def Trend_add_def Rate_add_def status_is_def
          faster_than_def)

lemma login_request_from_config [simp]:
  "from_config c (login_request c email password)"
  by (simp add: from_config_def login_request_def json_headers_from_config auth_headers_from_config)

lemma login_request_tag [simp]:
  "tag (login_request c email password) = ''login''"
  by (simp add: login_request_def)

lemma refreshToken_request_from_config [simp]:
  "from_config c (refreshToken_request c cookies')"
  by (simp add: from_config_def refreshToken_request_def json_headers_from_config auth_headers_from_config)

lemma refreshToken_request_tag [simp]:
  "tag (refreshToken_request c cookies') = ''refresh_token''"
  by (simp add: refreshToken_request_def)

lemma refreshToken_step:
  obtains v w' b1 b2 b3 where
    "refreshToken srv cookies' w = Inr (v, w')"
    "extends w w' [refreshToken_request (cfg w) cookies'] (refreshToken_checks b1 b2 b3)"
    "if b1 \<and> b2 \<and> b3 then \<exists>t. get_prop v ''accessToken'' = Inr t \<and> truthy t \<and> truthy v else v = JNull"
  using refreshToken_effect [of srv w cookies']
  by (auto simp: Let_def extends_def refreshToken_checks_def split: if_splits)

lemma logout_request_from_config [simp]:
  "from_config c (logout_request c accessToken)"
  by (simp add: from_config_def logout_request_def json_headers_from_config auth_headers_from_config)

lemma logout_request_tag [simp]:
  "tag (logout_request c accessToken) = ''logout''"
  by (simp add: logout_request_def)

lemma logout_step:
  obtains v w' b1 where
    "logout srv accessToken w = Inr (v, w')"
    "extends w w' [logout_request (cfg w) accessToken] (logout_checks b1)"
  using logout_effect [of srv w accessToken]
  by (auto simp: Let_def extends_def logout_checks_def split: if_splits)

lemma signup_request_from_config [simp]:
  "from_config c (signup_request c email)"
  by (simp add: from_config_def signup_request_def json_headers_from_config auth_headers_from_config)

lemma signup_request_tag [simp]:
  "tag (signup_request c email) = ''signup''"
  by (simp add: signup_request_def)

lemma signup_step:
  obtains v w' b1 b2 where
    "signup srv email w = Inr (v, w')"
    "extends w w' [signup_request (cfg w) email] (signup_checks b1 b2)"
    "if b1 \<and> b2 then truthy v \<and> (\<exists>t. get_prop v ''accessToken'' = Inr t) else v = JNull"
  using signup_effect [of srv w email]
  by (auto simp: Let_def extends_def signup_checks_def split: if_splits)

lemma getProfile_request_from_config [simp]:
  "from_config c (getProfile_request c accessToken)"
  by (simp add: from_config_def getProfile_request_def json_headers_from_config auth_headers_from_config)

lemma getProfile_request_tag [simp]:
  "tag (getProfile_request c accessToken) = ''get_profile''"
  by (simp add: getProfile_request_def)

lemma getProfile_step:
  obtains v w' b1 b2 b3 where
    "getProfile srv accessToken w = Inr (v, w')"
    "extends w w' [getProfile_request (cfg w) accessToken] (getProfile_checks b1 b2 b3)"
    "if b1 \<and> b2 \<and> b3 then truthy v \<and> (\<exists>x. get_prop v ''email'' = Inr x \<and> truthy x) else v = JNull"
  using getProfile_effect [of srv w accessToken]
  by (auto simp: Let_def extends_def getProfile_checks_def split: if_splits)

lemma searchUsers_request_from_config [simp]:
  "from_config c (searchUsers_request c accessToken nickname page size')"
  by (simp add: from_config_def searchUsers_request_def json_headers_from_config auth_headers_from_config)

lemma searchUsers_request_tag [simp]:
  "tag (searchUsers_request c accessToken nickname page size') = ''search_users''"
  by (simp add: searchUsers_request_def)

lemma searchUsers_step:
  obtains v w' b1 b2 where
    "searchUsers srv accessToken nickname page size' w = Inr (v, w')"
    "extends w w' [searchUsers_request (cfg w) accessToken nickname page size'] (searchUsers_checks b1 b2)"
  using searchUsers_effect [of srv w accessToken nickname page size']
  by (auto simp: Let_def extends_def searchUsers_checks_def split: if_splits)

lemma createSchedule_request_from_config [simp]:
  "from_config c (createSchedule_request c accessToken dayPlanId scheduleData defaultData)"
  by (simp add: from_config_def createSchedule_request_def json_headers_from_config auth_headers_from_config)

lemma createSchedule_request_tag [simp]:
  "tag (createSchedule_request c accessToken dayPlanId scheduleData defaultData) = ''create_schedule''"
  by (simp add: createSchedule_request_def)

lemma createSchedule_step:
  obtains v w' b1 b2 b3 where
    "createSchedule srv accessToken dayPlanId scheduleData defaultData w = Inr (v, w')"
    "extends w w' [createSchedule_request (cfg w) accessToken dayPlanId scheduleData defaultData] (createSchedule_checks b1 b2 b3)"
    "if b1 \<and> b2 \<and> b3 then truthy v \<and> (\<exists>x. get_prop v ''scheduleId'' = Inr x \<and> truthy x) else v = JNull"
  using createSchedule_effect [of srv w accessToken dayPlanId scheduleData defaultData]
  by (auto simp: Let_def extends_def createSchedule_checks_def split: if_splits)

lemma getSchedules_request_from_config [simp]:
  "from_config c (getSchedules_request c today accessToken dayPlanId page size')"
  by (simp add: from_config_def getSchedules_request_def json_headers_from_config auth_headers_from_config)

lemma getSchedules_request_tag [simp]:
  "tag (getSchedules_request c today accessToken dayPlanId page size') = ''get_schedules''"
  by (simp add: getSchedules_request_def)

lemma getSchedules_step:
  obtains v w' b1 b2 where
    "getSchedules srv today accessToken dayPlanId page size' w = Inr (v, w')"
    "extends w w' [getSchedules_request (cfg w) today accessToken dayPlanId page size'] (getSchedules_checks b1 b2)"
  using getSchedules_effect [of srv w today accessToken dayPlanId page size']
  by (auto simp: Let_def extends_def getSchedules_checks_def split: if_splits)

lemma getSchedulesByDate_request_from_config [simp]:
  "from_config c (getSchedulesByDate_request c today accessToken date)"
  by (simp add: from_config_def getSchedulesByDate_request_def json_headers_from_config auth_headers_from_config)

lemma getSchedulesByDate_request_tag [simp]:
  "tag (getSchedulesByDate_request c today accessToken date) = ''get_schedules_by_date''"
  by (simp add: getSchedulesByDate_request_def)

lemma getSchedulesByDate_step:
  obtains v w' b1 b2 where
    "getSchedulesByDate srv today accessToken date w = Inr (v, w')"
    "extends w w' [getSchedulesByDate_request (cfg w) today accessToken date] (getSchedulesByDate_checks b1 b2)"
    "if b1 \<and> b2 then truthy v \<and> (\<exists>i. get_prop v ''dayPlanId'' = Inr i \<and> truthy i) else v = JNull"
  using getSchedulesByDate_effect [of srv w today accessToken date]
  by (auto simp: Let_def extends_def getSchedulesByDate_checks_def split: if_splits)

lemma updateSchedule_request_from_config [simp]:
  "from_config c (updateSchedule_request c accessToken scheduleId updateData)"
  by (simp add: from_config_def updateSchedule_request_def json_headers_from_config auth_headers_from_config)

lemma updateSchedule_request_tag [simp]:
  "tag (updateSchedule_request c accessToken scheduleId updateData) = ''update_schedule''"
  by (simp add: updateSchedule_request_def)

lemma updateSchedule_step:
  obtains v w' b1 b2 where
    "updateSchedule srv accessToken scheduleId updateData w = Inr (v, w')"
    "extends w w' [updateSchedule_request (cfg w) accessToken scheduleId updateData] (updateSchedule_checks b1 b2)"
  using updateSchedule_effect [of srv w accessToken scheduleId updateData]
  by (auto simp: Let_def extends_def updateSchedule_checks_def split: if_splits)

lemma deleteSchedule_request_from_config [simp]:
  "from_config c (deleteSchedule_request c accessToken scheduleId)"
  by (simp add: from_config_def deleteSchedule_request_def json_headers_from_config auth_headers_from_config)

lemma deleteSchedule_request_tag [simp]:
  "tag (deleteSchedule_request c accessToken scheduleId) = ''delete_schedule''"
  by (simp add: deleteSchedule_request_def)

lemma deleteSchedule_step:
  obtains v w' b1 where
    "deleteSchedule srv accessToken scheduleId w = Inr (v, w')"
    "extends w w' [deleteSchedule_request (cfg w) accessToken scheduleId] (deleteSchedule_checks b1)"
  using deleteSchedule_effect [of srv w accessToken scheduleId]
  by (auto simp: Let_def extends_def deleteSchedule_checks_def split: if_splits)

lemma updateScheduleStatus_request_from_config [simp]:
  "from_config c (updateScheduleStatus_request c accessToken scheduleId status')"
  by (simp add: from_config_def updateScheduleStatus_request_def json_headers_from_config auth_headers_from_config)

lemma updateScheduleStatus_request_tag [simp]:
  "tag (updateScheduleStatus_request c accessToken scheduleId status') = ''update_schedule_status''"
  by (simp add: updateScheduleStatus_request_def)

lemma updateScheduleStatus_step:
  obtains v w' b1 where
    "updateScheduleStatus srv accessToken scheduleId status' w = Inr (v, w')"
    "extends w w' [updateScheduleStatus_request (cfg w) accessToken scheduleId status'] (updateScheduleStatus_checks b1)"
  using updateScheduleStatus_effect [of srv w accessToken scheduleId status']
  by (auto simp: Let_def extends_def updateScheduleStatus_checks_def split: if_splits)

lemma aiScheduleArrangement_request_from_config [simp]:
  "from_config c (aiScheduleArrangement_request c accessToken dayPlanId)"
  by (simp add: from_config_def aiScheduleArrangement_request_def json_headers_from_config auth_headers_from_config)

lemma aiScheduleArrangement_request_tag [simp]:
  "tag (aiScheduleArrangement_request c accessToken dayPlanId) = ''ai_arrangement''"
  by (simp add: aiScheduleArrangement_request_def)

lemma aiScheduleArrangement_step:
  obtains v w' b1 b2 where
    "aiScheduleArrangement srv accessToken dayPlanId w = Inr (v, w')"
    "extends w w' [aiScheduleArrangement_request (cfg w) accessToken dayPlanId] (aiScheduleArrangement_checks b1 b2)"
  using aiScheduleArrangement_effect [of srv w accessToken dayPlanId]
  by (auto simp: Let_def extends_def aiScheduleArrangement_checks_def split: if_splits)

lemma getNotifications_request_from_config [simp]:
  "from_config c (getNotifications_request c accessToken page size')"
  by (simp add: from_config_def getNotifications_request_def json_headers_from_config auth_headers_from_config)

lemma getNotifications_request_tag [simp]:
  "tag (getNotifications_request c accessToken page size') = ''get_notifications''"
  by (simp add: getNotifications_request_def)

lemma getNotifications_step:
  obtains v w' b1 where
    "getNotifications srv accessToken page size' w = Inr (v, w')"
    "extends w w' [getNotifications_request (cfg w) accessToken page size'] (getNotifications_checks b1)"
  using getNotifications_effect [of srv w accessToken page size']
  by (auto simp: Let_def extends_def getNotifications_checks_def split: if_splits)

lemma registerFcmToken_request_from_config [simp]:
  "from_config c (registerFcmToken_request c accessToken fcmToken platform)"
  by (simp add: from_config_def registerFcmToken_request_def json_headers_from_config auth_headers_from_config)

lemma registerFcmToken_request_tag [simp]:
  "tag (registerFcmToken_request c accessToken fcmToken platform) = ''register_fcm_token''"
  by (simp add: registerFcmToken_request_def)

lemma registerFcmToken_step:
  obtains v w' b1 where
    "registerFcmToken srv accessToken fcmToken platform w = Inr (v, w')"
    "extends w w' [registerFcmToken_request (cfg w) accessToken fcmToken platform] (registerFcmToken_checks b1)"
  using registerFcmToken_effect [of srv w accessToken fcmToken platform]
  by (auto simp: Let_def extends_def registerFcmToken_checks_def split: if_splits)

lemma healthCheck_request_from_config [simp]:
  "from_config c (healthCheck_request c)"
  by (simp add: from_config_def healthCheck_request_def json_headers_from_config auth_headers_from_config)

lemma healthCheck_request_tag [simp]:
  "tag (healthCheck_request c) = ''health_check''"
  by (simp add: healthCheck_request_def)

lemma healthCheck_step:
  obtains v w' b1 b2 where
    "healthCheck srv w = Inr (v, w')"
    "extends w w' [healthCheck_request (cfg w)] (healthCheck_checks b1 b2)"
    "v = (b1 \<and> b2)"
  using healthCheck_effect [of srv w]
  by (auto simp: Let_def extends_def healthCheck_checks_def split: if_splits)

section \<open>What one iteration does\<close>

lemma extends_trans:
  "extends w w1 rs cs \<Longrightarrow> extends w1 w2 rs' cs' \<Longrightarrow> extends w w2 (rs @ rs') (cs @ cs')"
  by (auto simp: extends_def)

lemma extends_refl: "extends w w [] []"
  by (simp add: extends_def)

lemma iteration_abort:
  "extends w w1 rs cs \<Longrightarrow> iteration w (Rate_add scenarioFailRate b w1) rs cs b"
  by (auto simp: extends_def iteration_def Rate_add_def)

lemma iteration_finish:
  "extends w w1 rs cs \<Longrightarrow>
     iteration w (Rate_add scenarioFailRate b (Trend_add m x w1)) rs cs b"
  by (auto simp: extends_def iteration_def Rate_add_def Trend_add_def)

lemma signup_group_step:
  obtains ok t w1 b1 b2 where
    "signup_group srv d w = Inr ((ok, t), w1)"
    "extends w w1 [signup_request (cfg w) (d_email d)]
       (signup_checks b1 b2)"
    "truthy t \<longrightarrow> b1 \<and> b2 \<and> ok"
proof -
  obtain v w1 b1 b2 where s:
    "signup srv (d_email d) w = Inr (v, w1)"
    "extends w w1 [signup_request (cfg w) (d_email d)]
       (signup_checks b1 b2)"
    "if b1 \<and> b2 then truthy v \<and> (\<exists>t. get_prop v ''accessToken'' = Inr t) else v = JNull"
    by (rule signup_step)
  show ?thesis
  proof (cases "b1 \<and> b2")
    case True
    with s(3) obtain t where t: "truthy v" "get_prop v ''accessToken'' = Inr t" by auto
    have "signup_group srv d w = Inr ((True, t), w1)"
      by (simp add: signup_group_def s(1) t)
    then show ?thesis using that [of True t w1 b1 b2] s(2) True by simp
  next
    case False
    with s(3) have "v = JNull" by simp
    then have "signup_group srv d w = Inr ((False, JNull), w1)"
      by (simp add: signup_group_def s(1))
    then show ?thesis using that [of False JNull w1 b1 b2] s(2) by simp
  qed
qed

lemma initial_load_group_step:
  obtains i w2 p1 p2 p3 g1 g2 where
    "initial_load_group srv d accessToken w = Inr (i, w2)"
    "extends w w2
       [getProfile_request (cfg w) accessToken,
        getSchedulesByDate_request (cfg w) (d_today d) accessToken JNull]
       (getProfile_checks p1 p2 p3 @ getSchedulesByDate_checks g1 g2)"
    "truthy i \<longleftrightarrow> g1 \<and> g2"
proof -
  obtain u w1 p1 p2 p3 where p:
    "getProfile srv accessToken w = Inr (u, w1)"
    "extends w w1 [getProfile_request (cfg w) accessToken]
       (getProfile_checks p1 p2 p3)"
    using getProfile_step [of srv accessToken w] by metis
  obtain v w2 g1 g2 where g:
    "getSchedulesByDate srv (d_today d) accessToken JNull w1 = Inr (v, w2)"
    "extends w1 w2 [getSchedulesByDate_request (cfg w1) (d_today d) accessToken JNull]
       (getSchedulesByDate_checks g1 g2)"
    "if g1 \<and> g2 then truthy v \<and> (\<exists>i. get_prop v ''dayPlanId'' = Inr i \<and> truthy i)
     else v = JNull"
    by (rule getSchedulesByDate_step)
  have c: "cfg w1 = cfg w" using p(2) by (simp add: extends_def)
  have e: "extends w w2
       [getProfile_request (cfg w) accessToken,
        getSchedulesByDate_request (cfg w) (d_today d) accessToken JNull]
       (getProfile_checks p1 p2 p3 @ getSchedulesByDate_checks g1 g2)"
    using extends_trans [OF p(2) g(2)] by (simp add: c)
  show ?thesis
  proof (cases "g1 \<and> g2")
    case True
    with g(3) obtain i where i: "truthy v" "get_prop v ''dayPlanId'' = Inr i" "truthy i" by auto
    have "initial_load_group srv d accessToken w = Inr (i, w2)"
      by (simp add: initial_load_group_def p(1) g(1) and_prop_def i)
    then show ?thesis using that [of i w2 p1 p2 p3 g1 g2] e True i(3) by simp
  next
    case False
    with g(3) have "v = JNull" by simp
    then have "initial_load_group srv d accessToken w = Inr (JNull, w2)"
      by (simp add: initial_load_group_def p(1) g(1) and_prop_def)
    then show ?thesis using that [of JNull w2 p1 p2 p3 g1 g2] e False by simp
  qed
qed

lemma when_schedule_id_null:
  "when_schedule_id JNull f w = Inr w"
  by (simp add: when_schedule_id_def and_prop_def)

lemma when_schedule_id_present:
  "truthy v \<Longrightarrow> get_prop v ''scheduleId'' = Inr x \<Longrightarrow> truthy x \<Longrightarrow>
     when_schedule_id v f w = bindE (f x w) (\<lambda>(response, w1). Inr w1)"
  by (simp add: when_schedule_id_def and_prop_def)

lemma load_default_cases:
  obtains
    (signup_failed) w' rs b1 b2 where
      "load_default srv d w = Inr w'"
      "iteration w w' rs (signup_checks b1 b2) True"
      "map tag rs = [''signup'']"
  | (no_day_plan) w' rs p1 p2 p3 g1 g2 where
      "load_default srv d w = Inr w'"
      "iteration w w' rs
         (signup_checks True True @ getProfile_checks p1 p2 p3
          @ getSchedulesByDate_checks g1 g2) True"
      "\<not> (g1 \<and> g2)"
      "map tag rs = [''signup'', ''get_profile'', ''get_schedules_by_date'']"
  | (create_failed) w' rs p1 p2 p3 c1 c2 c3 s1 s2 u1 u2 n1 l1 where
      "load_default srv d w = Inr w'"
      "iteration w w' rs
         (signup_checks True True @ getProfile_checks p1 p2 p3
          @ getSchedulesByDate_checks True True @ createSchedule_checks c1 c2 c3
          @ getSchedules_checks s1 s2 @ searchUsers_checks u1 u2
          @ getNotifications_checks n1 @ logout_checks l1) True"
      "\<not> (c1 \<and> c2 \<and> c3)"
      "map tag rs = [''signup'', ''get_profile'', ''get_schedules_by_date'', ''create_schedule'',
         ''get_schedules'', ''search_users'', ''get_notifications'', ''logout'']"
  | (completed) w' rs p1 p2 p3 s1 s2 a1 u1 u2 n1 e1 l1 where
      "load_default srv d w = Inr w'"
      "iteration w w' rs
         (signup_checks True True @ getProfile_checks p1 p2 p3
          @ getSchedulesByDate_checks True True @ createSchedule_checks True True True
          @ getSchedules_checks s1 s2 @ updateScheduleStatus_checks a1
          @ searchUsers_checks u1 u2 @ getNotifications_checks n1
          @ deleteSchedule_checks e1 @ logout_checks l1) False"
      "map tag rs = [''signup'', ''get_profile'', ''get_schedules_by_date'', ''create_schedule'',
         ''get_schedules'', ''update_schedule_status'', ''search_users'', ''get_notifications'',
         ''delete_schedule'', ''logout'']"
proof -
  obtain ok t w1 b1 b2 where g:
    "signup_group srv d w = Inr ((ok, t), w1)"
    "extends w w1 [signup_request (cfg w) (d_email d)] (signup_checks b1 b2)"
    "truthy t \<longrightarrow> b1 \<and> b2 \<and> ok"
    by (rule signup_group_step [of srv d w])
  show thesis
  proof (cases "truthy t")
    case False
    have "load_default srv d w = Inr (Rate_add scenarioFailRate True w1)"
      by (simp add: load_default_def g(1) False)
    then show thesis
      using iteration_abort [OF g(2)] by (rule signup_failed) simp
  next
    case t: True
    with g(3) have b: "b1" "b2" "ok" by simp_all
    obtain i w2 p1 p2 p3 g1 g2 where l:
      "initial_load_group srv d t w1 = Inr (i, w2)"
      "extends w1 w2
         [getProfile_request (cfg w1) t, getSchedulesByDate_request (cfg w1) (d_today d) t JNull]
         (getProfile_checks p1 p2 p3 @ getSchedulesByDate_checks g1 g2)"
      "truthy i \<longleftrightarrow> g1 \<and> g2"
      by (rule initial_load_group_step [of srv d t w1])
    note e2 = extends_trans [OF g(2) l(2)]
    show thesis
    proof (cases "truthy i")
      case False
      have "load_default srv d w = Inr (Rate_add scenarioFailRate True w2)"
        by (simp add: load_default_def g(1) t l(1) False)
      moreover have "iteration w (Rate_add scenarioFailRate True w2)
          [signup_request (cfg w) (d_email d), getProfile_request (cfg w1) t,
           getSchedulesByDate_request (cfg w1) (d_today d) t JNull]
          (signup_checks True True @ getProfile_checks p1 p2 p3
           @ getSchedulesByDate_checks g1 g2) True"
        using iteration_abort [OF e2, of True] b by simp
      moreover have "\<not> (g1 \<and> g2)" using l(3) False by simp
      ultimately show thesis by (rule no_day_plan) simp
    next
      case i: True
      with l(3) have gg: "g1" "g2" by simp_all
      obtain v w3 c1 c2 c3 where c:
        "createSchedule srv t i (schedule_literal d ''HOUR_1_TO_2'' 3) (d_defaultData d) w2
           = Inr (v, w3)"
        "extends w2 w3
           [createSchedule_request (cfg w2) t i (schedule_literal d ''HOUR_1_TO_2'' 3)
              (d_defaultData d)]
           (createSchedule_checks c1 c2 c3)"
        "if c1 \<and> c2 \<and> c3 then truthy v \<and> (\<exists>x. get_prop v ''scheduleId'' = Inr x \<and> truthy x)
         else v = JNull"
        by (rule createSchedule_step [of srv t i _ _ w2])
      note e3 = extends_trans [OF e2 c(2)]
      obtain r4 w4 s1 s2 where s:
        "getSchedules srv (d_today d) t i (JNum 1) (JNum 10) w3 = Inr (r4, w4)"
        "extends w3 w4 [getSchedules_request (cfg w3) (d_today d) t i (JNum 1) (JNum 10)]
           (getSchedules_checks s1 s2)"
        by (rule getSchedules_step [of srv _ t i _ _ w3])
      note e4 = extends_trans [OF e3 s(2)]
      show thesis
      proof (cases "c1 \<and> c2 \<and> c3")
        case False
        with c(3) have v: "v = JNull" by simp
        obtain r6 w6 u1 u2 where u:
          "searchUsers srv t ''User'' (JNum 1) (JNum 10) w4 = Inr (r6, w6)"
          "extends w4 w6 [searchUsers_request (cfg w4) t ''User'' (JNum 1) (JNum 10)]
             (searchUsers_checks u1 u2)"
          by (rule searchUsers_step [of srv t _ _ _ w4])
        note e6 = extends_trans [OF e4 u(2)]
        obtain r7 w7 n1 where n:
          "getNotifications srv t (JNum 1) (JNum 10) w6 = Inr (r7, w7)"
          "extends w6 w7 [getNotifications_request (cfg w6) t (JNum 1) (JNum 10)]
             (getNotifications_checks n1)"
          by (rule getNotifications_step [of srv t _ _ w6])
        note e7 = extends_trans [OF e6 n(2)]
        obtain r9 w9 l1 where o:
          "logout srv t w7 = Inr (r9, w9)"
          "extends w7 w9 [logout_request (cfg w7) t] (logout_checks l1)"
          using logout_step [of srv t w7] by metis
        note e9 = extends_trans [OF e7 o(2)]
        have "load_default srv d w = Inr (Rate_add scenarioFailRate True
                (Trend_add fullScenarioDuration (d_elapsed d) w9))"
          by (simp add: load_default_def g(1) t l(1) i c(1) v s(1) u(1) n(1) o(1)
              when_schedule_id_null)
        moreover have "iteration w (Rate_add scenarioFailRate True
                (Trend_add fullScenarioDuration (d_elapsed d) w9))
            ([signup_request (cfg w) (d_email d), getProfile_request (cfg w1) t,
              getSchedulesByDate_request (cfg w1) (d_today d) t JNull]
             @ [createSchedule_request (cfg w2) t i (schedule_literal d ''HOUR_1_TO_2'' 3)
                  (d_defaultData d),
                getSchedules_request (cfg w3) (d_today d) t i (JNum 1) (JNum 10),
                searchUsers_request (cfg w4) t ''User'' (JNum 1) (JNum 10),
                getNotifications_request (cfg w6) t (JNum 1) (JNum 10),
                logout_request (cfg w7) t])
            (signup_checks True True @ getProfile_checks p1 p2 p3
             @ getSchedulesByDate_checks True True @ createSchedule_checks c1 c2 c3
             @ getSchedules_checks s1 s2 @ searchUsers_checks u1 u2
             @ getNotifications_checks n1 @ logout_checks l1) True"
          using iteration_finish [OF e9, of True] b gg by simp
        ultimately show thesis using False by (rule create_failed) simp
      next
        case True
        with c(3) obtain x where v: "truthy v" "get_prop v ''scheduleId'' = Inr x" "truthy x"
          by auto
        obtain r5 w5 a1 where a:
          "updateScheduleStatus srv t x ''DONE'' w4 = Inr (r5, w5)"
          "extends w4 w5 [updateScheduleStatus_request (cfg w4) t x ''DONE'']
             (updateScheduleStatus_checks a1)"
          by (rule updateScheduleStatus_step [of srv t x _ w4])
        note e5 = extends_trans [OF e4 a(2)]
        obtain r6 w6 u1 u2 where u:
          "searchUsers srv t ''User'' (JNum 1) (JNum 10) w5 = Inr (r6, w6)"
          "extends w5 w6 [searchUsers_request (cfg w5) t ''User'' (JNum 1) (JNum 10)]
             (searchUsers_checks u1 u2)"
          by (rule searchUsers_step [of srv t _ _ _ w5])
        note e6 = extends_trans [OF e5 u(2)]
        obtain r7 w7 n1 where n:
          "getNotifications srv t (JNum 1) (JNum 10) w6 = Inr (r7, w7)"
          "extends w6 w7 [getNotifications_request (cfg w6) t (JNum 1) (JNum 10)]
             (getNotifications_checks n1)"
          by (rule getNotifications_step [of srv t _ _ w6])
        note e7 = extends_trans [OF e6 n(2)]
        obtain r8 w8 d1 where x:
          "deleteSchedule srv t x w7 = Inr (r8, w8)"
          "extends w7 w8 [deleteSchedule_request (cfg w7) t x] (deleteSchedule_checks d1)"
          by (rule deleteSchedule_step [of srv t x w7])
        note e8 = extends_trans [OF e7 x(2)]
        obtain r9 w9 l1 where o:
          "logout srv t w8 = Inr (r9, w9)"
          "extends w8 w9 [logout_request (cfg w8) t] (logout_checks l1)"
          using logout_step [of srv t w8] by metis
        note e9 = extends_trans [OF e8 o(2)]
        have "load_default srv d w = Inr (Rate_add scenarioFailRate False
                (Trend_add fullScenarioDuration (d_elapsed d) w9))"
          by (simp add: load_default_def g(1) t l(1) i c(1) v s(1) a(1) u(1) n(1) x(1) o(1) b
              when_schedule_id_present [OF v])
        moreover have "iteration w (Rate_add scenarioFailRate False
                (Trend_add fullScenarioDuration (d_elapsed d) w9))
            ([signup_request (cfg w) (d_email d), getProfile_request (cfg w1) t,
              getSchedulesByDate_request (cfg w1) (d_today d) t JNull]
             @ [createSchedule_request (cfg w2) t i (schedule_literal d ''HOUR_1_TO_2'' 3)
                  (d_defaultData d),
                getSchedules_request (cfg w3) (d_today d) t i (JNum 1) (JNum 10),
                updateScheduleStatus_request (cfg w4) t x ''DONE'',
                searchUsers_request (cfg w5) t ''User'' (JNum 1) (JNum 10),
                getNotifications_request (cfg w6) t (JNum 1) (JNum 10),
                deleteSchedule_request (cfg w7) t x,
                logout_request (cfg w8) t])
            (signup_checks True True @ getProfile_checks p1 p2 p3
             @ getSchedulesByDate_checks True True @ createSchedule_checks True True True
             @ getSchedules_checks s1 s2 @ updateScheduleStatus_checks a1
             @ searchUsers_checks u1 u2 @ getNotifications_checks n1
             @ deleteSchedule_checks d1 @ logout_checks l1) False"
          using iteration_finish [OF e9, of False] b gg True by simp
        ultimately show thesis by (rule completed) simp
      qed
    qed
  qed
qed

lemma stress_default_cases:
  obtains
    (signup_failed) w' rs b1 b2 where
      "stress_default srv d w = Inr w'"
      "iteration w w' rs (signup_checks b1 b2) True"
      "map tag rs = [''signup'']"
  | (no_day_plan) w' rs p1 p2 p3 g1 g2 where
      "stress_default srv d w = Inr w'"
      "iteration w w' rs
         (signup_checks True True @ getProfile_checks p1 p2 p3
          @ getSchedulesByDate_checks g1 g2) True"
      "\<not> (g1 \<and> g2)"
      "map tag rs = [''signup'', ''get_profile'', ''get_schedules_by_date'']"
  | (create_failed) w' rs p1 p2 p3 c1 c2 c3 s1 s2 l1 where
      "stress_default srv d w = Inr w'"
      "iteration w w' rs
         (signup_checks True True @ getProfile_checks p1 p2 p3
          @ getSchedulesByDate_checks True True @ createSchedule_checks c1 c2 c3
          @ getSchedules_checks s1 s2 @ logout_checks l1) True"
      "\<not> (c1 \<and> c2 \<and> c3)"
      "map tag rs = [''signup'', ''get_profile'', ''get_schedules_by_date'', ''create_schedule'',
         ''get_schedules'', ''logout'']"
  | (completed) w' rs p1 p2 p3 s1 s2 e1 l1 where
      "stress_default srv d w = Inr w'"
      "iteration w w' rs
         (signup_checks True True @ getProfile_checks p1 p2 p3
          @ getSchedulesByDate_checks True True @ createSchedule_checks True True True
          @ getSchedules_checks s1 s2 @ deleteSchedule_checks e1 @ logout_checks l1) False"
      "map tag rs = [''signup'', ''get_profile'', ''get_schedules_by_date'', ''create_schedule'',
         ''get_schedules'', ''delete_schedule'', ''logout'']"
proof -
  obtain ok t w1 b1 b2 where g:
    "signup_group srv d w = Inr ((ok, t), w1)"
    "extends w w1 [signup_request (cfg w) (d_email d)] (signup_checks b1 b2)"
    "truthy t \<longrightarrow> b1 \<and> b2 \<and> ok"
    by (rule signup_group_step [of srv d w])
  show thesis
  proof (cases "truthy t")
    case False
    have "stress_default srv d w = Inr (Rate_add scenarioFailRate True w1)"
      by (simp add: stress_default_def g(1) False)
    then show thesis
      using iteration_abort [OF g(2)] by (rule signup_failed) simp
  next
    case t: True
    with g(3) have b: "b1" "b2" "ok" by simp_all
    obtain i w2 p1 p2 p3 g1 g2 where l:
      "initial_load_group srv d t w1 = Inr (i, w2)"
      "extends w1 w2
         [getProfile_request (cfg w1) t, getSchedulesByDate_request (cfg w1) (d_today d) t JNull]
         (getProfile_checks p1 p2 p3 @ getSchedulesByDate_checks g1 g2)"
      "truthy i \<longleftrightarrow> g1 \<and> g2"
      by (rule initial_load_group_step [of srv d t w1])
    note e2 = extends_trans [OF g(2) l(2)]
    show thesis
    proof (cases "truthy i")
      case False
      have "stress_default srv d w = Inr (Rate_add scenarioFailRate True w2)"
        by (simp add: stress_default_def g(1) t l(1) False)
      moreover have "iteration w (Rate_add scenarioFailRate True w2)
          [signup_request (cfg w) (d_email d), getProfile_request (cfg w1) t,
           getSchedulesByDate_request (cfg w1) (d_today d) t JNull]
          (signup_checks True True @ getProfile_checks p1 p2 p3
           @ getSchedulesByDate_checks g1 g2) True"
        using iteration_abort [OF e2, of True] b by simp
      moreover have "\<not> (g1 \<and> g2)" using l(3) False by simp
      ultimately show thesis by (rule no_day_plan) simp
    next
      case i: True
      with l(3) have gg: "g1" "g2" by simp_all
      obtain v w3 c1 c2 c3 where c:
        "createSchedule srv t i (schedule_literal d ''MINUTE_30_TO_60'' (d_focusLevel d))
           (d_defaultData d) w2 = Inr (v, w3)"
        "extends w2 w3
           [createSchedule_request (cfg w2) t i
              (schedule_literal d ''MINUTE_30_TO_60'' (d_focusLevel d)) (d_defaultData d)]
           (createSchedule_checks c1 c2 c3)"
        "if c1 \<and> c2 \<and> c3 then truthy v \<and> (\<exists>x. get_prop v ''scheduleId'' = Inr x \<and> truthy x)
         else v = JNull"
        by (rule createSchedule_step [of srv t i _ _ w2])
      note e3 = extends_trans [OF e2 c(2)]
      obtain r4 w4 s1 s2 where s:
        "getSchedules srv (d_today d) t i (JNum 1) (JNum 10) w3 = Inr (r4, w4)"
        "extends w3 w4 [getSchedules_request (cfg w3) (d_today d) t i (JNum 1) (JNum 10)]
           (getSchedules_checks s1 s2)"
        by (rule getSchedules_step [of srv _ t i _ _ w3])
      note e4 = extends_trans [OF e3 s(2)]
      show thesis
      proof (cases "c1 \<and> c2 \<and> c3")
        case False
        with c(3) have v: "v = JNull" by simp
        obtain r9 w9 l1 where o:
          "logout srv t w4 = Inr (r9, w9)"
          "extends w4 w9 [logout_request (cfg w4) t] (logout_checks l1)"
          using logout_step [of srv t w4] by metis
        note e9 = extends_trans [OF e4 o(2)]
        have "stress_default srv d w = Inr (Rate_add scenarioFailRate True
                (Trend_add fullScenarioDuration (d_elapsed d) w9))"
          by (simp add: stress_default_def g(1) t l(1) i c(1) v s(1) o(1) when_schedule_id_null)
        moreover have "iteration w (Rate_add scenarioFailRate True
                (Trend_add fullScenarioDuration (d_elapsed d) w9))
            ([signup_request (cfg w) (d_email d), getProfile_request (cfg w1) t,
              getSchedulesByDate_request (cfg w1) (d_today d) t JNull]
             @ [createSchedule_request (cfg w2) t i
                  (schedule_literal d ''MINUTE_30_TO_60'' (d_focusLevel d)) (d_defaultData d),
                getSchedules_request (cfg w3) (d_today d) t i (JNum 1) (JNum 10),
                logout_request (cfg w4) t])
            (signup_checks True True @ getProfile_checks p1 p2 p3
             @ getSchedulesByDate_checks True True @ createSchedule_checks c1 c2 c3
             @ getSchedules_checks s1 s2 @ logout_checks l1) True"
          using iteration_finish [OF e9, of True] b gg by simp
        ultimately show thesis using False by (rule create_failed) simp
      next
        case True
        with c(3) obtain x where v: "truthy v" "get_prop v ''scheduleId'' = Inr x" "truthy x"
          by auto
        obtain r8 w8 d1 where x:
          "deleteSchedule srv t x w4 = Inr (r8, w8)"
          "extends w4 w8 [deleteSchedule_request (cfg w4) t x] (deleteSchedule_checks d1)"
          by (rule deleteSchedule_step [of srv t x w4])
        note e8 = extends_trans [OF e4 x(2)]
        obtain r9 w9 l1 where o:
          "logout srv t w8 = Inr (r9, w9)"
          "extends w8 w9 [logout_request (cfg w8) t] (logout_checks l1)"
          using logout_step [of srv t w8] by metis
        note e9 = extends_trans [OF e8 o(2)]
        have "stress_default srv d w = Inr (Rate_add scenarioFailRate False
                (Trend_add fullScenarioDuration (d_elapsed d) w9))"
          by (simp add: stress_default_def g(1) t l(1) i c(1) v s(1) x(1) o(1) b
              when_schedule_id_present [OF v])
        moreover have "iteration w (Rate_add scenarioFailRate False
                (Trend_add fullScenarioDuration (d_elapsed d) w9))
            ([signup_request (cfg w) (d_email d), getProfile_request (cfg w1) t,
              getSchedulesByDate_request (cfg w1) (d_today d) t JNull]
             @ [createSchedule_request (cfg w2) t i
                  (schedule_literal d ''MINUTE_30_TO_60'' (d_focusLevel d)) (d_defaultData d),
                getSchedules_request (cfg w3) (d_today d) t i (JNum 1) (JNum 10),
                deleteSchedule_request (cfg w4) t x,
                logout_request (cfg w8) t])
            (signup_checks True True @ getProfile_checks p1 p2 p3
             @ getSchedulesByDate_checks True True @ createSchedule_checks True True True
             @ getSchedules_checks s1 s2 @ deleteSchedule_checks d1 @ logout_checks l1) False"
          using iteration_finish [OF e9, of False] b gg True by simp
        ultimately show thesis by (rule completed) simp
      qed
    qed
  qed
qed

lemma when_schedule_id_total:
  assumes "if c then truthy v \<and> (\<exists>x. get_prop v ''scheduleId'' = Inr x \<and> truthy x) else v = JNull"
    and "\<And>x w0. \<exists>r w1 cs. f x w0 = Inr (r, w1) \<and> extends w0 w1 [q x w0] cs"
  shows "\<exists>w1 rs cs. when_schedule_id v f w = Inr w1 \<and> extends w w1 rs cs"
proof (cases c)
  case True
  with assms(1) obtain x where v: "truthy v" "get_prop v ''scheduleId'' = Inr x" "truthy x"
    by auto
  obtain r w1 cs where "f x w = Inr (r, w1)" "extends w w1 [q x w] cs"
    using assms(2) by blast
  then show ?thesis
    using when_schedule_id_present [OF v, of f w] by auto
next
  case False
  with assms(1) have "v = JNull" by simp
  then show ?thesis
    using when_schedule_id_null [of f w] extends_refl [of w] by auto
qed

lemma spike_default_total:
  "\<exists>w' rs cs failed. spike_default srv d w = Inr w' \<and> iteration w w' rs cs failed"
proof -
  obtain ok t w1 b1 b2 where g:
    "signup_group srv d w = Inr ((ok, t), w1)"
    "extends w w1 [signup_request (cfg w) (d_email d)] (signup_checks b1 b2)"
    "truthy t \<longrightarrow> b1 \<and> b2 \<and> ok"
    by (rule signup_group_step [of srv d w])
  show ?thesis
  proof (cases "truthy t")
    case False
    have "spike_default srv d w = Inr (Rate_add scenarioFailRate True w1)"
      by (simp add: spike_default_def g(1) False)
    then show ?thesis
      using iteration_abort [OF g(2)] by blast
  next
    case t: True
    obtain i w2 p1 p2 p3 g1 g2 where l:
      "initial_load_group srv d t w1 = Inr (i, w2)"
      "extends w1 w2
         [getProfile_request (cfg w1) t, getSchedulesByDate_request (cfg w1) (d_today d) t JNull]
         (getProfile_checks p1 p2 p3 @ getSchedulesByDate_checks g1 g2)"
      "truthy i \<longleftrightarrow> g1 \<and> g2"
      by (rule initial_load_group_step [of srv d t w1])
    note e2 = extends_trans [OF g(2) l(2)]
    define create where "create =
      (if truthy i \<and> d_roll_create d < 0.2
       then bindE (createSchedule srv t i (schedule_literal d ''MINUTE_30_TO_60'' 3)
                     (d_defaultData d) w2)
              (\<lambda>(createdSchedule, w3).
                 when_schedule_id createdSchedule
                   (\<lambda>scheduleId. deleteSchedule srv t scheduleId) w3)
       else Inr w2)"
    have "\<exists>w4 rs cs. create = Inr w4 \<and> extends w2 w4 rs cs"
    proof (cases "truthy i \<and> d_roll_create d < 0.2")
      case False
      then show ?thesis
        using extends_refl [of w2] by (auto simp: create_def)
    next
      case True
      obtain v w3 c1 c2 c3 where c:
        "createSchedule srv t i (schedule_literal d ''MINUTE_30_TO_60'' 3) (d_defaultData d) w2
           = Inr (v, w3)"
        "extends w2 w3
           [createSchedule_request (cfg w2) t i (schedule_literal d ''MINUTE_30_TO_60'' 3)
              (d_defaultData d)]
           (createSchedule_checks c1 c2 c3)"
        "if c1 \<and> c2 \<and> c3 then truthy v \<and> (\<exists>x. get_prop v ''scheduleId'' = Inr x \<and> truthy x)
         else v = JNull"
        by (rule createSchedule_step [of srv t i _ _ w2])
      have "\<exists>r w1 cs. deleteSchedule srv t x w0 = Inr (r, w1)
              \<and> extends w0 w1 [deleteSchedule_request (cfg w0) t x] cs" for x w0
        using deleteSchedule_step [of srv t x w0] by metis
      from when_schedule_id_total [OF c(3), of "\<lambda>x. deleteSchedule srv t x"
          "\<lambda>x w0. deleteSchedule_request (cfg w0) t x" w3, OF this]
      obtain w4 rs cs where w4:
        "when_schedule_id v (\<lambda>x. deleteSchedule srv t x) w3 = Inr w4" "extends w3 w4 rs cs"
        by blast
      have "create = Inr w4"
        using True c(1) w4(1) by (simp add: create_def)
      then show ?thesis
        using extends_trans [OF c(2) w4(2)] by blast
    qed
    then obtain w4 rs4 cs4 where c4: "create = Inr w4" "extends w2 w4 rs4 cs4" by blast
    note e4 = extends_trans [OF e2 c4(2)]
    have "\<exists>w6 rs cs.
        (if d_roll_logout d < 0.5
         then bindE (logout srv t w4) (\<lambda>(r5, w5). Inr w5) else Inr w4) = Inr w6
        \<and> extends w4 w6 rs cs"
    proof (cases "d_roll_logout d < 0.5")
      case False
      then show ?thesis using extends_refl [of w4] by auto
    next
      case True
      obtain r5 w5 l1 where
        "logout srv t w4 = Inr (r5, w5)"
        "extends w4 w5 [logout_request (cfg w4) t] (logout_checks l1)"
        using logout_step [of srv t w4] by metis
      then show ?thesis using True by auto
    qed
    then obtain w6 rs6 cs6 where o:
      "(if d_roll_logout d < 0.5
        then bindE (logout srv t w4) (\<lambda>(r5, w5). Inr w5) else Inr w4) = Inr w6"
      "extends w4 w6 rs6 cs6" by blast
    note e6 = extends_trans [OF e4 o(2)]
    have "spike_default srv d w = Inr (Rate_add scenarioFailRate (\<not> ok)
            (Trend_add fullScenarioDuration (d_elapsed d) w6))"
      using c4(1) o(1)
      by (simp add: spike_default_def g(1) t l(1) Let_def create_def)
    then show ?thesis
      using iteration_finish [OF e6] by blast
  qed
qed

lemma test_setup_cases:
  obtains
    (unhealthy) w1 b1 b2 where
      "test_setup srv testType now w = Inl (Error ''Server health check failed'')"
      "healthCheck srv w = Inr (False, w1)"
      "extends w w1 [healthCheck_request (cfg w)] (healthCheck_checks b1 b2)"
      "\<not> (b1 \<and> b2)"
  | (healthy) w1 where
      "test_setup srv testType now w
         = Inr (JObj [(''startTime'', JStr now), (''testType'', JStr testType)], w1)"
      "healthCheck srv w = Inr (True, w1)"
      "extends w w1 [healthCheck_request (cfg w)] (healthCheck_checks True True)"
proof -
  obtain v w1 b1 b2 where h:
    "healthCheck srv w = Inr (v, w1)"
    "extends w w1 [healthCheck_request (cfg w)] (healthCheck_checks b1 b2)"
    "v = (b1 \<and> b2)"
    by (rule healthCheck_step [of srv w])
  show thesis
  proof (cases v)
    case True
    then show thesis
      using h healthy [of w1] by (simp add: test_setup_def)
  next
    case False
    then show thesis
      using h unhealthy [of w1 b1 b2] by (simp add: test_setup_def)
  qed
qed

section \<open>What any operation does\<close>

lemma grows_refl: "grows w w"
  by (simp add: grows_def new_requests_def)

lemma grows_sent:
  "sent w' = sent w @ rs \<Longrightarrow> cfg w' = cfg w \<Longrightarrow> list_all (from_config (cfg w)) rs \<Longrightarrow> grows w w'"
  by (simp add: grows_def new_requests_def)

lemma grows_trans:
  assumes "grows w w1" and "grows w1 w2"
  shows "grows w w2"
proof -
  from assms(1) obtain rs where 1: "sent w1 = sent w @ rs" "cfg w1 = cfg w"
      "list_all (from_config (cfg w)) rs"
    unfolding grows_def new_requests_def
    by (metis append_take_drop_id)
  from assms(2) obtain rs' where 2: "sent w2 = sent w1 @ rs'" "cfg w2 = cfg w1"
      "list_all (from_config (cfg w1)) rs'"
    unfolding grows_def new_requests_def
    by (metis append_take_drop_id)
  show ?thesis
    using 1 2 by (intro grows_sent [of _ _ "rs @ rs'"]) simp_all
qed

lemma extends_grows: "extends w w' rs cs \<Longrightarrow> grows w w'"
  by (auto simp: extends_def intro: grows_sent)

lemma iteration_grows: "iteration w w' rs cs failed \<Longrightarrow> grows w w'"
  by (auto simp: iteration_def intro: grows_sent)

lemma login_total:
  "\<exists>v w'. login srv email password w = Inr (v, w') \<and> grows w w'"
proof -
  obtain v where "login srv email password w = Inr (v, w\<lparr>sent := sent w @ [login_request (cfg w) email password],
                 trends := (trends w)(loginDuration := trends w loginDuration @ [duration (srv (sent w) (login_request (cfg w) email password))]),
                 rates := (rates w)(loginFailRate := rates w loginFailRate @
                      [\<not> (status (srv (sent w) (login_request (cfg w) email password)) = 200 \<and> field_present ''accessToken'' (srv (sent w) (login_request (cfg w) email password)) \<and> duration (srv (sent w) (login_request (cfg w) email password)) < 500)]),
                 checks := checks w @
                   [(''login: status is 200'', status (srv (sent w) (login_request (cfg w) email password)) = 200),
                    (''login: has access token'', field_present ''accessToken'' (srv (sent w) (login_request (cfg w) email password))),
                    (''login: response time < 500ms'', duration (srv (sent w) (login_request (cfg w) email password)) < 500)]\<rparr>)"
    using login_effect [of srv w email password] by (auto simp: Let_def)
  then show ?thesis
    by (auto intro!: grows_sent [of _ _ "[login_request (cfg w) email password]"])
qed

lemma getDayPlanId_total:
  "\<exists>v w'. getDayPlanId srv today accessToken date w = Inr (v, w') \<and> grows w w'"
proof -
  obtain v w1 g1 g2 where g:
    "getSchedulesByDate srv today accessToken date w = Inr (v, w1)"
    "extends w w1 [getSchedulesByDate_request (cfg w) today accessToken date]
       (getSchedulesByDate_checks g1 g2)"
    "if g1 \<and> g2 then truthy v \<and> (\<exists>i. get_prop v ''dayPlanId'' = Inr i \<and> truthy i)
     else v = JNull"
    by (rule getSchedulesByDate_step [of srv today accessToken date w])
  show ?thesis
    using g extends_grows [OF g(2)]
    by (cases "g1 \<and> g2") (auto simp: getDayPlanId_def)
qed

lemma refreshToken_total:
  "\<exists>v w'. refreshToken srv cookies' w = Inr (v, w') \<and> grows w w'"
  by (rule refreshToken_step [of srv cookies' w]) (blast intro: extends_grows)

lemma logout_total:
  "\<exists>v w'. logout srv accessToken w = Inr (v, w') \<and> grows w w'"
  by (rule logout_step [of srv accessToken w]) (blast intro: extends_grows)

lemma signup_total:
  "\<exists>v w'. signup srv email w = Inr (v, w') \<and> grows w w'"
  by (rule signup_step [of srv email w]) (blast intro: extends_grows)

lemma getProfile_total:
  "\<exists>v w'. getProfile srv accessToken w = Inr (v, w') \<and> grows w w'"
  by (rule getProfile_step [of srv accessToken w]) (blast intro: extends_grows)

lemma searchUsers_total:
  "\<exists>v w'. searchUsers srv accessToken nickname page size' w = Inr (v, w') \<and> grows w w'"
  by (rule searchUsers_step [of srv accessToken nickname page size' w]) (blast intro: extends_grows)

lemma createSchedule_total:
  "\<exists>v w'. createSchedule srv accessToken dayPlanId scheduleData defaultData w = Inr (v, w') \<and> grows w w'"
  by (rule createSchedule_step [of srv accessToken dayPlanId scheduleData defaultData w]) (blast intro: extends_grows)

lemma getSchedules_total:
  "\<exists>v w'. getSchedules srv today accessToken dayPlanId page size' w = Inr (v, w') \<and> grows w w'"
  by (rule getSchedules_step [of srv today accessToken dayPlanId page size' w]) (blast intro: extends_grows)

lemma getSchedulesByDate_total:
  "\<exists>v w'. getSchedulesByDate srv today accessToken date w = Inr (v, w') \<and> grows w w'"
  by (rule getSchedulesByDate_step [of srv today accessToken date w]) (blast intro: extends_grows)

lemma updateSchedule_total:
  "\<exists>v w'. updateSchedule srv accessToken scheduleId updateData w = Inr (v, w') \<and> grows w w'"
  by (rule updateSchedule_step [of srv accessToken scheduleId updateData w]) (blast intro: extends_grows)

lemma deleteSchedule_total:
  "\<exists>v w'. deleteSchedule srv accessToken scheduleId w = Inr (v, w') \<and> grows w w'"
  by (rule deleteSchedule_step [of srv accessToken scheduleId w]) (blast intro: extends_grows)

lemma updateScheduleStatus_total:
  "\<exists>v w'. updateScheduleStatus srv accessToken scheduleId status' w = Inr (v, w') \<and> grows w w'"
  by (rule updateScheduleStatus_step [of srv accessToken scheduleId status' w]) (blast intro: extends_grows)

lemma aiScheduleArrangement_total:
  "\<exists>v w'. aiScheduleArrangement srv accessToken dayPlanId w = Inr (v, w') \<and> grows w w'"
  by (rule aiScheduleArrangement_step [of srv accessToken dayPlanId w]) (blast intro: extends_grows)

lemma getNotifications_total:
  "\<exists>v w'. getNotifications srv accessToken page size' w = Inr (v, w') \<and> grows w w'"
  by (rule getNotifications_step [of srv accessToken page size' w]) (blast intro: extends_grows)

lemma registerFcmToken_total:
  "\<exists>v w'. registerFcmToken srv accessToken fcmToken platform w = Inr (v, w') \<and> grows w w'"
  by (rule registerFcmToken_step [of srv accessToken fcmToken platform w]) (blast intro: extends_grows)

lemma healthCheck_total:
  "\<exists>v w'. healthCheck srv w = Inr (v, w') \<and> grows w w'"
  by (rule healthCheck_step [of srv w]) (blast intro: extends_grows)

section \<open>Operations that return\<close>

lemma returns_bind:
  assumes "returns w m" and "\<And>v w1. grows w w1 \<Longrightarrow> returns w1 (f (v, w1))"
  shows "returns w (bindE m f)"
proof -
  from assms(1) obtain v w1 where m: "m = Inr (v, w1)" "grows w w1"
    by (auto simp: returns_def)
  from assms(2) [OF m(2), of v] obtain v' w' where "f (v, w1) = Inr (v', w')" "grows w1 w'"
    by (auto simp: returns_def)
  with m show ?thesis
    by (auto simp: returns_def intro: grows_trans)
qed

lemma finishes_bind:
  assumes "returns w m" and "\<And>v w1. grows w w1 \<Longrightarrow> finishes w1 (f (v, w1))"
  shows "finishes w (bindE m f)"
proof -
  from assms(1) obtain v w1 where m: "m = Inr (v, w1)" "grows w w1"
    by (auto simp: returns_def)
  from assms(2) [OF m(2), of v] obtain w' where "f (v, w1) = Inr w'" "grows w1 w'"
    by (auto simp: finishes_def)
  with m show ?thesis
    by (auto simp: finishes_def intro: grows_trans)
qed

lemma finishes_bind_world:
  assumes "finishes w m" and "\<And>w1. grows w w1 \<Longrightarrow> finishes w1 (f w1)"
  shows "finishes w (bindE m f)"
proof -
  from assms(1) obtain w1 where m: "m = Inr w1" "grows w w1"
    by (auto simp: finishes_def)
  from assms(2) [OF m(2)] obtain w' where "f w1 = Inr w'" "grows w1 w'"
    by (auto simp: finishes_def)
  with m show ?thesis
    by (auto simp: finishes_def intro: grows_trans)
qed

lemma returns_bind_world:
  assumes "finishes w m" and "\<And>w1. grows w w1 \<Longrightarrow> returns w1 (f w1)"
  shows "returns w (bindE m f)"
proof -
  from assms(1) obtain w1 where m: "m = Inr w1" "grows w w1"
    by (auto simp: finishes_def)
  from assms(2) [OF m(2)] obtain v w' where "f w1 = Inr (v, w')" "grows w1 w'"
    by (auto simp: returns_def)
  with m show ?thesis
    by (auto simp: returns_def intro: grows_trans)
qed

lemma returns_Inr [simp]: "returns w (Inr (v, w))"
  by (simp add: returns_def grows_refl)

lemma finishes_Inr [simp]: "finishes w (Inr w)"
  by (simp add: finishes_def grows_refl)

lemma grows_Rate_add [simp]: "grows w (Rate_add m b w)"
  by (simp add: grows_def Rate_add_def new_requests_def)

lemma grows_Trend_add [simp]: "grows w (Trend_add m x w)"
  by (simp add: grows_def Trend_add_def new_requests_def)

lemma finishes_recorded [simp]:
  "finishes w (Inr (Rate_add m b (Trend_add m' x w)))"
  "finishes w (Inr (Trend_add m' x (Rate_add m b w)))"
  "finishes w (Inr (Rate_add m b w))"
  by (auto simp: finishes_def intro: grows_trans [OF grows_Trend_add grows_Rate_add]
      grows_trans [OF grows_Rate_add grows_Trend_add])

lemma returns_get_prop:
  assumes "truthy v" and "\<And>x. returns w (f x)"
  shows "returns w (bindE (get_prop v k) f)"
  using get_prop_truthy [OF assms(1), of k] assms(2) by auto

lemma finishes_get_prop:
  assumes "truthy v" and "\<And>x. finishes w (f x)"
  shows "finishes w (bindE (get_prop v k) f)"
  using get_prop_truthy [OF assms(1), of k] assms(2) by auto

lemma and_prop_cases:
  obtains x where "and_prop v k = Inr x" "truthy x \<longrightarrow> truthy v"
  using get_prop_truthy [of v k] by (cases "truthy v") (auto simp: and_prop_def)

lemma returns_and_prop:
  assumes "\<And>x. truthy x \<longrightarrow> truthy v \<Longrightarrow> returns w (f x)"
  shows "returns w (bindE (and_prop v k) f)"
  by (rule and_prop_cases [of v k]) (simp add: assms)

lemma finishes_and_prop:
  assumes "\<And>x. truthy x \<longrightarrow> truthy v \<Longrightarrow> finishes w (f x)"
  shows "finishes w (bindE (and_prop v k) f)"
  by (rule and_prop_cases [of v k]) (simp add: assms)

lemma returns_helpers:
  "returns w (login srv email password w)"
  "returns w (signup srv email w)"
  "returns w (logout srv t w)"
  "returns w (getProfile srv t w)"
  "returns w (getSchedulesByDate srv today t date w)"
  "returns w (createSchedule srv t i sd dd w)"
  "returns w (getSchedules srv today t i p s w)"
  "returns w (updateScheduleStatus srv t x st w)"
  "returns w (deleteSchedule srv t x w)"
  "returns w (searchUsers srv t n p s w)"
  "returns w (getNotifications srv t p s w)"
  "returns w (aiScheduleArrangement srv t i w)"
  "returns w (healthCheck srv w)"
  "returns w (logout srv t (Rate_add m b w))"
proof -
  have "returns (Rate_add m b w) (logout srv t (Rate_add m b w))"
    unfolding returns_def by (rule logout_total)
  then show "returns w (logout srv t (Rate_add m b w))"
    unfolding returns_def by (blast intro: grows_trans [OF grows_Rate_add])
qed (unfold returns_def, (rule login_total signup_total logout_total getProfile_total getSchedulesByDate_total
      createSchedule_total getSchedules_total updateScheduleStatus_total deleteSchedule_total
      searchUsers_total getNotifications_total aiScheduleArrangement_total healthCheck_total)+)

lemma finishes_when_schedule_id:
  assumes "\<And>x w1. returns w1 (f x w1)"
  shows "finishes w (when_schedule_id v f w)"
proof (cases "truthy v")
  case False
  then show ?thesis by (simp add: when_schedule_id_def and_prop_def)
next
  case True
  then obtain c where c: "get_prop v ''scheduleId'' = Inr c"
    using get_prop_truthy by blast
  show ?thesis
  proof (cases "truthy c")
    case False
    with True c show ?thesis by (simp add: when_schedule_id_def and_prop_def)
  next
    case t: True
    from assms [of w c] obtain r w1 where "f c w = Inr (r, w1)" "grows w w1"
      by (auto simp: returns_def)
    with True c t show ?thesis
      by (simp add: when_schedule_id_def and_prop_def finishes_def)
  qed
qed

lemma breakpoint_default_finishes:
  "finishes w (breakpoint_default srv d w)"
  unfolding breakpoint_default_def signup_group_def initial_load_group_def
  by (auto intro!: finishes_bind returns_bind returns_helpers finishes_bind_world
      returns_get_prop finishes_get_prop returns_and_prop finishes_and_prop
      finishes_when_schedule_id)

lemma finishes_record_scenario:
  "returns w flow \<Longrightarrow> finishes w (record_scenario d flow)"
  unfolding record_scenario_def
  by (auto intro!: finishes_bind)

lemma returns_lacks_day_plan:
  assumes "returns w (f True)" and "truthy v \<Longrightarrow> returns w (f False)"
  shows "returns w (bindE (lacks_day_plan v) f)"
proof (cases "truthy v")
  case False
  with assms(1) show ?thesis by (simp add: lacks_day_plan_def)
next
  case True
  then obtain i where "get_prop v ''dayPlanId'' = Inr i"
    using get_prop_truthy by blast
  with True assms show ?thesis
    by (cases "truthy i") (simp_all add: lacks_day_plan_def)
qed

lemma returns_create_schedules:
  "returns w (create_schedules srv t i tasks created w)"
proof (induction tasks arbitrary: created w)
  case Nil
  show ?case by simp
next
  case (Cons task tasks)
  obtain sd dd where task: "task = (sd, dd)" by (cases task)
  show ?case
    unfolding task create_schedules.simps
    by (rule returns_bind [OF returns_helpers(6)]) (simp add: Cons.IH)
qed

lemma finishes_delete_schedules:
  "finishes w (delete_schedules srv t created w)"
proof (induction created arbitrary: w)
  case Nil
  show ?case by simp
next
  case (Cons schedule created)
  show ?case
    unfolding delete_schedules.simps
    by (rule finishes_bind_world [OF finishes_when_schedule_id]) (simp_all add: returns_helpers Cons.IH)
qed

lemmas finishes_intros = finishes_bind returns_bind returns_helpers finishes_bind_world
  returns_bind_world returns_get_prop finishes_get_prop returns_and_prop finishes_and_prop
  finishes_when_schedule_id finishes_record_scenario returns_lacks_day_plan
  returns_create_schedules finishes_delete_schedules

lemma newUserScenario_finishes:
  "finishes w (newUserScenario srv d w)"
  unfolding newUserScenario_def
  by (auto intro!: finishes_intros)

lemma returningUserScenario_finishes:
  "finishes w (returningUserScenario srv d w)"
  unfolding returningUserScenario_def
  by (auto intro!: finishes_intros)

lemma activeUserScenario_finishes:
  "finishes w (activeUserScenario srv d w)"
  unfolding activeUserScenario_def
  by (auto intro!: finishes_intros)

lemma powerUserScenario_finishes:
  "finishes w (powerUserScenario srv d w)"
  unfolding powerUserScenario_def
  by (auto intro!: finishes_intros)

lemma round_to_double_nonneg: "0 \<le> n \<Longrightarrow> 0 \<le> round_to_double n"
  by (simp add: round_to_double_def Let_def pos_imp_zdiv_nonneg_iff)

lemma to_double_nonneg: "0 \<le> n \<Longrightarrow> 0 \<le> to_double n"
  using round_to_double_nonneg [of "\<bar>n\<bar>"] by (simp add: to_double_def sgn_if)

lemma js_rem_index:
  assumes "0 \<le> a" and "0 < n"
  shows "\<exists>i. js_rem a n = Some i \<and> 0 \<le> i \<and> i < n"
  using assms by (auto simp: js_rem_def sgn_if)

lemma account_selected:
  assumes "1 \<le> vu" and "accounts \<noteq> []"
  shows "\<exists>a. array_at accounts (js_rem (js_minus vu 1) (int (length accounts))) = Some a
     \<and> a \<in> set accounts"
proof -
  have "0 \<le> js_minus vu 1"
    using assms(1) by (simp add: js_minus_def to_double_nonneg)
  moreover have "0 < int (length accounts)" using assms(2) by simp
  ultimately obtain i where "js_rem (js_minus vu 1) (int (length accounts)) = Some i"
      "0 \<le> i" "i < int (length accounts)"
    using js_rem_index by blast
  then show ?thesis by (simp add: array_at_def)
qed

lemma load2_default_finishes:
  assumes "1 \<le> vu" and "s_accounts data' \<noteq> []"
  shows "finishes w (load2_default srv vu data' d w)"
proof -
  obtain a where "array_at (s_accounts data')
      (js_rem (js_minus vu 1) (int (length (s_accounts data')))) = Some a"
    using account_selected [OF assms] by blast
  then show ?thesis
    unfolding load2_default_def login_group_def day_plan_group_def Let_def
    by (auto intro!: finishes_intros)
qed

lemma load2_default_grows:
  "load2_default srv vu data' d w = Inr w' \<Longrightarrow> grows w w'"
proof (cases "array_at (s_accounts data')
      (js_rem (js_minus vu 1) (int (length (s_accounts data'))))")
  case None
  then show "load2_default srv vu data' d w = Inr w' \<Longrightarrow> grows w w'"
    by (simp add: load2_default_def login_group_def Let_def)
next
  case (Some a)
  then have "finishes w (load2_default srv vu data' d w)"
    unfolding load2_default_def login_group_def day_plan_group_def Let_def
    by (auto intro!: finishes_intros)
  then show "load2_default srv vu data' d w = Inr w' \<Longrightarrow> grows w w'"
    by (auto simp: finishes_def)
qed

lemma signupTestUser_grows:
  "signupTestUser srv email password nickname w = Inr (created, w') \<Longrightarrow> grows w w'"
  by (auto simp: signupTestUser_def http_request_def Let_def bindE_def from_config_def
      signupTestUser_request_def json_headers_from_config
      intro!: grows_sent [of _ _ "[signupTestUser_request (cfg w) email password nickname]"]
      split: if_splits sum.splits)

lemma create_accounts_result:
  "create_accounts srv i n accounts w = Inr (result, w') \<Longrightarrow>
     grows w w' \<and> result = accounts @ map generateTestAccount [i..<i + n]"
proof (induction n arbitrary: i accounts w)
  case 0
  then show ?case by (simp add: grows_refl)
next
  case (Suc n)
  from Suc.prems obtain created w1 where
    s: "signupTestUser srv (a_email (generateTestAccount i)) (a_password (generateTestAccount i))
          (a_nickname (generateTestAccount i)) w = Inr (created, w1)"
    and r: "create_accounts srv (i + 1) n (accounts @ [generateTestAccount i]) w1 = Inr (result, w')"
    by (auto simp: Let_def bindE_def split: sum.splits)
  have "[i..<i + Suc n] = i # [i + 1..<i + 1 + n]"
    by (simp add: upt_conv_Cons)
  with Suc.IH [OF r] signupTestUser_grows [OF s] show ?case
    by (auto intro: grows_trans)
qed

lemma load2_setup_result:
  assumes "load2_setup srv now w = Inr (data', w')"
  shows "grows w w'" and "s_accounts data' = map generateTestAccount [0..<NUM_TEST_ACCOUNTS]"
proof -
  obtain ok w1 where h: "healthCheck srv w = Inr (ok, w1)" "grows w w1"
    using healthCheck_total by blast
  from assms h(1) obtain accounts w2 where
    c: "create_accounts srv 0 NUM_TEST_ACCOUNTS [] w1 = Inr (accounts, w2)"
    and d: "data' = \<lparr> s_accounts = accounts, s_startTime = now, s_testType = ''load-production'' \<rparr>"
      "w' = w2"
    by (auto simp: load2_setup_def bindE_def split: if_splits sum.splits)
  from create_accounts_result [OF c] h(2) d show "grows w w'"
    and "s_accounts data' = map generateTestAccount [0..<NUM_TEST_ACCOUNTS]"
    by (auto intro: grows_trans)
qed

lemma finishes_discard: "returns w m \<Longrightarrow> finishes w (discard m)"
  by (auto simp: returns_def finishes_def discard_def)

lemma total_returns: "\<exists>v w'. m = Inr (v, w') \<and> grows w w' \<Longrightarrow> returns w m"
  by (simp add: returns_def)

lemma load_default_finishes: "finishes w (load_default srv d w)"
  by (cases rule: load_default_cases [of srv d w]) (auto simp: finishes_def dest: iteration_grows)

lemma stress_default_finishes: "finishes w (stress_default srv d w)"
  by (cases rule: stress_default_cases [of srv d w]) (auto simp: finishes_def dest: iteration_grows)

lemma spike_default_finishes: "finishes w (spike_default srv d w)"
  using spike_default_total [of srv d w] by (auto simp: finishes_def dest: iteration_grows)

lemma run_finishes:
  assumes "\<not> in_setup x"
    and "\<forall>vu data' d. x = Load2Iteration vu data' d \<longrightarrow> 1 \<le> vu \<and> s_accounts data' \<noteq> []"
  shows "finishes w (run srv x w)"
proof (cases x)
  case (Login email password)
  then show ?thesis by (simp add: finishes_discard total_returns login_total)
next
  case (RefreshToken c)
  then show ?thesis by (simp add: finishes_discard total_returns refreshToken_total)
next
  case (Logout t)
  then show ?thesis by (simp add: finishes_discard total_returns logout_total)
next
  case (Signup e)
  then show ?thesis by (simp add: finishes_discard total_returns signup_total)
next
  case (GetProfile t)
  then show ?thesis by (simp add: finishes_discard total_returns getProfile_total)
next
  case (SearchUsers t n p s)
  then show ?thesis by (simp add: finishes_discard total_returns searchUsers_total)
next
  case (CreateSchedule t i sd dd)
  then show ?thesis by (simp add: finishes_discard total_returns createSchedule_total)
next
  case (GetSchedules today t i p s)
  then show ?thesis by (simp add: finishes_discard total_returns getSchedules_total)
next
  case (GetSchedulesByDate today t date)
  then show ?thesis by (simp add: finishes_discard total_returns getSchedulesByDate_total)
next
  case (GetDayPlanId today t date)
  then show ?thesis by (simp add: finishes_discard total_returns getDayPlanId_total)
next
  case (UpdateSchedule t i u)
  then show ?thesis by (simp add: finishes_discard total_returns updateSchedule_total)
next
  case (DeleteSchedule t i)
  then show ?thesis by (simp add: finishes_discard total_returns deleteSchedule_total)
next
  case (UpdateScheduleStatus t i s)
  then show ?thesis by (simp add: finishes_discard total_returns updateScheduleStatus_total)
next
  case (AiScheduleArrangement t i)
  then show ?thesis by (simp add: finishes_discard total_returns aiScheduleArrangement_total)
next
  case (GetNotifications t p s)
  then show ?thesis by (simp add: finishes_discard total_returns getNotifications_total)
next
  case (RegisterFcmToken t f p)
  then show ?thesis by (simp add: finishes_discard total_returns registerFcmToken_total)
next
  case HealthCheck
  then show ?thesis by (simp add: finishes_discard total_returns healthCheck_total)
next
  case (SignupTestUser e p n)
  with assms(1) show ?thesis by simp
next
  case (Setup testType now)
  with assms(1) show ?thesis by simp
next
  case (Load2Setup now)
  with assms(1) show ?thesis by simp
next
  case (LoadIteration d)
  then show ?thesis by (simp add: load_default_finishes)
next
  case (StressIteration d)
  then show ?thesis by (simp add: stress_default_finishes)
next
  case (SpikeIteration d)
  then show ?thesis by (simp add: spike_default_finishes)
next
  case (BreakpointIteration d)
  then show ?thesis by (simp add: breakpoint_default_finishes)
next
  case (Load2Iteration vu data' d)
  with assms(2) show ?thesis by (simp add: load2_default_finishes)
next
  case (NewUserIteration d)
  then show ?thesis by (simp add: newUserScenario_finishes)
next
  case (ReturningUserIteration d)
  then show ?thesis by (simp add: returningUserScenario_finishes)
next
  case (ActiveUserIteration d)
  then show ?thesis by (simp add: activeUserScenario_finishes)
next
  case (PowerUserIteration d)
  then show ?thesis by (simp add: powerUserScenario_finishes)
qed

lemma run_grows:
  assumes "run srv x w = Inr w'"
  shows "grows w w'"
proof (cases x)
  case (SignupTestUser e p n)
  with assms obtain created where "signupTestUser srv e p n w = Inr (created, w')"
    by (auto simp: discard_def bindE_def split: sum.splits)
  then show ?thesis by (rule signupTestUser_grows)
next
  case (Setup testType now)
  show ?thesis
  proof (cases rule: test_setup_cases [of srv testType now w])
    case (unhealthy w1 b1 b2)
    with assms Setup show ?thesis by (simp add: discard_def)
  next
    case (healthy w1)
    with assms Setup show ?thesis by (auto simp: discard_def dest: extends_grows)
  qed
next
  case (Load2Setup now)
  with assms obtain data' where "load2_setup srv now w = Inr (data', w')"
    by (auto simp: discard_def bindE_def split: sum.splits)
  then show ?thesis by (rule load2_setup_result(1))
next
  case (Load2Iteration vu data' d)
  with assms show ?thesis by (simp add: load2_default_grows)
qed (use assms run_finishes [of x w srv] in \<open>auto simp: finishes_def\<close>)

lemma run_all_grows:
  "run_all srv xs w = Inr w' \<Longrightarrow> grows w w'"
proof (induction xs arbitrary: w)
  case Nil
  then show ?case by (simp add: grows_refl)
next
  case (Cons x xs)
  from Cons.prems obtain w1 where 1: "run srv x w = Inr w1" "run_all srv xs w1 = Inr w'"
    by (cases "run srv x w") simp_all
  from run_grows [OF 1(1)] Cons.IH [OF 1(2)] show ?case by (blast intro: grows_trans)
qed

section \<open>Samples and failed extractions of one helper call\<close>

lemma login_trend:
  "\<exists>v w'. login srv email password w = Inr (v, w')
     \<and> sent w' = sent w @ [login_request (cfg w) email password]
     \<and> trends w' = (trends w)(loginDuration := trends w loginDuration
           @ [duration (srv (sent w) (login_request (cfg w) email password))])"
  using login_effect [of srv w email password] by (auto simp: Let_def)

lemma refreshToken_trend:
  "\<exists>v w'. refreshToken srv cookies' w = Inr (v, w')
     \<and> sent w' = sent w @ [refreshToken_request (cfg w) cookies']
     \<and> trends w' = (trends w)(refreshTokenDuration := trends w refreshTokenDuration
           @ [duration (srv (sent w) (refreshToken_request (cfg w) cookies'))])"
  using refreshToken_effect [of srv w cookies'] by (auto simp: Let_def)

lemma signup_trend:
  "\<exists>v w'. signup srv email w = Inr (v, w')
     \<and> sent w' = sent w @ [signup_request (cfg w) email]
     \<and> trends w' = (trends w)(signupDuration := trends w signupDuration
           @ [duration (srv (sent w) (signup_request (cfg w) email))])"
  using signup_effect [of srv w email] by (auto simp: Let_def)

lemma getProfile_trend:
  "\<exists>v w'. getProfile srv accessToken w = Inr (v, w')
     \<and> sent w' = sent w @ [getProfile_request (cfg w) accessToken]
     \<and> trends w' = (trends w)(getProfileDuration := trends w getProfileDuration
           @ [duration (srv (sent w) (getProfile_request (cfg w) accessToken))])"
  using getProfile_effect [of srv w accessToken] by (auto simp: Let_def)

lemma searchUsers_trend:
  "\<exists>v w'. searchUsers srv accessToken nickname page size' w = Inr (v, w')
     \<and> sent w' = sent w @ [searchUsers_request (cfg w) accessToken nickname page size']
     \<and> trends w' = (trends w)(searchUsersDuration := trends w searchUsersDuration
           @ [duration (srv (sent w) (searchUsers_request (cfg w) accessToken nickname page size'))])"
  using searchUsers_effect [of srv w accessToken nickname page size'] by (auto simp: Let_def)

lemma createSchedule_trend:
  "\<exists>v w'. createSchedule srv accessToken dayPlanId scheduleData defaultData w = Inr (v, w')
     \<and> sent w' = sent w @ [createSchedule_request (cfg w) accessToken dayPlanId scheduleData defaultData]
     \<and> trends w' = (trends w)(createScheduleDuration := trends w createScheduleDuration
           @ [duration (srv (sent w) (createSchedule_request (cfg w) accessToken dayPlanId scheduleData defaultData))])"
  using createSchedule_effect [of srv w accessToken dayPlanId scheduleData defaultData] by (auto simp: Let_def)

lemma getSchedules_trend:
  "\<exists>v w'. getSchedules srv today accessToken dayPlanId page size' w = Inr (v, w')
     \<and> sent w' = sent w @ [getSchedules_request (cfg w) today accessToken dayPlanId page size']
     \<and> trends w' = (trends w)(getSchedulesDuration := trends w getSchedulesDuration
           @ [duration (srv (sent w) (getSchedules_request (cfg w) today accessToken dayPlanId page size'))])"
  using getSchedules_effect [of srv w today accessToken dayPlanId page size'] by (auto simp: Let_def)

lemma getSchedulesByDate_trend:
  "\<exists>v w'. getSchedulesByDate srv today accessToken date w = Inr (v, w')
     \<and> sent w' = sent w @ [getSchedulesByDate_request (cfg w) today accessToken date]
     \<and> trends w' = (trends w)(getSchedulesDuration := trends w getSchedulesDuration
           @ [duration (srv (sent w) (getSchedulesByDate_request (cfg w) today accessToken date))])"
  using getSchedulesByDate_effect [of srv w today accessToken date] by (auto simp: Let_def)

lemma updateSchedule_trend:
  "\<exists>v w'. updateSchedule srv accessToken scheduleId updateData w = Inr (v, w')
     \<and> sent w' = sent w @ [updateSchedule_request (cfg w) accessToken scheduleId updateData]
     \<and> trends w' = (trends w)(updateScheduleDuration := trends w updateScheduleDuration
           @ [duration (srv (sent w) (updateSchedule_request (cfg w) accessToken scheduleId updateData))])"
  using updateSchedule_effect [of srv w accessToken scheduleId updateData] by (auto simp: Let_def)

lemma deleteSchedule_trend:
  "\<exists>v w'. deleteSchedule srv accessToken scheduleId w = Inr (v, w')
     \<and> sent w' = sent w @ [deleteSchedule_request (cfg w) accessToken scheduleId]
     \<and> trends w' = (trends w)(deleteScheduleDuration := trends w deleteScheduleDuration
           @ [duration (srv (sent w) (deleteSchedule_request (cfg w) accessToken scheduleId))])"
  using deleteSchedule_effect [of srv w accessToken scheduleId] by (auto simp: Let_def)

lemma aiScheduleArrangement_trend:
  "\<exists>v w'. aiScheduleArrangement srv accessToken dayPlanId w = Inr (v, w')
     \<and> sent w' = sent w @ [aiScheduleArrangement_request (cfg w) accessToken dayPlanId]
     \<and> trends w' = (trends w)(aiArrangementDuration := trends w aiArrangementDuration
           @ [duration (srv (sent w) (aiScheduleArrangement_request (cfg w) accessToken dayPlanId))])"
  using aiScheduleArrangement_effect [of srv w accessToken dayPlanId] by (auto simp: Let_def)

lemma login_null:
  "\<exists>v w'. login srv email password w = Inr (v, w')
     \<and> (\<not> field_present ''accessToken'' (srv (sent w) (login_request (cfg w) email password))
        \<longrightarrow> v = JNull \<and> (''login: has access token'', False) \<in> set (new_checks w w')
         \<and> rates w' loginFailRate = rates w loginFailRate @ [True])"
  using login_effect [of srv w email password] by (auto simp: Let_def new_checks_def)

lemma refreshToken_null:
  "\<exists>v w'. refreshToken srv cookies' w = Inr (v, w')
     \<and> (\<not> field_present ''accessToken'' (srv (sent w) (refreshToken_request (cfg w) cookies'))
        \<longrightarrow> v = JNull \<and> (''refresh: has new access token'', False) \<in> set (new_checks w w'))"
  using refreshToken_effect [of srv w cookies'] by (auto simp: Let_def new_checks_def)

lemma signup_null:
  "\<exists>v w'. signup srv email w = Inr (v, w')
     \<and> (\<not> field_present ''userId'' (srv (sent w) (signup_request (cfg w) email))
        \<longrightarrow> v = JNull \<and> (''signup: has user id'', False) \<in> set (new_checks w w'))"
  using signup_effect [of srv w email] by (auto simp: Let_def new_checks_def)

lemma getProfile_null:
  "\<exists>v w'. getProfile srv accessToken w = Inr (v, w')
     \<and> (\<not> field_present ''email'' (srv (sent w) (getProfile_request (cfg w) accessToken))
        \<longrightarrow> v = JNull \<and> (''get_profile: has user data'', False) \<in> set (new_checks w w'))"
  using getProfile_effect [of srv w accessToken] by (auto simp: Let_def new_checks_def)

lemma createSchedule_null:
  "\<exists>v w'. createSchedule srv accessToken dayPlanId scheduleData defaultData w = Inr (v, w')
     \<and> (\<not> field_present ''scheduleId'' (srv (sent w) (createSchedule_request (cfg w) accessToken dayPlanId scheduleData defaultData))
        \<longrightarrow> v = JNull \<and> (''create_schedule: has schedule id'', False) \<in> set (new_checks w w'))"
  using createSchedule_effect [of srv w accessToken dayPlanId scheduleData defaultData] by (auto simp: Let_def new_checks_def)

lemma getSchedulesByDate_null:
  "\<exists>v w'. getSchedulesByDate srv today accessToken date w = Inr (v, w')
     \<and> (\<not> field_present ''dayPlanId'' (srv (sent w) (getSchedulesByDate_request (cfg w) today accessToken date))
        \<longrightarrow> v = JNull \<and> (''get_schedules_by_date: has dayPlanId'', False) \<in> set (new_checks w w'))"
  using getSchedulesByDate_effect [of srv w today accessToken date] by (auto simp: Let_def new_checks_def)

text \<open>
  \<open>signupTestUser\<close> is the one helper that can throw: on a response without body whose
  status is neither 200 nor 409. It runs inside \<open>setup()\<close> only.
\<close>

lemma signupTestUser_null_body:
  assumes "body (srv (sent w) (signupTestUser_request (cfg w) email password nickname)) = NoBody"
    and "status (srv (sent w) (signupTestUser_request (cfg w) email password nickname)) \<noteq> 200"
    and "status (srv (sent w) (signupTestUser_request (cfg w) email password nickname)) \<noteq> 409"
  shows "signupTestUser srv email password nickname w = Inl TypeError"
  using assms by (simp add: signupTestUser_def http_request_def Let_def)






text \<open>A body that is missing or is no JSON has no field.\<close>

lemma field_present_needs_json:
  "body r = NoBody \<or> body r = Malformed s \<Longrightarrow> \<not> field_present f r"
  by (auto simp: field_present_def)

section \<open>A signup without access token\<close>

lemma signup_without_token:
  "\<exists>v w'. signup srv email w = Inr (v, w')
     \<and> (\<forall>t. get_prop v ''accessToken'' = Inr t \<longrightarrow> truthy t \<longrightarrow>
          field_present ''accessToken'' (srv (sent w) (signup_request (cfg w) email)))
     \<and> (status (srv (sent w) (signup_request (cfg w) email)) = 200
        \<and> field_present ''userId'' (srv (sent w) (signup_request (cfg w) email))
        \<and> \<not> field_present ''accessToken'' (srv (sent w) (signup_request (cfg w) email))
        \<longrightarrow> (\<exists>u t. v = JObj [(''userId'', u), (''accessToken'', t),
                 (''cookies'', cookies (srv (sent w) (signup_request (cfg w) email)))]
               \<and> \<not> truthy t)
          \<and> new_checks w w' = [(''signup: status is 201'', True), (''signup: has user id'', True)])"
proof -
  define resp where "resp = srv (sent w) (signup_request (cfg w) email)"
  obtain p where hp: "has_data_field ''userId'' resp = Inr p"
      "truthy p = field_present ''userId'' resp"
    using has_data_field_value by blast
  show ?thesis
  proof (cases "field_present ''userId'' resp")
    case True
    then obtain b d x where ch: "JSON_parse (body resp) = Inr b" "get_prop b ''data'' = Inr d"
        "truthy d" "get_prop d ''userId'' = Inr x" "truthy x"
      using field_present_chain by blast
    obtain y where ex: "get_prop d ''accessToken'' = Inr y"
      using get_prop_truthy [OF ch(3)] by blast
    have fp: "field_present ''accessToken'' resp = truthy y"
      using ch ex by (simp add: field_present_def)
    show ?thesis
      using hp True ch ex fp
      by (simp add: signup_def Let_def http_request_def Trend_add_def Rate_add_def status_is_def
          faster_than_def resp_def [symmetric] new_checks_def)
  next
    case False
    show ?thesis
      using hp False
      by (simp add: signup_def Let_def http_request_def Trend_add_def Rate_add_def status_is_def
          faster_than_def resp_def [symmetric] new_checks_def)
  qed
qed

lemma signup_group_token:
  assumes "signup_group srv d w = Inr ((ok, t), w1)" and "truthy t"
  shows "field_present ''accessToken'' (srv (sent w) (signup_request (cfg w) (d_email d)))"
proof -
  obtain v w' where s: "signup srv (d_email d) w = Inr (v, w')"
    and k: "\<forall>t. get_prop v ''accessToken'' = Inr t \<longrightarrow> truthy t \<longrightarrow>
          field_present ''accessToken'' (srv (sent w) (signup_request (cfg w) (d_email d)))"
    using signup_without_token [of srv "d_email d" w] by blast
  show ?thesis
  proof (cases "truthy v")
    case False
    with assms s show ?thesis by (simp add: signup_group_def)
  next
    case True
    then obtain t' where t': "get_prop v ''accessToken'' = Inr t'"
      using get_prop_truthy by blast
    with assms s True have "t' = t" by (simp add: signup_group_def)
    with k t' assms(2) show ?thesis by blast
  qed
qed

lemma aborted_after_signup:
  assumes "extends w w1 [signup_request (cfg w) e] cs"
  shows "new_tags w (Rate_add scenarioFailRate True w1) = [''signup'']"
    and "new_outcomes w (Rate_add scenarioFailRate True w1) = [True]"
    and "new_tags w (Trend_add m x (Rate_add scenarioFailRate True w1)) = [''signup'']"
    and "new_outcomes w (Trend_add m x (Rate_add scenarioFailRate True w1)) = [True]"
  using assms
  by (simp_all add: extends_def new_tags_def new_outcomes_def Rate_add_def Trend_add_def)

lemma load_default_no_token:
  "\<exists>w'. load_default srv d w = Inr w'
     \<and> (\<not> field_present ''accessToken'' (srv (sent w) (signup_request (cfg w) (d_email d)))
        \<longrightarrow> new_tags w w' = [''signup''] \<and> new_outcomes w w' = [True])"
proof -
  obtain ok t w1 b1 b2 where g:
    "signup_group srv d w = Inr ((ok, t), w1)"
    "extends w w1 [signup_request (cfg w) (d_email d)] (signup_checks b1 b2)"
    by (rule signup_group_step [of srv d w])
  show ?thesis
  proof (cases "truthy t")
    case True
    from load_default_finishes [of w srv d] signup_group_token [OF g(1) True] show ?thesis
      by (auto simp: finishes_def)
  next
    case False
    then have "load_default srv d w = Inr (Rate_add scenarioFailRate True w1)"
      by (simp add: load_default_def g(1))
    with aborted_after_signup(1,2) [OF g(2)] show ?thesis by simp
  qed
qed

lemma stress_default_no_token:
  "\<exists>w'. stress_default srv d w = Inr w'
     \<and> (\<not> field_present ''accessToken'' (srv (sent w) (signup_request (cfg w) (d_email d)))
        \<longrightarrow> new_tags w w' = [''signup''] \<and> new_outcomes w w' = [True])"
proof -
  obtain ok t w1 b1 b2 where g:
    "signup_group srv d w = Inr ((ok, t), w1)"
    "extends w w1 [signup_request (cfg w) (d_email d)] (signup_checks b1 b2)"
    by (rule signup_group_step [of srv d w])
  show ?thesis
  proof (cases "truthy t")
    case True
    from stress_default_finishes [of w srv d] signup_group_token [OF g(1) True] show ?thesis
      by (auto simp: finishes_def)
  next
    case False
    then have "stress_default srv d w = Inr (Rate_add scenarioFailRate True w1)"
      by (simp add: stress_default_def g(1))
    with aborted_after_signup(1,2) [OF g(2)] show ?thesis by simp
  qed
qed

lemma spike_default_no_token:
  "\<exists>w'. spike_default srv d w = Inr w'
     \<and> (\<not> field_present ''accessToken'' (srv (sent w) (signup_request (cfg w) (d_email d)))
        \<longrightarrow> new_tags w w' = [''signup''] \<and> new_outcomes w w' = [True])"
proof -
  obtain ok t w1 b1 b2 where g:
    "signup_group srv d w = Inr ((ok, t), w1)"
    "extends w w1 [signup_request (cfg w) (d_email d)] (signup_checks b1 b2)"
    by (rule signup_group_step [of srv d w])
  show ?thesis
  proof (cases "truthy t")
    case True
    from spike_default_finishes [of w srv d] signup_group_token [OF g(1) True] show ?thesis
      by (auto simp: finishes_def)
  next
    case False
    then have "spike_default srv d w = Inr (Rate_add scenarioFailRate True w1)"
      by (simp add: spike_default_def g(1))
    with aborted_after_signup(1,2) [OF g(2)] show ?thesis by simp
  qed
qed

lemma breakpoint_default_no_token:
  "\<exists>w'. breakpoint_default srv d w = Inr w'
     \<and> (\<not> field_present ''accessToken'' (srv (sent w) (signup_request (cfg w) (d_email d)))
        \<longrightarrow> new_tags w w' = [''signup''] \<and> new_outcomes w w' = [True])"
proof -
  obtain ok t w1 b1 b2 where g:
    "signup_group srv d w = Inr ((ok, t), w1)"
    "extends w w1 [signup_request (cfg w) (d_email d)] (signup_checks b1 b2)"
    by (rule signup_group_step [of srv d w])
  show ?thesis
  proof (cases "truthy t")
    case True
    from breakpoint_default_finishes [of w srv d] signup_group_token [OF g(1) True] show ?thesis
      by (auto simp: finishes_def)
  next
    case False
    then have "breakpoint_default srv d w
        = Inr (Trend_add fullScenarioDuration (d_elapsed d) (Rate_add scenarioFailRate True w1))"
      by (simp add: breakpoint_default_def g(1))
    with aborted_after_signup(3,4) [OF g(2)] show ?thesis by simp
  qed
qed

section \<open>The order of the steps of an iteration\<close>








section \<open>Sample runs, evaluated\<close>

lemmas run_defs = load_default_def stress_default_def spike_default_def test_setup_def
  signup_group_def initial_load_group_def when_schedule_id_def schedule_literal_def
  login_def refreshToken_def
  signup_def getProfile_def getSchedulesByDate_def createSchedule_def
  getSchedules_def updateScheduleStatus_def searchUsers_def getNotifications_def
  deleteSchedule_def logout_def healthCheck_def
  login_request_def refreshToken_request_def
  signup_request_def getProfile_request_def getSchedulesByDate_request_def
  createSchedule_request_def getSchedules_request_def updateScheduleStatus_request_def
  searchUsers_request_def getNotifications_request_def deleteSchedule_request_def
  logout_request_def healthCheck_request_def
  http_request_def Trend_add_def Rate_add_def status_is_def faster_than_def has_data_field_def
  try_catch_def and_prop_def js_or_def Let_def discard_def
  w0_def d0_def srv_ok_def srv_create_fails_def srv_malformed_def srv_down_def
  srv_no_day_plan_def ok_body_def
  tags_of_def outcomes_of_def failed_of_def new_tags_def new_checks_def new_outcomes_def
  new_requests_def step_failed_def scenarioFailRate_def






section \<open>Percentiles\<close>

lemma sorted_nth_le:
  "sorted s \<Longrightarrow> i \<le> j \<Longrightarrow> j < length s \<Longrightarrow> s ! i \<le> (s ! j :: real)"
  by (simp add: sorted_iff_nth_mono)

lemma rank_in_range:
  assumes "0 < n" and "p \<le> 100"
  shows "max 1 ((p * n + 99) div 100) - 1 < (n::nat)"
proof -
  have "p * n + 99 \<le> 100 * n + 99" using assms(2) by simp
  then have "(p * n + 99) div 100 \<le> (100 * n + 99) div 100" by (rule div_le_mono)
  also have "\<dots> = n" by simp
  finally have "(p * n + 99) div 100 \<le> n" .
  with assms(1) show ?thesis unfolding max_def by (simp split: if_splits) arith
qed

lemma rank_mono:
  "p \<le> q \<Longrightarrow> max 1 ((p * n + 99) div 100) - 1 \<le> max 1 ((q * n + 99) div 100) - (1::nat)"
  by (intro diff_le_mono max.mono order_refl div_le_mono add_le_mono mult_le_mono1)

lemma nearest_rank_mono:
  assumes "xs \<noteq> []" and "p \<le> q" and "q \<le> 100"
  shows "\<exists>a b. nearest_rank p xs = Some a \<and> nearest_rank q xs = Some b \<and> a \<le> b"
proof -
  have n: "0 < length xs" using assms(1) by simp
  have "sort xs ! (max 1 ((p * length xs + 99) div 100) - 1)
      \<le> sort xs ! (max 1 ((q * length xs + 99) div 100) - 1)"
    using rank_mono [OF assms(2)] rank_in_range [OF n assms(3)]
    by (intro sorted_nth_le) simp_all
  then show ?thesis using assms(1) by (simp add: nearest_rank_def)
qed

lemma interpolation_bounds:
  fixes s :: "real list"
  assumes "sorted s" and "lo < length s"
  shows "s ! lo \<le> s ! lo + real (P mod 100) / 100 * (s ! min (lo + 1) (length s - 1) - s ! lo)"
    and "s ! lo + real (P mod 100) / 100 * (s ! min (lo + 1) (length s - 1) - s ! lo)
           \<le> s ! min (lo + 1) (length s - 1)"
proof -
  let ?hi = "min (lo + 1) (length s - 1)"
  let ?f = "real (P mod 100) / 100"
  have d: "0 \<le> s ! ?hi - s ! lo"
    using assms by (simp add: sorted_nth_le)
  have f: "0 \<le> ?f" "?f \<le> 1" by simp_all
  show "s ! lo \<le> s ! lo + ?f * (s ! ?hi - s ! lo)"
    using d f(1) by simp
  have "?f * (s ! ?hi - s ! lo) \<le> 1 * (s ! ?hi - s ! lo)"
    using f(2) d by (rule mult_right_mono)
  then show "s ! lo + ?f * (s ! ?hi - s ! lo) \<le> s ! ?hi" by simp
qed

lemma interpolation_mono:
  fixes s :: "real list"
  assumes "sorted s" and "P \<le> Q" and "Q div 100 < length s"
  shows "s ! (P div 100) + real (P mod 100) / 100
             * (s ! min (P div 100 + 1) (length s - 1) - s ! (P div 100))
       \<le> s ! (Q div 100) + real (Q mod 100) / 100
             * (s ! min (Q div 100 + 1) (length s - 1) - s ! (Q div 100))"
proof (cases "P div 100 = Q div 100")
  case True
  have "P mod 100 \<le> Q mod 100"
    using assms(2) True by (metis div_mult_mod_eq nat_add_left_cancel_le)
  then have f: "real (P mod 100) / 100 \<le> real (Q mod 100) / 100" by simp
  have d: "0 \<le> s ! min (Q div 100 + 1) (length s - 1) - s ! (Q div 100)"
    using assms(1,3) by (simp add: sorted_nth_le)
  show ?thesis
    unfolding True using mult_right_mono [OF f d] by simp
next
  case False
  have lt: "P div 100 < Q div 100"
    using False div_le_mono [OF assms(2), of 100] by simp
  then have lo: "P div 100 < length s" using assms(3) by simp
  have "s ! (P div 100) + real (P mod 100) / 100
             * (s ! min (P div 100 + 1) (length s - 1) - s ! (P div 100))
       \<le> s ! min (P div 100 + 1) (length s - 1)"
    by (rule interpolation_bounds(2) [OF assms(1) lo])
  also have "\<dots> \<le> s ! (Q div 100)"
    using lt assms(3) by (intro sorted_nth_le [OF assms(1)]) simp_all
  also have "\<dots> \<le> s ! (Q div 100) + real (Q mod 100) / 100
             * (s ! min (Q div 100 + 1) (length s - 1) - s ! (Q div 100))"
    by (rule interpolation_bounds(1) [OF assms(1,3)])
  finally show ?thesis .
qed

lemma interpolated_mono:
  assumes "xs \<noteq> []" and "p \<le> q" and "q \<le> 100"
  shows "\<exists>a b. interpolated p xs = Some a \<and> interpolated q xs = Some b \<and> a \<le> b"
proof -
  let ?n = "length xs"
  have n: "0 < ?n" using assms(1) by simp
  have "q * (?n - 1) \<le> 100 * (?n - 1)" using assms(3) by simp
  then have "q * (?n - 1) div 100 \<le> 100 * (?n - 1) div 100" by (rule div_le_mono)
  then have "q * (?n - 1) div 100 \<le> ?n - 1" by simp
  with n have r: "q * (?n - 1) div 100 < length (sort xs)"
    unfolding length_sort by linarith
  have m: "p * (?n - 1) \<le> q * (?n - 1)" using assms(2) by simp
  from interpolation_mono [OF _ m r] show ?thesis
    using assms(1) by (simp add: interpolated_def Let_def)
qed

section \<open>The claims\<close>

subsection \<open>C1: fail-fast and the order of the steps\<close>




subsection \<open>C2: cleanup after a failed creation\<close>




subsection \<open>C3: thresholds over an empty series\<close>



subsection \<open>C4: what the report contains\<close>




subsection \<open>C5: what propagates\<close>



subsection \<open>C6: a body without the required field\<close>

text \<open>
  C6, as stated, does not hold. A signup response with status 200 and a user id but
  without access token, the field that every later step needs, is no failure of
  \<open>signup\<close>: the result is an object, not \<open>null\<close>, its \<open>accessToken\<close> is \<open>undefined\<close>,
  and both checks are recorded as passed.
\<close>

theorem signup_without_token_is_no_failure:
  "result_of (signup srv_no_token (d_email d0) w0)
     = Inr (JObj [(''userId'', JNum 7), (''accessToken'', JUndefined), (''cookies'', JObj [])])
   \<and> checks_of w0 (signup srv_no_token (d_email d0) w0)
     = Inr [(''signup: status is 201'', True), (''signup: has user id'', True)]"
  by (simp add: signup_def signup_request_def http_request_def Let_def Trend_add_def
      status_is_def has_data_field_def try_catch_def and_prop_def srv_no_token_def
      new_checks_def w0_def d0_def result_of_def checks_of_def)

text \<open>
  C6, amended. The six helpers that extract a field from the response never throw.
  When the body is missing, is no JSON, or lacks a truthy \<open>data\<close> with the truthy field
  that the helper's own check tests, the helper returns \<open>null\<close> and that check is
  recorded as failed (\<open>login\<close> also records \<open>true\<close> in \<open>login_failures\<close>). The field is
  \<open>accessToken\<close> for \<open>login\<close> and \<open>refreshToken\<close>, \<open>userId\<close> for \<open>signup\<close>, \<open>email\<close> for
  \<open>getProfile\<close>, \<open>scheduleId\<close> for \<open>createSchedule\<close> and \<open>dayPlanId\<close> for
  \<open>getSchedulesByDate\<close>. The check of \<open>signup\<close> does not test the access token: for a
  response with status 200 and a user id but no truthy access token, \<open>signup\<close> returns
  an object whose \<open>accessToken\<close> is not truthy and records its two checks as passed.
  The load, stress, spike and breakpoint iterations then end after the signup, send
  nothing more and record the iteration as failed, without throwing.
\<close>

theorem extraction_failure_is_null:
  "(\<exists>v w'. login srv email password w = Inr (v, w')
      \<and> (\<not> field_present ''accessToken'' (srv (sent w) (login_request (cfg w) email password))
         \<longrightarrow> v = JNull \<and> (''login: has access token'', False) \<in> set (new_checks w w')
          \<and> rates w' loginFailRate = rates w loginFailRate @ [True]))
   \<and> (\<exists>v w'. refreshToken srv cookies' w = Inr (v, w')
      \<and> (\<not> field_present ''accessToken'' (srv (sent w) (refreshToken_request (cfg w) cookies'))
         \<longrightarrow> v = JNull \<and> (''refresh: has new access token'', False) \<in> set (new_checks w w')))
   \<and> (\<exists>v w'. signup srv email w = Inr (v, w')
      \<and> (\<not> field_present ''userId'' (srv (sent w) (signup_request (cfg w) email))
         \<longrightarrow> v = JNull \<and> (''signup: has user id'', False) \<in> set (new_checks w w')))
   \<and> (\<exists>v w'. getProfile srv accessToken w = Inr (v, w')
      \<and> (\<not> field_present ''email'' (srv (sent w) (getProfile_request (cfg w) accessToken))
         \<longrightarrow> v = JNull \<and> (''get_profile: has user data'', False) \<in> set (new_checks w w')))
   \<and> (\<exists>v w'. createSchedule srv accessToken dayPlanId scheduleData defaultData w = Inr (v, w')
      \<and> (\<not> field_present ''scheduleId'' (srv (sent w) (createSchedule_request (cfg w) accessToken dayPlanId scheduleData defaultData))
         \<longrightarrow> v = JNull \<and> (''create_schedule: has schedule id'', False) \<in> set (new_checks w w')))
   \<and> (\<exists>v w'. getSchedulesByDate srv today accessToken date w = Inr (v, w')
      \<and> (\<not> field_present ''dayPlanId'' (srv (sent w) (getSchedulesByDate_request (cfg w) today accessToken date))
         \<longrightarrow> v = JNull \<and> (''get_schedules_by_date: has dayPlanId'', False) \<in> set (new_checks w w')))
   \<and> (\<exists>v w'. signup srv email w = Inr (v, w')
      \<and> (status (srv (sent w) (signup_request (cfg w) email)) = 200
          \<and> field_present ''userId'' (srv (sent w) (signup_request (cfg w) email))
          \<and> \<not> field_present ''accessToken'' (srv (sent w) (signup_request (cfg w) email))
         \<longrightarrow> (\<exists>u t. v = JObj [(''userId'', u), (''accessToken'', t),
                   (''cookies'', cookies (srv (sent w) (signup_request (cfg w) email)))]
                 \<and> \<not> truthy t)
            \<and> new_checks w w'
                = [(''signup: status is 201'', True), (''signup: has user id'', True)]))
   \<and> (\<exists>w'. load_default srv d w = Inr w'
      \<and> (\<not> field_present ''accessToken'' (srv (sent w) (signup_request (cfg w) (d_email d)))
         \<longrightarrow> new_tags w w' = [''signup''] \<and> new_outcomes w w' = [True]))
   \<and> (\<exists>w'. stress_default srv d w = Inr w'
      \<and> (\<not> field_present ''accessToken'' (srv (sent w) (signup_request (cfg w) (d_email d)))
         \<longrightarrow> new_tags w w' = [''signup''] \<and> new_outcomes w w' = [True]))
   \<and> (\<exists>w'. spike_default srv d w = Inr w'
      \<and> (\<not> field_present ''accessToken'' (srv (sent w) (signup_request (cfg w) (d_email d)))
         \<longrightarrow> new_tags w w' = [''signup''] \<and> new_outcomes w w' = [True]))
   \<and> (\<exists>w'. breakpoint_default srv d w = Inr w'
      \<and> (\<not> field_present ''accessToken'' (srv (sent w) (signup_request (cfg w) (d_email d)))
         \<longrightarrow> new_tags w w' = [''signup''] \<and> new_outcomes w w' = [True]))"
proof -
  have "\<exists>v w'. signup srv email w = Inr (v, w')
      \<and> (status (srv (sent w) (signup_request (cfg w) email)) = 200
          \<and> field_present ''userId'' (srv (sent w) (signup_request (cfg w) email))
          \<and> \<not> field_present ''accessToken'' (srv (sent w) (signup_request (cfg w) email))
         \<longrightarrow> (\<exists>u t. v = JObj [(''userId'', u), (''accessToken'', t),
                   (''cookies'', cookies (srv (sent w) (signup_request (cfg w) email)))]
                 \<and> \<not> truthy t)
            \<and> new_checks w w'
                = [(''signup: status is 201'', True), (''signup: has user id'', True)])"
    using signup_without_token [of srv email w] by blast
  then show ?thesis
    by (intro conjI login_null refreshToken_null signup_null getProfile_null createSchedule_null
        getSchedulesByDate_null load_default_no_token stress_default_no_token
        spike_default_no_token breakpoint_default_no_token)
qed

theorem extraction_failure_is_null_witness:
  "\<not> field_present ''accessToken''
       (srv_malformed (sent w0) (login_request (cfg w0) ''a@test.com'' ''pw''))
   \<and> (\<exists>w'. login srv_malformed ''a@test.com'' ''pw'' w0 = Inr (JNull, w')
        \<and> (''login: has access token'', False) \<in> set (new_checks w0 w')
        \<and> rates w' loginFailRate = rates w0 loginFailRate @ [True])
   \<and> \<not> field_present ''dayPlanId''
       (srv_down (sent w0) (getSchedulesByDate_request (cfg w0) ''2026-01-15'' (JStr ''tok'') JNull))
   \<and> (\<exists>w'. getSchedulesByDate srv_down ''2026-01-15'' (JStr ''tok'') JNull w0 = Inr (JNull, w')
        \<and> (''get_schedules_by_date: has dayPlanId'', False) \<in> set (new_checks w0 w'))
   \<and> status (srv_no_token (sent w0) (signup_request (cfg w0) (d_email d0))) = 200
   \<and> field_present ''userId'' (srv_no_token (sent w0) (signup_request (cfg w0) (d_email d0)))
   \<and> \<not> field_present ''accessToken''
       (srv_no_token (sent w0) (signup_request (cfg w0) (d_email d0)))
   \<and> (\<exists>v w'. signup srv_no_token (d_email d0) w0 = Inr (v, w') \<and> v \<noteq> JNull
        \<and> new_checks w0 w' = [(''signup: status is 201'', True), (''signup: has user id'', True)])
   \<and> (\<exists>w'. spike_default srv_no_token d0 w0 = Inr w'
        \<and> new_tags w0 w' = [''signup''] \<and> new_outcomes w0 w' = [True])"
proof -
  have m: "\<not> field_present ''accessToken''
       (srv_malformed (sent w0) (login_request (cfg w0) ''a@test.com'' ''pw''))"
    by (simp add: field_present_def srv_malformed_def)
  have n: "\<not> field_present ''dayPlanId''
       (srv_down (sent w0) (getSchedulesByDate_request (cfg w0) ''2026-01-15'' (JStr ''tok'') JNull))"
    by (simp add: field_present_def srv_down_def)
  have k: "status (srv_no_token (sent w0) (signup_request (cfg w0) (d_email d0))) = 200"
    "field_present ''userId'' (srv_no_token (sent w0) (signup_request (cfg w0) (d_email d0)))"
    "\<not> field_present ''accessToken''
       (srv_no_token (sent w0) (signup_request (cfg w0) (d_email d0)))"
    by (simp_all add: field_present_def srv_no_token_def signup_request_def)
  from extraction_failure_is_null [of srv_malformed "''a@test.com''" "''pw''" w0, THEN conjunct1] m
  have 1: "\<exists>w'. login srv_malformed ''a@test.com'' ''pw'' w0 = Inr (JNull, w')
        \<and> (''login: has access token'', False) \<in> set (new_checks w0 w')
        \<and> rates w' loginFailRate = rates w0 loginFailRate @ [True]"
    by blast
  note t2 = extraction_failure_is_null [where srv = srv_down and w = w0
      and today = "''2026-01-15''" and accessToken = "JStr ''tok''" and date = JNull]
  from t2 [THEN conjunct2, THEN conjunct2, THEN conjunct2, THEN conjunct2, THEN conjunct2,
      THEN conjunct1] n
  have 2: "\<exists>w'. getSchedulesByDate srv_down ''2026-01-15'' (JStr ''tok'') JNull w0
          = Inr (JNull, w')
        \<and> (''get_schedules_by_date: has dayPlanId'', False) \<in> set (new_checks w0 w')"
    by blast
  note t3 = extraction_failure_is_null [where srv = srv_no_token and w = w0
      and email = "d_email d0" and d = d0]
  from t3 [THEN conjunct2, THEN conjunct2, THEN conjunct2, THEN conjunct2, THEN conjunct2,
      THEN conjunct2, THEN conjunct1] k
  have 3: "\<exists>v w'. signup srv_no_token (d_email d0) w0 = Inr (v, w') \<and> v \<noteq> JNull
        \<and> new_checks w0 w' = [(''signup: status is 201'', True), (''signup: has user id'', True)]"
    by blast
  from t3 [THEN conjunct2, THEN conjunct2, THEN conjunct2, THEN conjunct2, THEN conjunct2,
      THEN conjunct2, THEN conjunct2, THEN conjunct2, THEN conjunct2, THEN conjunct1] k(3)
  have 4: "\<exists>w'. spike_default srv_no_token d0 w0 = Inr w'
        \<and> new_tags w0 w' = [''signup''] \<and> new_outcomes w0 w' = [True]"
    by blast
  from m 1 n 2 k 3 4 show ?thesis by blast
qed

subsection \<open>C7: percentile monotonicity\<close>

text \<open>
  C7. For every non-empty numeric series the percentiles are monotone,
  \<open>p50 \<le> p90 \<le> p95 \<le> p99\<close>, under the nearest-rank definition and under linear
  interpolation alike.
\<close>

theorem percentiles_monotone:
  assumes "xs \<noteq> []"
  shows "(\<exists>p50 p90 p95 p99.
           nearest_rank 50 xs = Some p50 \<and> nearest_rank 90 xs = Some p90
           \<and> nearest_rank 95 xs = Some p95 \<and> nearest_rank 99 xs = Some p99
           \<and> p50 \<le> p90 \<and> p90 \<le> p95 \<and> p95 \<le> p99)
       \<and> (\<exists>p50 p90 p95 p99.
           interpolated 50 xs = Some p50 \<and> interpolated 90 xs = Some p90
           \<and> interpolated 95 xs = Some p95 \<and> interpolated 99 xs = Some p99
           \<and> p50 \<le> p90 \<and> p90 \<le> p95 \<and> p95 \<le> p99)"
proof
  from nearest_rank_mono [OF assms, of 50 90] nearest_rank_mono [OF assms, of 90 95]
    nearest_rank_mono [OF assms, of 95 99]
  show "\<exists>p50 p90 p95 p99.
           nearest_rank 50 xs = Some p50 \<and> nearest_rank 90 xs = Some p90
           \<and> nearest_rank 95 xs = Some p95 \<and> nearest_rank 99 xs = Some p99
           \<and> p50 \<le> p90 \<and> p90 \<le> p95 \<and> p95 \<le> p99"
    by auto
  from interpolated_mono [OF assms, of 50 90] interpolated_mono [OF assms, of 90 95]
    interpolated_mono [OF assms, of 95 99]
  show "\<exists>p50 p90 p95 p99.
           interpolated 50 xs = Some p50 \<and> interpolated 90 xs = Some p90
           \<and> interpolated 95 xs = Some p95 \<and> interpolated 99 xs = Some p99
           \<and> p50 \<le> p90 \<and> p90 \<le> p95 \<and> p95 \<le> p99"
    by auto
qed

theorem percentiles_monotone_witness:
  "[120, 80, 2400, 95, 310] \<noteq> ([] :: real list)
   \<and> nearest_rank 50 [120, 80, 2400, 95, 310] = Some 120
   \<and> nearest_rank 99 [120, 80, 2400, 95, 310] = Some 2400
   \<and> (\<exists>p50 p90 p95 p99.
        nearest_rank 50 [120, 80, 2400, 95, 310] = Some p50
        \<and> nearest_rank 90 [120, 80, 2400, 95, 310] = Some p90
        \<and> nearest_rank 95 [120, 80, 2400, 95, 310] = Some p95
        \<and> nearest_rank 99 [120, 80, 2400, 95, 310] = Some p99
        \<and> p50 \<le> p90 \<and> p90 \<le> p95 \<and> p95 \<le> p99)
   \<and> (\<exists>p50 p90 p95 p99.
        interpolated 50 [120, 80, 2400, 95, 310] = Some p50
        \<and> interpolated 90 [120, 80, 2400, 95, 310] = Some p90
        \<and> interpolated 95 [120, 80, 2400, 95, 310] = Some p95
        \<and> interpolated 99 [120, 80, 2400, 95, 310] = Some p99
        \<and> p50 \<le> p90 \<and> p90 \<le> p95 \<and> p95 \<le> p99)"
proof -
  have ne: "[120, 80, 2400, 95, 310] \<noteq> ([] :: real list)" by simp
  have v: "nearest_rank 50 [120, 80, 2400, 95, 310] = Some 120"
    "nearest_rank 99 [120, 80, 2400, 95, 310] = Some 2400"
    by (simp_all add: nearest_rank_def)
  from ne v percentiles_monotone [OF ne]
  show ?thesis by (intro conjI) simp_all
qed

subsection \<open>C8: the configuration\<close>

text \<open>
  C8. No operation of the scripts changes \<open>BASE_URL\<close>, \<open>DEFAULT_HEADERS\<close> or \<open>TIMEOUTS\<close>:
  after any sequence of calls of the eighteen helpers, of the nine iteration functions
  and of the two forms of \<open>setup()\<close> the configuration is
  the one the run started with, and every request sent in between was built from
  exactly that configuration (URL under \<open>BASE_URL\<close>, a timeout of \<open>TIMEOUTS\<close>, the
  headers of \<open>DEFAULT_HEADERS\<close>).
\<close>

theorem configuration_is_never_mutated:
  assumes "run_all srv xs w = Inr w'"
  shows "cfg w' = cfg w \<and> list_all (from_config (cfg w)) (new_requests w w')"
  using run_all_grows [OF assms] by (simp add: grows_def)

theorem configuration_is_never_mutated_witness:
  "\<exists>w'. run_all srv_ok [Setup ''load'' ''2026-01-15T09:00:00.000Z'',
            SignupTestUser ''loadtest_prod_0@test.com'' ''Test1234!'' ''LoadUser0'',
            Login ''a@test.com'' ''pw'', GetProfile (JStr ''tok'')] w0 = Inr w'
     \<and> cfg w' = config_js \<and> list_all (from_config config_js) (new_requests w0 w')"
proof -
  have "\<exists>w'. run_all srv_ok [Setup ''load'' ''2026-01-15T09:00:00.000Z'',
            SignupTestUser ''loadtest_prod_0@test.com'' ''Test1234!'' ''LoadUser0'',
            Login ''a@test.com'' ''pw'', GetProfile (JStr ''tok'')] w0 = Inr w'"
    by (simp add: run_defs signupTestUser_def signupTestUser_request_def)
  then obtain w' where r: "run_all srv_ok [Setup ''load'' ''2026-01-15T09:00:00.000Z'',
            SignupTestUser ''loadtest_prod_0@test.com'' ''Test1234!'' ''LoadUser0'',
            Login ''a@test.com'' ''pw'', GetProfile (JStr ''tok'')] w0 = Inr w'" ..
  from configuration_is_never_mutated [OF r] r show ?thesis
    by (auto simp: w0_def)
qed

subsection \<open>C9: one duration sample per call\<close>

text \<open>
  C9. Every call of a helper that owns a \<open>Trend\<close> metric returns normally, sends one
  request and appends exactly one sample to that metric and to no other: the
  \<open>timings.duration\<close> of the response to that request. This holds for every target
  system, whatever the response and whether its checks pass or fail.
  \<open>getSchedulesByDate\<close> records into the metric of \<open>getSchedules\<close>.
\<close>

theorem trend_sample_on_every_call:
  "(\<exists>v w'. login srv email password w = Inr (v, w')
      \<and> sent w' = sent w @ [login_request (cfg w) email password]
      \<and> trends w' = (trends w)(loginDuration := trends w loginDuration
            @ [duration (srv (sent w) (login_request (cfg w) email password))]))
   \<and> (\<exists>v w'. refreshToken srv cookies' w = Inr (v, w')
      \<and> sent w' = sent w @ [refreshToken_request (cfg w) cookies']
      \<and> trends w' = (trends w)(refreshTokenDuration := trends w refreshTokenDuration
            @ [duration (srv (sent w) (refreshToken_request (cfg w) cookies'))]))
   \<and> (\<exists>v w'. signup srv email w = Inr (v, w')
      \<and> sent w' = sent w @ [signup_request (cfg w) email]
      \<and> trends w' = (trends w)(signupDuration := trends w signupDuration
            @ [duration (srv (sent w) (signup_request (cfg w) email))]))
   \<and> (\<exists>v w'. getProfile srv accessToken w = Inr (v, w')
      \<and> sent w' = sent w @ [getProfile_request (cfg w) accessToken]
      \<and> trends w' = (trends w)(getProfileDuration := trends w getProfileDuration
            @ [duration (srv (sent w) (getProfile_request (cfg w) accessToken))]))
   \<and> (\<exists>v w'. searchUsers srv accessToken nickname page size' w = Inr (v, w')
      \<and> sent w' = sent w @ [searchUsers_request (cfg w) accessToken nickname page size']
      \<and> trends w' = (trends w)(searchUsersDuration := trends w searchUsersDuration
            @ [duration (srv (sent w) (searchUsers_request (cfg w) accessToken nickname page size'))]))
   \<and> (\<exists>v w'. createSchedule srv accessToken dayPlanId scheduleData defaultData w = Inr (v, w')
      \<and> sent w' = sent w @ [createSchedule_request (cfg w) accessToken dayPlanId scheduleData defaultData]
      \<and> trends w' = (trends w)(createScheduleDuration := trends w createScheduleDuration
            @ [duration (srv (sent w) (createSchedule_request (cfg w) accessToken dayPlanId scheduleData defaultData))]))
   \<and> (\<exists>v w'. getSchedules srv today accessToken dayPlanId page size' w = Inr (v, w')
      \<and> sent w' = sent w @ [getSchedules_request (cfg w) today accessToken dayPlanId page size']
      \<and> trends w' = (trends w)(getSchedulesDuration := trends w getSchedulesDuration
            @ [duration (srv (sent w) (getSchedules_request (cfg w) today accessToken dayPlanId page size'))]))
   \<and> (\<exists>v w'. getSchedulesByDate srv today accessToken date w = Inr (v, w')
      \<and> sent w' = sent w @ [getSchedulesByDate_request (cfg w) today accessToken date]
      \<and> trends w' = (trends w)(getSchedulesDuration := trends w getSchedulesDuration
            @ [duration (srv (sent w) (getSchedulesByDate_request (cfg w) today accessToken date))]))
   \<and> (\<exists>v w'. updateSchedule srv accessToken scheduleId updateData w = Inr (v, w')
      \<and> sent w' = sent w @ [updateSchedule_request (cfg w) accessToken scheduleId updateData]
      \<and> trends w' = (trends w)(updateScheduleDuration := trends w updateScheduleDuration
            @ [duration (srv (sent w) (updateSchedule_request (cfg w) accessToken scheduleId updateData))]))
   \<and> (\<exists>v w'. deleteSchedule srv accessToken scheduleId w = Inr (v, w')
      \<and> sent w' = sent w @ [deleteSchedule_request (cfg w) accessToken scheduleId]
      \<and> trends w' = (trends w)(deleteScheduleDuration := trends w deleteScheduleDuration
            @ [duration (srv (sent w) (deleteSchedule_request (cfg w) accessToken scheduleId))]))
   \<and> (\<exists>v w'. aiScheduleArrangement srv accessToken dayPlanId w = Inr (v, w')
      \<and> sent w' = sent w @ [aiScheduleArrangement_request (cfg w) accessToken dayPlanId]
      \<and> trends w' = (trends w)(aiArrangementDuration := trends w aiArrangementDuration
            @ [duration (srv (sent w) (aiScheduleArrangement_request (cfg w) accessToken dayPlanId))]))"
  by (intro conjI login_trend refreshToken_trend signup_trend getProfile_trend searchUsers_trend
      createSchedule_trend getSchedules_trend getSchedulesByDate_trend updateSchedule_trend
      deleteSchedule_trend aiScheduleArrangement_trend)

subsection \<open>C10: selectTestUser\<close>

lemma binary_digits_le: "n < 2 ^ k \<Longrightarrow> binary_digits n \<le> k"
proof (induction k arbitrary: n)
  case 0
  then show ?case by (simp add: binary_digits.simps)
next
  case (Suc k)
  show ?case
  proof (cases "n \<le> 0")
    case True
    then show ?thesis by (simp add: binary_digits.simps)
  next
    case False
    from Suc.prems have "n div 2 < 2 ^ k" by simp
    from Suc.IH [OF this] False show ?thesis
      by (subst binary_digits.simps) simp
  qed
qed

lemma round_to_double_exact:
  assumes "0 \<le> n" and "n \<le> 2 ^ 53"
  shows "round_to_double n = n"
proof (cases "n = 2 ^ 53")
  case True
  show ?thesis
    unfolding True by (simp add: round_to_double_def Let_def binary_digits.simps)
next
  case False
  with assms have "n < 2 ^ 53" by simp
  then have "binary_digits n \<le> 53" by (rule binary_digits_le)
  then show ?thesis
    by (simp add: round_to_double_def Let_def)
qed

lemma to_double_exact:
  assumes "\<bar>n\<bar> \<le> 2 ^ 53"
  shows "to_double n = n"
proof -
  have "round_to_double \<bar>n\<bar> = \<bar>n\<bar>"
    using assms by (intro round_to_double_exact) simp_all
  then show ?thesis
    by (simp add: to_double_def sgn_if)
qed

lemma js_rem_nonneg:
  "0 \<le> a \<Longrightarrow> 0 < b \<Longrightarrow> js_rem a b = Some (a mod b)"
  by (cases "a = 0") (simp_all add: js_rem_def)

lemma selectTestUser_index:
  assumes "users \<noteq> []" and "1 \<le> vuId" and "vuId \<le> 2 ^ 53"
  shows "selectTestUser users vuId = Some (users ! nat ((vuId - 1) mod int (length users)))"
proof -
  let ?n = "int (length users)"
  have n: "0 < ?n" using assms(1) by simp
  have m: "js_minus vuId 1 = vuId - 1"
    using assms(2,3) by (simp add: js_minus_def to_double_exact)
  have r: "js_rem (vuId - 1) ?n = Some ((vuId - 1) mod ?n)"
    using assms(2) n by (intro js_rem_nonneg) simp_all
  have "0 \<le> (vuId - 1) mod ?n" "(vuId - 1) mod ?n < ?n"
    using n by simp_all
  then show ?thesis
    unfolding selectTestUser_def m r Let_def array_at_def by simp
qed

lemma selectTestUser_element:
  assumes "users \<noteq> []" and "1 \<le> vuId"
  shows "\<exists>u. selectTestUser users vuId = Some u \<and> u \<in> set users"
  using account_selected [OF assms(2,1)] by (simp add: selectTestUser_def)

text \<open>
  C10, as stated, does not hold for every integer \<open>vuId \<ge> 1\<close>. The number
  \<open>2\<^sup>5\<^sup>3 + 2\<close> is a double, \<open>vuId - 1\<close> is then rounded to \<open>2\<^sup>5\<^sup>3\<close>, and with three users
  the third is selected, where index \<open>(vuId - 1) mod 3 = 0\<close> is the first.
\<close>

theorem selectTestUser_rounds_large_ids:
  "to_double 9007199254740994 = 9007199254740994
   \<and> selectTestUser [''loadtest1@test.com'', ''loadtest2@test.com'', ''loadtest3@test.com'']
        9007199254740994 = Some ''loadtest3@test.com''
   \<and> [''loadtest1@test.com'', ''loadtest2@test.com'', ''loadtest3@test.com'']
        ! nat ((9007199254740994 - 1) mod 3) = ''loadtest1@test.com''"
  by (simp add: selectTestUser_def js_minus_def to_double_def round_to_double_def Let_def
      binary_digits.simps js_rem_def array_at_def)

text \<open>
  C10, amended. For a non-empty \<open>users\<close> array and an integer \<open>vuId \<ge> 1\<close>,
  \<open>selectTestUser\<close> returns an element of the array, never \<open>undefined\<close>. When
  \<open>vuId \<le> 2\<^sup>5\<^sup>3\<close>, as every \<open>__VU\<close> of k6 is, the element is the one at index
  \<open>(vuId - 1) mod users.length\<close>, and two such VU ids that are congruent modulo the
  array length get the same user.
\<close>

theorem selectTestUser_modular:
  assumes "users \<noteq> []" and "1 \<le> vuId"
  shows "(\<exists>u. selectTestUser users vuId = Some u \<and> u \<in> set users)
       \<and> (vuId \<le> 2 ^ 53 \<longrightarrow>
            selectTestUser users vuId = Some (users ! nat ((vuId - 1) mod int (length users))))
       \<and> (vuId \<le> 2 ^ 53 \<and> 1 \<le> vuId' \<and> vuId' \<le> 2 ^ 53
            \<and> vuId mod int (length users) = vuId' mod int (length users) \<longrightarrow>
            selectTestUser users vuId' = selectTestUser users vuId)"
proof (intro conjI impI)
  show "\<exists>u. selectTestUser users vuId = Some u \<and> u \<in> set users"
    using assms by (rule selectTestUser_element)
next
  assume "vuId \<le> 2 ^ 53"
  with assms show "selectTestUser users vuId
      = Some (users ! nat ((vuId - 1) mod int (length users)))"
    by (rule selectTestUser_index)
next
  let ?n = "int (length users)"
  assume a: "vuId \<le> 2 ^ 53 \<and> 1 \<le> vuId' \<and> vuId' \<le> 2 ^ 53 \<and> vuId mod ?n = vuId' mod ?n"
  then have "(vuId - 1) mod ?n = (vuId' - 1) mod ?n"
    by (metis mod_diff_left_eq)
  then show "selectTestUser users vuId' = selectTestUser users vuId"
    using a selectTestUser_index [OF assms(1) assms(2)]
      selectTestUser_index [OF assms(1), of vuId']
    by simp
qed

theorem selectTestUser_modular_witness:
  "[''a'', ''b'', ''c''] \<noteq> [] \<and> (1::int) \<le> 5 \<and> (5::int) \<le> 2 ^ 53 \<and> (1::int) \<le> 8
   \<and> (8::int) \<le> 2 ^ 53 \<and> (5::int) mod int (length [''a'', ''b'', ''c'']) = 8 mod int (length [''a'', ''b'', ''c''])
   \<and> selectTestUser [''a'', ''b'', ''c''] 5 = Some ''b''
   \<and> ''b'' \<in> set [''a'', ''b'', ''c'']
   \<and> selectTestUser [''a'', ''b'', ''c''] 8 = selectTestUser [''a'', ''b'', ''c''] 5"
  using selectTestUser_modular [of "[''a'', ''b'', ''c'']" 5 8] by simp

end
